(* ===== verification/Prelude.thy ===== *)
theory Prelude
  imports Complex_Main "HOL-Library.Word"
begin

unbundle bit_operations_syntax

text \<open>
  Shared vocabulary of the development.

  A JavaScript string of the server (\<open>src/server.js\<close>) is modelled as the list of
  the bytes of its UTF-8 encoding: an Isabelle \<^typ>\<open>string\<close>, whose \<^typ>\<open>char\<close>s
  are bytes. \<open>Buffer.from(s)\<close> is then the identity on the bytes
  (\<open>bytes_of\<close>), and \<open>buf.toString()\<close> its inverse (\<open>str_of_bytes\<close>).
  Node's buffers are lists of \<^typ>\<open>8 word\<close>.

  This theory holds the string primitives of the ECMAScript library that the code
  calls with one-character arguments (\<open>replaceAll\<close>, \<open>split\<close>), the
  whitespace trimming of \<open>String.prototype.trim\<close>, and the generic lemmas that the
  component theories share through the collection \<open>js_simps\<close>.
\<close>

named_theorems js_simps "equations of the modelled ECMAScript string primitives"

type_synonym byte = "8 word"

subsection \<open>Strings and buffers\<close>

definition bytes_of :: "string \<Rightarrow> byte list" where
  "bytes_of s = map (\<lambda>c. word_of_nat (of_char c)) s"

definition str_of_bytes :: "byte list \<Rightarrow> string" where
  "str_of_bytes bs = map (\<lambda>b. char_of (unat b)) bs"

subsection \<open>\<open>String.prototype.replaceAll\<close> with a one-character pattern\<close>

text \<open>Every occurrence of the character \<open>c\<close> is replaced by the string \<open>r\<close>.\<close>

definition replace_all1 :: "char \<Rightarrow> string \<Rightarrow> string \<Rightarrow> string" where
  "replace_all1 c r s = concat (map (\<lambda>x. if x = c then r else [x]) s)"

subsection \<open>\<open>String.prototype.split\<close> with a one-character separator\<close>

text \<open>
  \<open>s.split(c)\<close> returns the maximal pieces between separators; the empty string
  gives one empty piece, a separator at either end gives an empty piece there.
\<close>

fun js_split :: "char \<Rightarrow> string \<Rightarrow> string list" where
  "js_split c [] = [[]]"
| "js_split c (x # xs) =
     (let ps = js_split c xs in if x = c then [] # ps else (x # hd ps) # tl ps)"

subsection \<open>\<open>Array.prototype.join\<close> of strings\<close>

fun js_join :: "string \<Rightarrow> string list \<Rightarrow> string" where
  "js_join sep [] = []"
| "js_join sep [x] = x"
| "js_join sep (x # y # xs) = x @ sep @ js_join sep (y # xs)"

subsection \<open>\<open>String.prototype.trim\<close>\<close>

text \<open>
  The ECMAScript white space and line terminators (U+0009-U+000D, U+0020, U+00A0,
  U+1680, U+2000-U+200A, U+2028, U+2029, U+202F, U+205F, U+3000, U+FEFF) as the
  UTF-8 byte sequences of the model's strings.
\<close>

definition js_ws_seqs :: "string list" where
  "js_ws_seqs =
     [[CHR 0x09], [CHR 0x0A], [CHR 0x0B], [CHR 0x0C], [CHR 0x0D], [CHR 0x20],
      [CHR 0xC2, CHR 0xA0], [CHR 0xE1, CHR 0x9A, CHR 0x80]]
     @ map (\<lambda>n. [CHR 0xE2, CHR 0x80, char_of (0x80 + n)]) [0..<11]
     @ [[CHR 0xE2, CHR 0x80, CHR 0xA8], [CHR 0xE2, CHR 0x80, CHR 0xA9], [CHR 0xE2, CHR 0x80, CHR 0xAF],
        [CHR 0xE2, CHR 0x81, CHR 0x9F], [CHR 0xE3, CHR 0x80, CHR 0x80], [CHR 0xEF, CHR 0xBB, CHR 0xBF]]"

text \<open>Remove leading occurrences of the sequences \<open>ws\<close>.\<close>

function strip_ws :: "string list \<Rightarrow> string \<Rightarrow> string" where
  "strip_ws ws s =
     (case find (\<lambda>w. w \<noteq> [] \<and> take (length w) s = w) ws of
        None \<Rightarrow> s
      | Some w \<Rightarrow> strip_ws ws (drop (length w) s))"
  by pat_completeness auto
termination
  by (relation "measure (\<lambda>(ws, s). length s)")
     (auto simp: find_Some_iff min_def intro!: diff_less split: if_splits)

definition js_trim :: "string \<Rightarrow> string" where
  "js_trim s = rev (strip_ws (map rev js_ws_seqs) (rev (strip_ws js_ws_seqs s)))"

subsection \<open>Lemmas\<close>

lemma xor_eq_0_iff: "x XOR y = 0 \<longleftrightarrow> x = (y :: 'a::len word)"
  by (metis bit.xor_self word_bw_lcs(3) bit.xor_left_self)

lemma bytes_of_Nil [simp, js_simps]: "bytes_of [] = []"
  and bytes_of_Cons [simp, js_simps]: "bytes_of (c # s) = word_of_nat (of_char c) # bytes_of s"
  and bytes_of_append [simp, js_simps]: "bytes_of (s @ t) = bytes_of s @ bytes_of t"
  by (simp_all add: bytes_of_def)

lemma length_bytes_of [simp]: "length (bytes_of s) = length s"
  by (simp add: bytes_of_def)

lemma str_of_bytes_of [simp]: "str_of_bytes (bytes_of s) = s"
proof -
  have "\<And>c::char. char_of (unat (word_of_nat (of_char c) :: byte)) = c"
    by (simp add: unat_of_nat of_char_mod_256)
  then show ?thesis by (simp add: bytes_of_def str_of_bytes_def comp_def)
qed

lemma word_of_char_of_unat [simp]: "word_of_nat (of_char (char_of (unat b) :: char)) = (b :: byte)"
proof -
  have "unat b < 2 ^ LENGTH(8)" by (rule unsigned_less)
  then have "unat b mod 256 = unat b" by simp
  then show ?thesis by simp
qed

lemma bytes_of_str [simp]: "bytes_of (str_of_bytes bs) = bs"
  by (simp add: bytes_of_def str_of_bytes_def comp_def del: of_char_of)

lemma bytes_of_inject [simp]: "bytes_of s = bytes_of t \<longleftrightarrow> s = t"
  by (metis str_of_bytes_of)

lemma replace_all1_Nil [simp, js_simps]: "replace_all1 c r [] = []"
  and replace_all1_Cons [simp, js_simps]:
    "replace_all1 c r (x # xs) = (if x = c then r else [x]) @ replace_all1 c r xs"
  and replace_all1_append [simp, js_simps]:
    "replace_all1 c r (xs @ ys) = replace_all1 c r xs @ replace_all1 c r ys"
  by (simp_all add: replace_all1_def)

lemma replace_all1_absent [simp]: "c \<notin> set s \<Longrightarrow> replace_all1 c r s = s"
  by (induction s) auto

lemma js_split_nonempty [simp]: "js_split c s \<noteq> []"
  by (induction s) (auto simp: Let_def)

lemma js_split_absent: "c \<notin> set s \<Longrightarrow> js_split c s = [s]"
  by (induction s) (auto simp: Let_def)

lemma js_split_sep: "c \<notin> set a \<Longrightarrow> js_split c (a @ c # b) = a # js_split c b"
  by (induction a) (auto simp: Let_def)

lemma length_js_split: "length (js_split c s) = Suc (count_list s c)"
  by (induction s) (auto simp: Let_def)

lemma js_split_single: "js_split c s = [b] \<longleftrightarrow> c \<notin> set s \<and> b = s"
proof
  assume "js_split c s = [b]"
  then have "count_list s c = 0" using length_js_split [of c s] by simp
  then have "c \<notin> set s" by (simp add: count_list_0_iff)
  with \<open>js_split c s = [b]\<close> show "c \<notin> set s \<and> b = s" by (simp add: js_split_absent)
qed (simp add: js_split_absent)

lemma js_split_two:
  "js_split c s = [a, b] \<longleftrightarrow> c \<notin> set a \<and> c \<notin> set b \<and> s = a @ c # b"
proof (induction s arbitrary: a)
  case Nil
  then show ?case by simp
next
  case (Cons x xs)
  show ?case
  proof (cases "x = c")
    case True
    then show ?thesis by (auto simp: Let_def js_split_single Cons_eq_append_conv)
  next
    case False
    obtain p ps where ps: "js_split c xs = p # ps"
      by (cases "js_split c xs") auto
    from False ps have "js_split c (x # xs) = (x # p) # ps" by simp
    moreover have "js_split c xs = [tl a, b] \<longleftrightarrow> c \<notin> set (tl a) \<and> c \<notin> set b \<and> xs = tl a @ c # b"
      by (rule Cons.IH)
    ultimately show ?thesis using False ps
      by (cases a) auto
  qed
qed

subsection \<open>Trimming printable text\<close>

declare strip_ws.simps [simp del]

lemma js_ws_seqs_bytes: "\<forall>w \<in> set js_ws_seqs. \<forall>c \<in> set w. (of_char c :: nat) < 33 \<or> 128 \<le> (of_char c :: nat)"
  by code_simp

lemma strip_ws_printable:
  assumes ws: "\<forall>w \<in> set ws. \<forall>c \<in> set w. (of_char c :: nat) < 33 \<or> 128 \<le> (of_char c :: nat)"
    and s: "\<forall>c \<in> set s. 33 \<le> (of_char c :: nat) \<and> (of_char c :: nat) < 128"
  shows "strip_ws ws s = s"
proof -
  have "find (\<lambda>w. w \<noteq> [] \<and> take (length w) s = w) ws = None"
  proof (rule ccontr)
    assume "find (\<lambda>w. w \<noteq> [] \<and> take (length w) s = w) ws \<noteq> None"
    then obtain w where "w \<in> set ws" "w \<noteq> []" "take (length w) s = w"
      by (auto simp: find_None_iff)
    then have "hd w \<in> set w" by simp
    moreover have "set w \<subseteq> set s" using set_take_subset [of "length w" s] \<open>take (length w) s = w\<close> by simp
    ultimately have "hd w \<in> set w" "hd w \<in> set s" by auto
    with ws s \<open>w \<in> set ws\<close> show False by fastforce
  qed
  then show ?thesis by (simp add: strip_ws.simps [of ws s])
qed

lemma js_trim_printable:
  "\<forall>c \<in> set s. 33 \<le> (of_char c :: nat) \<and> (of_char c :: nat) < 128 \<Longrightarrow> js_trim s = s"
proof -
  assume s: "\<forall>c \<in> set s. 33 \<le> (of_char c :: nat) \<and> (of_char c :: nat) < 128"
  have "strip_ws js_ws_seqs s = s" using js_ws_seqs_bytes s by (rule strip_ws_printable)
  moreover have "strip_ws (map rev js_ws_seqs) (rev s) = rev s"
    using js_ws_seqs_bytes s by (intro strip_ws_printable) auto
  ultimately show ?thesis by (simp add: js_trim_def)
qed

lemma js_trim_Nil [simp]: "js_trim [] = []"
  by (simp add: js_trim_printable)

subsection \<open>Trimming is idempotent\<close>

lemma strip_ws_None: "find (\<lambda>w. w \<noteq> [] \<and> take (length w) s = w) ws = None \<Longrightarrow> strip_ws ws s = s"
  by (simp add: strip_ws.simps [of ws s])

lemma strip_ws_Some:
  "find (\<lambda>w. w \<noteq> [] \<and> take (length w) s = w) ws = Some w \<Longrightarrow> strip_ws ws s = strip_ws ws (drop (length w) s)"
  by (simp add: strip_ws.simps [of ws s])

lemma strip_ws_no_prefix:
  "\<forall>w \<in> set ws. w \<noteq> [] \<longrightarrow> take (length w) (strip_ws ws s) \<noteq> w"
proof (induction ws s rule: strip_ws.induct)
  case (1 ws s)
  show ?case
  proof (cases "find (\<lambda>w. w \<noteq> [] \<and> take (length w) s = w) ws")
    case None
    then show ?thesis by (auto simp: strip_ws_None find_None_iff)
  next
    case (Some w)
    then show ?thesis using "1.IH" [OF Some] by (simp add: strip_ws_Some)
  qed
qed

lemma strip_ws_fix:
  "\<forall>w \<in> set ws. w \<noteq> [] \<longrightarrow> take (length w) s \<noteq> w \<Longrightarrow> strip_ws ws s = s"
  by (rule strip_ws_None) (auto simp: find_None_iff)

lemma strip_ws_drop: "\<exists>k. strip_ws ws s = drop k s"
proof (induction ws s rule: strip_ws.induct)
  case (1 ws s)
  show ?case
  proof (cases "find (\<lambda>w. w \<noteq> [] \<and> take (length w) s = w) ws")
    case None
    then have "strip_ws ws s = drop 0 s" by (simp add: strip_ws_None)
    then show ?thesis ..
  next
    case (Some w)
    then obtain k where "strip_ws ws (drop (length w) s) = drop k (drop (length w) s)"
      using "1.IH" [OF Some] by blast
    then have "strip_ws ws s = drop (length w + k) s" using Some by (simp add: strip_ws_Some add.commute)
    then show ?thesis ..
  qed
qed

lemma take_prefix_take: "take (length w) (take n a) = w \<Longrightarrow> take (length w) a = w"
proof -
  assume h: "take (length w) (take n a) = w"
  then have "length (take (length w) (take n a)) = length w" by simp
  then have "length w \<le> n" by simp
  with h show ?thesis by (simp add: min_absorb1)
qed

lemma js_trim_idem: "js_trim (js_trim s) = js_trim s"
proof -
  let ?ws = js_ws_seqs
  define A where "A = strip_ws ?ws s"
  define B where "B = strip_ws (map rev ?ws) (rev A)"
  have trim: "js_trim s = rev B" by (simp add: js_trim_def A_def B_def)
  obtain k where Bk: "B = drop k (rev A)" using strip_ws_drop unfolding B_def by blast
  have pre: "rev B = take (length A - k) A" using Bk by (simp add: rev_drop)
  have noA: "\<forall>w \<in> set ?ws. w \<noteq> [] \<longrightarrow> take (length w) A \<noteq> w"
    unfolding A_def by (rule strip_ws_no_prefix)
  have "\<forall>w \<in> set ?ws. w \<noteq> [] \<longrightarrow> take (length w) (rev B) \<noteq> w"
    using noA take_prefix_take unfolding pre by blast
  then have front: "strip_ws ?ws (rev B) = rev B" by (rule strip_ws_fix)
  have suffix: "strip_ws (map rev ?ws) B = B"
    using strip_ws_no_prefix [of "map rev ?ws" "rev A"] unfolding B_def [symmetric]
    by (intro strip_ws_fix) auto
  have "js_trim (rev B) = rev B"
    unfolding js_trim_def front rev_rev_ident suffix ..
  then show ?thesis unfolding trim .
qed

end
