(* ===== verification/Base64.thy ===== *)
theory Base64
  imports Prelude "HOL-Library.While_Combinator"
begin

unbundle bit_operations_syntax

text \<open>
  The URL-safe base64 codec of \<open>src/server.js\<close> (\<open>b64urlEncode\<close>, lines 117-119,
  and \<open>b64urlDecode\<close>, lines 120-124) and the parts of Node's \<open>Buffer\<close> base64
  codec they call: \<open>buf.toString("base64")\<close> (padded standard alphabet) and
  \<open>Buffer.from(str, "base64")\<close>, Node's lenient decoder, which reads both the
  standard and the URL-safe alphabet, skips every other character and stops at the
  first \<open>=\<close>. Bytes are \<^typ>\<open>8 word\<close>s and the bit packing is written with the
  masks and shifts of Node's decoder.

  Results: decoding inverts encoding (\<open>b64url_roundtrip\<close>); the encoded text uses the
  URL-safe alphabet only, so it never holds the token separator \<open>.\<close>; the padding
  loop of \<open>b64urlDecode\<close>, written as the \<open>while\<close> it is, terminates, appends at most
  three \<open>=\<close>, and does not change what is decoded.
\<close>

subsection \<open>Alphabet\<close>

definition b64_char :: "byte \<Rightarrow> char" where
  "b64_char v =
     (let n = unat v in
      if n < 26 then char_of (n + 65)
      else if n < 52 then char_of (n + 71)
      else if n < 62 then char_of (n - 4)
      else if n = 62 then CHR ''+'' else CHR ''/'')"

text \<open>Node's \<open>unbase64\<close> table: both alphabets are legal, everything else is not.\<close>

definition unbase64 :: "char \<Rightarrow> byte option" where
  "unbase64 c =
     (let n = (of_char c :: nat) in
      if 65 \<le> n \<and> n \<le> 90 then Some (word_of_nat (n - 65))
      else if 97 \<le> n \<and> n \<le> 122 then Some (word_of_nat (n - 71))
      else if 48 \<le> n \<and> n \<le> 57 then Some (word_of_nat (n + 4))
      else if n = 43 \<or> n = 45 then Some 62   \<comment> \<open>\<open>+\<close> or \<open>-\<close>\<close>
      else if n = 47 \<or> n = 95 then Some 63   \<comment> \<open>\<open>/\<close> or \<open>_\<close>\<close>
      else None)"

subsection \<open>Node's encoder: \<open>buf.toString("base64")\<close>\<close>

text \<open>Three bytes make four sextets; a last group of one or two bytes makes two or three.\<close>

fun b64_sextets_of :: "byte list \<Rightarrow> byte list" where
  "b64_sextets_of (a # b # c # rest) =
     [drop_bit 2 a, push_bit 4 (a AND 3) OR drop_bit 4 b,
      push_bit 2 (b AND 15) OR drop_bit 6 c, c AND 63] @ b64_sextets_of rest"
| "b64_sextets_of [a, b] =
     [drop_bit 2 a, push_bit 4 (a AND 3) OR drop_bit 4 b, push_bit 2 (b AND 15)]"
| "b64_sextets_of [a] = [drop_bit 2 a, push_bit 4 (a AND 3)]"
| "b64_sextets_of [] = []"

definition b64_encode :: "byte list \<Rightarrow> string" where
  "b64_encode bs =
     map b64_char (b64_sextets_of bs) @ replicate ((3 - length bs mod 3) mod 3) CHR ''=''"

subsection \<open>Node's decoder: \<open>Buffer.from(str, "base64")\<close>\<close>

text \<open>The legal characters before the first \<open>=\<close>, as sextets; others are skipped.\<close>

fun b64_sextets :: "string \<Rightarrow> byte list" where
  "b64_sextets [] = []"
| "b64_sextets (c # cs) =
     (if c = CHR ''='' then []
      else (case unbase64 c of None \<Rightarrow> b64_sextets cs | Some v \<Rightarrow> v # b64_sextets cs))"

text \<open>Four sextets make three bytes; a trailing group of three or two makes two or one,
  a single trailing sextet makes none (\<open>base64_decode_group_slow\<close>).\<close>

fun b64_decode_sextets :: "byte list \<Rightarrow> byte list" where
  "b64_decode_sextets (a # b # c # d # rest) =
     [push_bit 2 (a AND 63) OR drop_bit 4 (b AND 48),
      push_bit 4 (b AND 15) OR drop_bit 2 (c AND 60),
      push_bit 6 (c AND 3) OR (d AND 63)] @ b64_decode_sextets rest"
| "b64_decode_sextets [a, b, c] =
     [push_bit 2 (a AND 63) OR drop_bit 4 (b AND 48),
      push_bit 4 (b AND 15) OR drop_bit 2 (c AND 60)]"
| "b64_decode_sextets [a, b] = [push_bit 2 (a AND 63) OR drop_bit 4 (b AND 48)]"
| "b64_decode_sextets [a] = []"
| "b64_decode_sextets [] = []"

definition node_b64_decode :: "string \<Rightarrow> byte list" where
  "node_b64_decode s = b64_decode_sextets (b64_sextets s)"

subsection \<open>The server's URL-safe codec\<close>

definition b64url_of_bytes :: "byte list \<Rightarrow> string" where
  "b64url_of_bytes bs =
     replace_all1 CHR ''/'' ''_''
       (replace_all1 CHR ''+'' ''-'' (replace_all1 CHR ''='' [] (b64_encode bs)))"

definition b64urlEncode :: "string \<Rightarrow> string" where
  "b64urlEncode s = b64url_of_bytes (bytes_of s)"

text \<open>\<open>while (str.length % 4) str += "="\<close>\<close>

function pad_b64 :: "string \<Rightarrow> string" where
  "pad_b64 s = (if length s mod 4 \<noteq> 0 then pad_b64 (s @ ''='') else s)"
  by pat_completeness auto
termination
  by (relation "measure (\<lambda>s. (4 - length s mod 4) mod 4)") (auto simp: mod_Suc)

declare pad_b64.simps [simp del]

text \<open>The same loop as it is written, a \<open>while\<close> whose termination is not assumed:
  \<open>None\<close> would be a loop that never ends.\<close>

definition pad_loop :: "string \<Rightarrow> string option" where
  "pad_loop str = while_option (\<lambda>s. length s mod 4 \<noteq> 0) (\<lambda>s. s @ ''='') str"

definition b64urlDecode :: "string \<Rightarrow> string" where
  "b64urlDecode str =
     (let str' = replace_all1 CHR ''_'' ''/'' (replace_all1 CHR ''-'' ''+'' str)
      in str_of_bytes (node_b64_decode (pad_b64 str')))"

subsection \<open>The alphabet\<close>

definition is_b64url_char :: "char \<Rightarrow> bool" where
  "is_b64url_char c =
     (let n = (of_char c :: nat) in
      (65 \<le> n \<and> n \<le> 90) \<or> (97 \<le> n \<and> n \<le> 122) \<or> (48 \<le> n \<and> n \<le> 57)
      \<or> c = CHR ''-'' \<or> c = CHR ''_'')"

lemma unat_lt64_cases:
  "unat (v::byte) < 64 \<Longrightarrow>
     unat v < 26 \<or> (26 \<le> unat v \<and> unat v < 52) \<or> (52 \<le> unat v \<and> unat v < 62)
     \<or> unat v = 62 \<or> unat v = 63"
  by arith

lemma of_char_b64_char:
  assumes "unat v < 64"
  shows "of_char (b64_char v) =
    (if unat v < 26 then unat v + 65 else if unat v < 52 then unat v + 71
     else if unat v < 62 then unat v - 4 else if unat v = 62 then 43 else 47)"
  using assms by (simp add: b64_char_def Let_def)

lemma unbase64_b64_char [simp]:
  assumes "unat v < 64"
  shows "unbase64 (b64_char v) = Some v"
proof -
  have w: "word_of_nat (unat v) = v" by simp
  from unat_lt64_cases [OF assms] show ?thesis
  proof (elim disjE conjE)
    assume "unat v = 62"
    then have "v = 62" by (metis w of_nat_numeral)
    then show ?thesis by (simp add: b64_char_def unbase64_def Let_def)
  next
    assume "unat v = 63"
    then have "v = 63" by (metis w of_nat_numeral)
    then show ?thesis by (simp add: b64_char_def unbase64_def Let_def)
  qed (use w assms in \<open>auto simp: of_char_b64_char unbase64_def Let_def\<close>)
qed

lemma b64_char_not_pad [simp]: "unat v < 64 \<Longrightarrow> b64_char v \<noteq> CHR ''=''"
  using unbase64_b64_char [of v] by (auto simp: unbase64_def Let_def)

lemma b64_char_not_url [simp]:
  assumes "unat v < 64"
  shows "b64_char v \<noteq> CHR ''-''" and "b64_char v \<noteq> CHR ''_''"
proof -
  have "(of_char (b64_char v) :: nat) \<noteq> 45" and "(of_char (b64_char v) :: nat) \<noteq> 95"
    using assms by (auto simp: of_char_b64_char)
  then show "b64_char v \<noteq> CHR ''-''" and "b64_char v \<noteq> CHR ''_''" by auto
qed

lemma b64_char_url_cases:
  assumes "unat v < 64"
  shows "(unat v < 62 \<and> is_b64url_char (b64_char v)) \<or> b64_char v = CHR ''+'' \<or> b64_char v = CHR ''/''"
proof (cases "unat v < 62")
  case True
  then show ?thesis by (auto simp: is_b64url_char_def of_char_b64_char assms Let_def)
next
  case False
  with assms show ?thesis by (auto simp: b64_char_def Let_def)
qed

subsection \<open>Bit packing\<close>

lemma bit_index_lt8: "n < (8::nat) \<longleftrightarrow> n = 0 \<or> n = 1 \<or> n = 2 \<or> n = 3 \<or> n = 4 \<or> n = 5 \<or> n = 6 \<or> n = 7"
  by auto

lemma Suc_numerals: "Suc (Suc 0) = 2" "Suc (Suc (Suc 0)) = 3"
  by simp_all

lemmas byte_bit_simps = bit_simps bit_index_lt8 Suc_numerals

text \<open>Each sextet the encoder emits has its two high bits clear.\<close>

lemma enc_sextets_masked:
  "drop_bit 2 a AND 63 = (drop_bit 2 a :: byte)"
  "(push_bit 4 (a AND 3) OR drop_bit 4 b) AND 63 = (push_bit 4 (a AND 3) OR drop_bit 4 b :: byte)"
  "(push_bit 2 (b AND 15) OR drop_bit 6 c) AND 63 = (push_bit 2 (b AND 15) OR drop_bit 6 c :: byte)"
  "push_bit 2 (b AND 15) AND 63 = (push_bit 2 (b AND 15) :: byte)"
  "push_bit 4 (a AND 3) AND 63 = (push_bit 4 (a AND 3) :: byte)"
  "(c AND 63) AND 63 = (c AND 63 :: byte)"
  by (rule bit_word_eqI; auto simp: byte_bit_simps dest: bit_imp_le_length)+

text \<open>Node's decoder reassembles each byte from the encoder's sextets.\<close>

lemma dec_enc_group:
  "push_bit 2 (drop_bit 2 a AND 63) OR drop_bit 4 ((push_bit 4 (a AND 3) OR drop_bit 4 b) AND 48)
     = (a :: byte)"
  "push_bit 2 (drop_bit 2 a AND 63) OR drop_bit 4 (push_bit 4 (a AND 3) AND 48) = (a :: byte)"
  "push_bit 4 ((push_bit 4 (a AND 3) OR drop_bit 4 b) AND 15)
     OR drop_bit 2 ((push_bit 2 (b AND 15) OR drop_bit 6 c) AND 60) = (b :: byte)"
  "push_bit 4 ((push_bit 4 (a AND 3) OR drop_bit 4 b) AND 15)
     OR drop_bit 2 (push_bit 2 (b AND 15) AND 60) = (b :: byte)"
  "push_bit 6 ((push_bit 2 (b AND 15) OR drop_bit 6 c) AND 3) OR ((c AND 63) AND 63) = (c :: byte)"
  by (rule bit_word_eqI; auto simp: byte_bit_simps dest: bit_imp_le_length)+

lemma sextet_lt64: "w AND 63 = w \<Longrightarrow> unat (w :: byte) < 64"
proof -
  assume "w AND 63 = w"
  moreover have "unat (w AND 63) \<le> unat (63 :: byte)"
    by (rule word_and_le1 [THEN word_le_nat_alt [THEN iffD1]])
  ultimately show ?thesis by simp
qed

lemma b64_sextets_of_lt64: "v \<in> set (b64_sextets_of bs) \<Longrightarrow> unat v < 64"
proof -
  assume "v \<in> set (b64_sextets_of bs)"
  then have "v AND 63 = v"
    by (induction bs rule: b64_sextets_of.induct)
       (auto simp only: b64_sextets_of.simps set_append list.set insert_iff empty_iff Un_iff
          enc_sextets_masked)
  then show ?thesis by (rule sextet_lt64)
qed

lemma b64_decode_sextets_of [simp]: "b64_decode_sextets (b64_sextets_of bs) = bs"
  by (induction bs rule: b64_sextets_of.induct)
     (simp_all only: b64_sextets_of.simps append_Cons append_Nil b64_decode_sextets.simps
        dec_enc_group)

lemma length_b64_sextets_of: "length (b64_sextets_of bs) = (4 * length bs + 2) div 3"
  by (induction bs rule: b64_sextets_of.induct) auto

subsection \<open>Decoding what was encoded\<close>

lemma b64_sextets_map_char:
  "(\<And>v. v \<in> set sx \<Longrightarrow> unat v < 64) \<Longrightarrow> b64_sextets (map b64_char sx) = sx"
  by (induction sx) auto

lemma b64_sextets_stop: "b64_sextets (s @ CHR ''='' # t) = b64_sextets s"
  by (induction s rule: b64_sextets.induct) (auto split: option.splits)

lemma b64_sextets_padded: "b64_sextets (s @ replicate k CHR ''='') = b64_sextets s"
proof (cases k)
  case (Suc m)
  then have "s @ replicate k CHR ''='' = s @ CHR ''='' # replicate m CHR ''=''" by simp
  then show ?thesis by (simp only: b64_sextets_stop)
qed simp

lemma pad_b64_eq: "pad_b64 s = s @ replicate ((4 - length s mod 4) mod 4) CHR ''=''"
proof (induction s rule: pad_b64.induct)
  case (1 s)
  show ?case
  proof (cases "length s mod 4 = 0")
    case True
    then show ?thesis by (simp add: pad_b64.simps)
  next
    case False
    then have "pad_b64 s = pad_b64 (s @ ''='')" by (simp add: pad_b64.simps)
    also have "\<dots> = s @ ''='' @ replicate ((4 - Suc (length s) mod 4) mod 4) CHR ''=''"
      using "1.IH" False by simp
    also have "\<dots> = s @ replicate ((4 - length s mod 4) mod 4) CHR ''=''"
    proof -
      have "Suc ((4 - Suc (length s) mod 4) mod 4) = (4 - length s mod 4) mod 4"
        using False by (auto simp: mod_Suc)
      then show ?thesis by (metis append_Cons append_Nil replicate_Suc)
    qed
    finally show ?thesis .
  qed
qed
lemma pad_loop_pad_b64: "pad_loop s = Some (pad_b64 s)"
proof (induction s rule: pad_b64.induct)
  case (1 s)
  show ?case
    using 1 unfolding pad_loop_def by (subst while_option_unfold) (simp add: pad_b64.simps)
qed

text \<open>C27: The padding loop \<open>while (str.length % 4) str += "="\<close> of \<open>b64urlDecode\<close>
  ends on every string, after appending the fewest \<open>=\<close> (at most three) that make
  the length a multiple of four.\<close>

theorem pad_loop_terminates:
  "pad_loop s = Some (s @ replicate ((4 - length s mod 4) mod 4) CHR ''='')"
  by (simp add: pad_loop_pad_b64 pad_b64_eq)

lemma pad_b64_bounds:
  "length (pad_b64 s) mod 4 = 0 \<and> length (pad_b64 s) < length s + 4"
proof -
  define k r where "k = length s div 4" and "r = length s mod 4"
  have s: "length s = 4 * k + r" and r: "r < 4" by (simp_all add: k_def r_def)
  have "length (pad_b64 s) = 4 * k + r + (4 - r) mod 4"
    by (simp add: pad_b64_eq s r_def [symmetric] r)
  also have "\<dots> = (if r = 0 then 4 * k else 4 * (k + 1))"
    using r by auto
  finally show ?thesis using s by simp
qed
lemma b64_chars_clean:
  "CHR ''='' \<notin> set (map b64_char (b64_sextets_of bs))"
  "CHR ''-'' \<notin> set (map b64_char (b64_sextets_of bs))"
  "CHR ''_'' \<notin> set (map b64_char (b64_sextets_of bs))"
proof -
  have "\<forall>v \<in> set (b64_sextets_of bs). b64_char v \<noteq> CHR ''='' \<and> b64_char v \<noteq> CHR ''-'' \<and> b64_char v \<noteq> CHR ''_''"
    by (auto dest: b64_sextets_of_lt64)
  then show "CHR ''='' \<notin> set (map b64_char (b64_sextets_of bs))"
    and "CHR ''-'' \<notin> set (map b64_char (b64_sextets_of bs))"
    and "CHR ''_'' \<notin> set (map b64_char (b64_sextets_of bs))" by auto
qed

lemma url_std_inverse:
  "CHR ''-'' \<notin> set s \<Longrightarrow> CHR ''_'' \<notin> set s \<Longrightarrow>
   replace_all1 CHR ''_'' ''/'' (replace_all1 CHR ''-'' ''+''
     (replace_all1 CHR ''/'' ''_'' (replace_all1 CHR ''+'' ''-'' s))) = s"
  by (induction s) auto

lemma b64_encode_strip:
  "replace_all1 CHR ''='' [] (b64_encode bs) = map b64_char (b64_sextets_of bs)"
proof -
  have "replace_all1 CHR ''='' [] (replicate k CHR ''='') = []" for k
    by (induction k) auto
  then show ?thesis
    using replace_all1_absent [OF b64_chars_clean(1)] by (simp add: b64_encode_def)
qed

lemma b64url_of_bytes_alt:
  "b64url_of_bytes bs =
     replace_all1 CHR ''/'' ''_'' (replace_all1 CHR ''+'' ''-'' (map b64_char (b64_sextets_of bs)))"
  by (simp add: b64url_of_bytes_def b64_encode_strip)

text \<open>Reading the URL-safe text back to Node's alphabet gives the encoder's characters.\<close>

lemma b64url_to_std:
  "replace_all1 CHR ''_'' ''/'' (replace_all1 CHR ''-'' ''+'' (b64url_of_bytes bs))
     = map b64_char (b64_sextets_of bs)"
  using url_std_inverse [OF b64_chars_clean(2,3)] by (simp add: b64url_of_bytes_alt)

lemma node_b64_decode_encoded:
  "node_b64_decode (pad_b64 (map b64_char (b64_sextets_of bs))) = bs"
proof -
  have "b64_sextets (map b64_char (b64_sextets_of bs)) = b64_sextets_of bs"
    using b64_sextets_of_lt64 by (blast intro: b64_sextets_map_char)
  then show ?thesis by (simp add: node_b64_decode_def pad_b64_eq b64_sextets_padded)
qed


lemma replace_url_chars_alphabet:
  "(\<And>v. v \<in> set sx \<Longrightarrow> unat v < 64) \<Longrightarrow>
   c \<in> set (replace_all1 CHR ''/'' ''_'' (replace_all1 CHR ''+'' ''-'' (map b64_char sx))) \<Longrightarrow>
   is_b64url_char c"
proof (induction sx)
  case (Cons v sx)
  have "unat v < 64" using Cons.prems(1) by simp
  then have "(unat v < 62 \<and> is_b64url_char (b64_char v)) \<or> b64_char v = CHR ''+'' \<or> b64_char v = CHR ''/''"
    by (rule b64_char_url_cases)
  moreover have "is_b64url_char (b64_char v) \<Longrightarrow> b64_char v \<noteq> CHR ''+'' \<and> b64_char v \<noteq> CHR ''/''"
    by (auto simp: is_b64url_char_def)
  ultimately consider (plain) "is_b64url_char (b64_char v)" "b64_char v \<noteq> CHR ''+''" "b64_char v \<noteq> CHR ''/''"
    | (plus) "b64_char v = CHR ''+''" | (slash) "b64_char v = CHR ''/''"
    by blast
  then show ?case
  proof cases
    case plain
    with Cons show ?thesis by auto
  next
    case plus
    with Cons show ?thesis by (auto simp: is_b64url_char_def)
  next
    case slash
    with Cons show ?thesis by (auto simp: is_b64url_char_def)
  qed
qed simp

subsection \<open>Properties of the codec\<close>

text \<open>C37: decoding with \<open>b64urlDecode\<close> returns exactly the string that
  \<open>b64urlEncode\<close> encoded.\<close>

theorem b64url_roundtrip: "b64urlDecode (b64urlEncode s) = s"
  by (simp add: b64urlDecode_def b64urlEncode_def b64url_to_std node_b64_decode_encoded)

text \<open>The encoded text holds only characters of the URL-safe alphabet.\<close>

lemma b64url_of_bytes_alphabet: "c \<in> set (b64url_of_bytes bs) \<Longrightarrow> is_b64url_char c"
  using b64_sextets_of_lt64 by (auto simp: b64url_of_bytes_alt intro: replace_url_chars_alphabet)

lemma b64url_no_dot [simp]: "CHR ''.'' \<notin> set (b64url_of_bytes bs)"
  using b64url_of_bytes_alphabet [of "CHR ''.''" bs] by (auto simp: is_b64url_char_def)

lemma b64urlEncode_no_dot [simp]: "CHR ''.'' \<notin> set (b64urlEncode s)"
  by (simp add: b64urlEncode_def)

lemma length_replace_url:
  "length (replace_all1 CHR ''/'' ''_'' (replace_all1 CHR ''+'' ''-'' s)) = length s"
  by (induction s) auto

text \<open>Unpadded length: \<open>\<lceil>4n/3\<rceil>\<close> characters for \<open>n\<close> bytes; 43 for a SHA-256 digest.\<close>

lemma length_b64url_of_bytes: "length (b64url_of_bytes bs) = (4 * length bs + 2) div 3"
  by (simp add: b64url_of_bytes_alt length_replace_url length_b64_sextets_of)

lemma b64url_of_bytes_inject: "b64url_of_bytes a = b64url_of_bytes b \<longleftrightarrow> a = b"
  by (metis b64url_to_std node_b64_decode_encoded)

text \<open>The padding loop of \<open>b64urlDecode\<close> only appends \<open>=\<close>, where Node's decoder stops:
  the bytes decoded do not depend on it.\<close>

lemma node_b64_decode_pad: "node_b64_decode (pad_b64 s) = node_b64_decode s"
  by (simp add: node_b64_decode_def pad_b64_eq b64_sextets_padded)

end
