(* ===== verification/JsonLex.thy ===== *)
theory JsonLex
  imports Prelude
begin

text \<open>
  Character-level pieces of the JSON text read by \<open>JSON.parse\<close> and written by
  \<open>JSON.stringify\<close> (ECMAScript's JSON object, called from \<open>signToken\<close> and
  \<open>verifyToken\<close> in \<open>src/server.js\<close>, lines 127 and 146): character classes,
  escapes and UTF-8 encoding for string literals, number literals read exactly as rationals, and the printing of
  strings and integers that \<open>JSON.stringify\<close> performs. Strings are UTF-8 byte
  strings, as everywhere in the development.

  The lemmas show that the number reader reads back what the integer printer
  writes.
\<close>

subsection \<open>Characters\<close>

definition is_json_ws :: "char \<Rightarrow> bool" where
  "is_json_ws c \<longleftrightarrow> c = CHR '' '' \<or> c = CHR 0x09 \<or> c = CHR 0x0A \<or> c = CHR 0x0D"

definition is_digit :: "char \<Rightarrow> bool" where
  "is_digit c \<longleftrightarrow> 48 \<le> (of_char c :: nat) \<and> (of_char c :: nat) \<le> 57"

definition digit_val :: "char \<Rightarrow> nat" where
  "digit_val c = of_char c - 48"

definition digits_val :: "string \<Rightarrow> nat" where
  "digits_val ds = foldl (\<lambda>n c. 10 * n + digit_val c) 0 ds"

definition hex_val :: "char \<Rightarrow> nat option" where
  "hex_val c =
     (let n = (of_char c :: nat) in
      if 48 \<le> n \<and> n \<le> 57 then Some (n - 48)
      else if 65 \<le> n \<and> n \<le> 70 then Some (n - 55)
      else if 97 \<le> n \<and> n \<le> 102 then Some (n - 87)
      else None)"

definition hex4 :: "char \<Rightarrow> char \<Rightarrow> char \<Rightarrow> char \<Rightarrow> nat option" where
  "hex4 a b c d =
     (case (hex_val a, hex_val b, hex_val c, hex_val d) of
        (Some w, Some x, Some y, Some z) \<Rightarrow> Some (((w * 16 + x) * 16 + y) * 16 + z)
      | _ \<Rightarrow> None)"

text \<open>UTF-8 encoding of a code point (of a lone surrogate too, as a three-byte sequence).\<close>

definition utf8_encode :: "nat \<Rightarrow> string" where
  "utf8_encode n =
     (if n < 0x80 then [char_of n]
      else if n < 0x800 then [char_of (0xC0 + n div 64), char_of (0x80 + n mod 64)]
      else if n < 0x10000 then
        [char_of (0xE0 + n div 4096), char_of (0x80 + n div 64 mod 64), char_of (0x80 + n mod 64)]
      else [char_of (0xF0 + n div 262144), char_of (0x80 + n div 4096 mod 64),
            char_of (0x80 + n div 64 mod 64), char_of (0x80 + n mod 64)])"

text \<open>The single-character escapes \<open>\" \\ \/ \b \f \n \r \t\<close>.\<close>

definition simple_escape :: "char \<Rightarrow> char option" where
  "simple_escape e =
     (if e = CHR 0x22 then Some (CHR 0x22)
      else if e = CHR 0x5C then Some (CHR 0x5C)
      else if e = CHR ''/'' then Some (CHR ''/'')
      else if e = CHR ''b'' then Some (CHR 0x08)
      else if e = CHR ''f'' then Some (CHR 0x0C)
      else if e = CHR ''n'' then Some (CHR 0x0A)
      else if e = CHR ''r'' then Some (CHR 0x0D)
      else if e = CHR ''t'' then Some (CHR 0x09)
      else None)"

subsection \<open>Number literals\<close>

text \<open>\<open>-? (0 | [1-9][0-9]*) (. [0-9]+)? ([eE] [+-]? [0-9]+)?\<close>, read exactly.\<close>

definition lex_int_part :: "string \<Rightarrow> (nat \<times> string) option" where
  "lex_int_part s =
     (case s of
        [] \<Rightarrow> None
      | c # cs \<Rightarrow>
          (if c = CHR ''0'' then Some (0, cs)
           else if is_digit c then
             Some (digits_val (takeWhile is_digit s), dropWhile is_digit s)
           else None))"

definition lex_frac :: "string \<Rightarrow> (rat \<times> string) option" where
  "lex_frac s =
     (case s of
        c # cs \<Rightarrow>
          (if c = CHR ''.'' then
             (let ds = takeWhile is_digit cs in
              if ds = [] then None
              else Some (of_nat (digits_val ds) / 10 ^ length ds, dropWhile is_digit cs))
           else Some (0, s))
      | [] \<Rightarrow> Some (0, s))"

definition lex_exp :: "string \<Rightarrow> (int \<times> string) option" where
  "lex_exp s =
     (case s of
        c # cs \<Rightarrow>
          (if c = CHR ''e'' \<or> c = CHR ''E'' then
             (let (neg, cs') = (case cs of
                                  x # xs \<Rightarrow> (if x = CHR ''-'' then (True, xs)
                                             else if x = CHR ''+'' then (False, xs)
                                             else (False, cs))
                                | [] \<Rightarrow> (False, cs));
                  ds = takeWhile is_digit cs' in
              if ds = [] then None
              else Some ((if neg then - 1 else 1) * int (digits_val ds), dropWhile is_digit cs'))
           else Some (0, s))
      | [] \<Rightarrow> Some (0, s))"

text \<open>Characters that can occur in a number literal; the tokenizer reads a maximal run
  of them and accepts it when it is one number literal (a JSON text in which such a
  run holds a number followed by more of these characters is a syntax error either
  way).\<close>

definition is_num_char :: "char \<Rightarrow> bool" where
  "is_num_char c \<longleftrightarrow> is_digit c \<or> c = CHR ''-'' \<or> c = CHR ''+'' \<or> c = CHR ''.'' \<or> c = CHR ''e'' \<or> c = CHR ''E''"

definition scale10 :: "rat \<Rightarrow> int \<Rightarrow> rat" where
  "scale10 x e = (if 0 \<le> e then x * 10 ^ nat e else x / 10 ^ nat (- e))"

definition lex_num :: "string \<Rightarrow> (rat \<times> string) option" where
  "lex_num s =
     (let (neg, s1) = (case s of c # cs \<Rightarrow> (if c = CHR ''-'' then (True, cs) else (False, s))
                               | [] \<Rightarrow> (False, s)) in
      case lex_int_part s1 of
        None \<Rightarrow> None
      | Some (i, s2) \<Rightarrow>
          (case lex_frac s2 of
             None \<Rightarrow> None
           | Some (f, s3) \<Rightarrow>
               (case lex_exp s3 of
                  None \<Rightarrow> None
                | Some (e, s4) \<Rightarrow>
                    Some ((if neg then - 1 else 1) * scale10 (of_nat i + f) e, s4))))"


definition num_value :: "string \<Rightarrow> rat option" where
  "num_value ns = (case lex_num ns of Some (v, []) \<Rightarrow> Some v | _ \<Rightarrow> None)"

subsection \<open>Printing: \<open>JSON.stringify\<close> of strings and integers\<close>

text \<open>\<open>QuoteJSONString\<close>: the seven short escapes, \<open>\u00xx\<close> (lower-case hex)
  for the other control characters, every other byte as it is.\<close>

definition hex_digit :: "nat \<Rightarrow> char" where
  "hex_digit n = (if n < 10 then char_of (48 + n) else char_of (87 + n))"

definition json_escape_char :: "char \<Rightarrow> string" where
  "json_escape_char c =
     (if c = CHR 0x08 then [CHR 0x5C, CHR ''b'']
      else if c = CHR 0x09 then [CHR 0x5C, CHR ''t'']
      else if c = CHR 0x0A then [CHR 0x5C, CHR ''n'']
      else if c = CHR 0x0C then [CHR 0x5C, CHR ''f'']
      else if c = CHR 0x0D then [CHR 0x5C, CHR ''r'']
      else if c = CHR 0x22 then [CHR 0x5C, CHR 0x22]
      else if c = CHR 0x5C then [CHR 0x5C, CHR 0x5C]
      else if (of_char c :: nat) < 32 then
        [CHR 0x5C, CHR ''u'', CHR ''0'', CHR ''0'',
         hex_digit (of_char c div 16), hex_digit (of_char c mod 16)]
      else [c])"

definition json_quote :: "string \<Rightarrow> string" where
  "json_quote s = CHR 0x22 # concat (map json_escape_char s) @ [CHR 0x22]"

text \<open>\<open>Number::toString\<close> of an integral number below \<open>10\<^sup>2\<^sup>1\<close>: its decimal digits.\<close>

fun nat_str :: "nat \<Rightarrow> string" where
  "nat_str n = (if n < 10 then [char_of (48 + n)] else nat_str (n div 10) @ [char_of (48 + n mod 10)])"

definition int_str :: "int \<Rightarrow> string" where
  "int_str i = (if i < 0 then CHR ''-'' # nat_str (nat (- i)) else nat_str (nat i))"

subsection \<open>Reading back printed integers\<close>

declare nat_str.simps [simp del]

lemma is_digit_char [simp]: "(n::nat) < 10 \<Longrightarrow> is_digit (char_of (48 + n))"
  by (simp add: is_digit_def)

lemma digit_val_char [simp]: "(n::nat) < 10 \<Longrightarrow> digit_val (char_of (48 + n)) = n"
  by (simp add: digit_val_def)

lemma nat_str_digits: "c \<in> set (nat_str n) \<Longrightarrow> is_digit c"
proof (induction n rule: nat_str.induct)
  case (1 n)
  then show ?case by (cases "n < 10") (auto simp: nat_str.simps [of n])
qed

lemma char_of_48 [simp]: "char_of (48::nat) = CHR ''0''"
proof -
  have "of_char (CHR ''0'') = (48::nat)" by simp
  then show ?thesis by (metis char_of_char)
qed

lemma char_of_digit_zero: "(n::nat) < 10 \<Longrightarrow> char_of (48 + n) = CHR ''0'' \<longleftrightarrow> n = 0"
proof
  assume "n < 10" "char_of (48 + n) = CHR ''0''"
  then have "(of_char (char_of (48 + n) :: char) :: nat) = of_char (CHR ''0'')" by simp
  with \<open>n < 10\<close> show "n = 0" by simp
qed simp

lemma digits_val_snoc: "digits_val (ds @ [d]) = 10 * digits_val ds + digit_val d"
  by (simp add: digits_val_def)

lemma digits_val_nat_str [simp]: "digits_val (nat_str n) = n"
proof (induction n rule: nat_str.induct)
  case (1 n)
  show ?case
  proof (cases "n < 10")
    case True
    then show ?thesis by (simp add: nat_str.simps [of n] digits_val_def)
  next
    case False
    with "1.IH" show ?thesis by (simp add: nat_str.simps [of n] digits_val_snoc)
  qed
qed

lemma nat_str_Cons: "\<exists>d ds. nat_str n = d # ds \<and> (0 < n \<longrightarrow> d \<noteq> CHR ''0'')"
proof (induction n rule: nat_str.induct)
  case (1 n)
  show ?case
  proof (cases "n < 10")
    case True
    then show ?thesis by (auto simp: nat_str.simps [of n] char_of_digit_zero)
  next
    case False
    with "1.IH" obtain d ds where "nat_str (n div 10) = d # ds" "d \<noteq> CHR ''0''" by auto
    with False show ?thesis by (simp add: nat_str.simps [of n])
  qed
qed

lemma takeWhile_digits [simp]: "(\<And>c. c \<in> set ds \<Longrightarrow> P c) \<Longrightarrow> takeWhile P ds = ds"
  by (induction ds) auto

lemma lex_int_part_nat_str: "lex_int_part (nat_str n) = Some (n, [])"
proof -
  obtain d ds where nd: "nat_str n = d # ds" and nz: "0 < n \<longrightarrow> d \<noteq> CHR ''0''"
    using nat_str_Cons by blast
  have dig: "\<And>c. c \<in> set (nat_str n) \<Longrightarrow> is_digit c" by (rule nat_str_digits)
  show ?thesis
  proof (cases "n = 0")
    case True
    then show ?thesis by (simp add: lex_int_part_def nat_str.simps [of 0])
  next
    case False
    with nz have "d \<noteq> CHR ''0''" by simp
    moreover have "is_digit d" using dig nd by simp
    ultimately have "lex_int_part (nat_str n) =
        Some (digits_val (takeWhile is_digit (nat_str n)), dropWhile is_digit (nat_str n))"
      by (simp add: lex_int_part_def nd)
    also have "\<dots> = Some (n, [])" using dig by (simp add: dropWhile_eq_Nil_conv)
    finally show ?thesis .
  qed
qed

lemma num_value_int_str: "num_value (int_str i) = Some (of_int i)"
proof (cases "i < 0")
  case True
  have "lex_num (int_str i) = Some (- of_nat (nat (- i)), [])"
    using True lex_int_part_nat_str [of "nat (- i)"]
    by (simp add: lex_num_def int_str_def lex_frac_def lex_exp_def scale10_def)
  then show ?thesis using True by (simp add: num_value_def)
next
  case False
  obtain d ds where nd: "nat_str (nat i) = d # ds" "0 < nat i \<longrightarrow> d \<noteq> CHR ''0''"
    using nat_str_Cons by blast
  have "d \<noteq> CHR ''-''" using nat_str_digits [of d "nat i"] nd by (auto simp: is_digit_def)
  then have "lex_num (int_str i) = Some (of_nat (nat i), [])"
    using False lex_int_part_nat_str [of "nat i"] nd
    by (simp add: lex_num_def int_str_def lex_frac_def lex_exp_def scale10_def)
  then show ?thesis using False by (simp add: num_value_def)
qed
end
