(* ===== verification/Json.thy ===== *)
theory Json
  imports JsonLex
begin

text \<open>
  \<open>JSON.parse\<close> and the \<open>JSON.stringify\<close> of the token payload, as the token
  codec of \<open>src/server.js\<close> calls them (\<open>signToken\<close>, line 127;
  \<open>verifyToken\<close>, lines 146-147).

  \<open>JSON.parse\<close> is modelled in two stages: a tokenizer (\<open>json_tokens\<close>, mutually
  recursive with the string-literal lexer \<open>json_str\<close>) and an explicit-stack parser
  for the LL(1) grammar of JSON (\<open>parse_tokens\<close>, structural recursion on the
  tokens, the stack holding the open arrays and objects). Together they accept the
  texts that the recursive-descent parser of ECMAScript accepts and build the same
  value; every syntax error is \<open>None\<close>, where \<open>JSON.parse\<close> throws
  \<open>SyntaxError\<close>. Numbers are exact rationals (ECMAScript rounds them to
  doubles, which is exact for the integers the server writes). An object is the list
  of its members in source order, and a property read (\<open>get_prop\<close>) returns the
  last member of that name, as \<open>JSON.parse\<close> lets a later duplicate overwrite an
  earlier one. A \<open>\u\<close> escape becomes the UTF-8 encoding of its code point, a
  surrogate pair the encoding of the combined code point.

  The results: the tokenizer and the parser terminate on every input (they are total
  functions); \<open>JSON.parse\<close> reads back the payload that \<open>JSON.stringify\<close>
  writes (\<open>json_parse_payload\<close>).
\<close>

datatype jval =
    JNull
  | JBool bool
  | JNum rat
  | JStr string
  | JArr "jval list"
  | JObj "(string \<times> jval) list"

datatype token =
    TLBrace | TRBrace | TLBrack | TRBrack | TColon | TComma
  | TStr string | TNum rat | TTrue | TFalse | TNullTok

subsection \<open>Tokenizer\<close>

text \<open>\<open>json_str acc s\<close> lexes the rest of a string literal whose contents so far are
  \<open>acc\<close>, then goes on tokenizing after the closing quote.\<close>

function json_tokens :: "string \<Rightarrow> token list option"
  and json_str :: "string \<Rightarrow> string \<Rightarrow> token list option" where
  "json_tokens [] = Some []"
| "json_tokens (c # cs) =
     (if is_json_ws c then json_tokens cs
      else if c = CHR ''{'' then map_option (Cons TLBrace) (json_tokens cs)
      else if c = CHR ''}'' then map_option (Cons TRBrace) (json_tokens cs)
      else if c = CHR ''['' then map_option (Cons TLBrack) (json_tokens cs)
      else if c = CHR '']'' then map_option (Cons TRBrack) (json_tokens cs)
      else if c = CHR '':'' then map_option (Cons TColon) (json_tokens cs)
      else if c = CHR '','' then map_option (Cons TComma) (json_tokens cs)
      else if c = CHR 0x22 then json_str [] cs
      else if c = CHR ''-'' \<or> is_digit c then
        (case num_value (c # takeWhile is_num_char cs) of
           None \<Rightarrow> None
         | Some v \<Rightarrow> map_option (Cons (TNum v)) (json_tokens (dropWhile is_num_char cs)))
      else if c = CHR ''t'' \<and> take 3 cs = ''rue'' then map_option (Cons TTrue) (json_tokens (drop 3 cs))
      else if c = CHR ''f'' \<and> take 4 cs = ''alse'' then map_option (Cons TFalse) (json_tokens (drop 4 cs))
      else if c = CHR ''n'' \<and> take 3 cs = ''ull'' then map_option (Cons TNullTok) (json_tokens (drop 3 cs))
      else None)"
| "json_str acc [] = None"
| "json_str acc (c # cs) =
     (if c = CHR 0x22 then map_option (Cons (TStr acc)) (json_tokens cs)
      else if c = CHR 0x5C then
        (case cs of
           e # a # b # c' # d # rest \<Rightarrow>
             (if e = CHR ''u'' then
                (case hex4 a b c' d of
                   None \<Rightarrow> None
                 | Some u \<Rightarrow>
                     (if 0xD800 \<le> u \<and> u < 0xDC00 then
                        (case rest of
                           bs # uu # a2 # b2 # c2 # d2 # rest2 \<Rightarrow>
                             (case hex4 a2 b2 c2 d2 of
                                Some l \<Rightarrow>
                                  (if bs = CHR 0x5C \<and> uu = CHR ''u'' \<and> 0xDC00 \<le> l \<and> l < 0xE000
                                   then json_str (acc @ utf8_encode (0x10000 + (u - 0xD800) * 1024 + (l - 0xDC00))) rest2
                                   else json_str (acc @ utf8_encode u) rest)
                              | None \<Rightarrow> json_str (acc @ utf8_encode u) rest)
                         | _ \<Rightarrow> json_str (acc @ utf8_encode u) rest)
                      else json_str (acc @ utf8_encode u) rest))
              else (case simple_escape e of
                      None \<Rightarrow> None
                    | Some x \<Rightarrow> json_str (acc @ [x]) (a # b # c' # d # rest)))
         | e # rest \<Rightarrow>
             (case simple_escape e of
                None \<Rightarrow> None
              | Some x \<Rightarrow> json_str (acc @ [x]) rest)
         | [] \<Rightarrow> None)
      else if (of_char c :: nat) < 32 then None
      else json_str (acc @ [c]) cs)"
  by pat_completeness auto
termination
  by (relation "measure (\<lambda>x. case x of Inl s \<Rightarrow> length s | Inr (acc, s) \<Rightarrow> length s)")
     (auto simp: le_imp_less_Suc length_dropWhile_le)

subsection \<open>Parser\<close>

text \<open>The stack holds the open arrays (elements so far), the open objects (members so
  far) and, inside an object, the key whose value is being read.\<close>

datatype frame = FArr "jval list" | FObj "(string \<times> jval) list" | FKey "(string \<times> jval) list" string

text \<open>What the parser expects next: a value (\<open>True\<close>: or the \<open>]\<close> of an empty array),
  a key (\<open>True\<close>: or the \<open>}\<close> of an empty object), a colon, or what follows a
  complete value.\<close>

datatype pmode = PValue bool | PKey bool | PColon | PAfter jval

fun parse_tokens :: "pmode \<Rightarrow> frame list \<Rightarrow> token list \<Rightarrow> jval option" where
  "parse_tokens m st [] = (case (m, st) of (PAfter v, []) \<Rightarrow> Some v | _ \<Rightarrow> None)"
| "parse_tokens (PAfter v) st (t # ts) =
     (case st of
        FArr vs # st' \<Rightarrow>
          (if t = TComma then parse_tokens (PValue False) (FArr (vs @ [v]) # st') ts
           else if t = TRBrack then parse_tokens (PAfter (JArr (vs @ [v]))) st' ts
           else None)
      | FKey ps k # st' \<Rightarrow>
          (if t = TComma then parse_tokens (PKey False) (FObj (ps @ [(k, v)]) # st') ts
           else if t = TRBrace then parse_tokens (PAfter (JObj (ps @ [(k, v)]))) st' ts
           else None)
      | _ \<Rightarrow> None)"
| "parse_tokens PColon st (t # ts) =
     (if t = TColon then parse_tokens (PValue False) st ts else None)"
| "parse_tokens (PKey close) st (t # ts) =
     (case (t, st) of
        (TRBrace, FObj ps # st') \<Rightarrow> (if close then parse_tokens (PAfter (JObj ps)) st' ts else None)
      | (TStr k, FObj ps # st') \<Rightarrow> parse_tokens PColon (FKey ps k # st') ts
      | _ \<Rightarrow> None)"
| "parse_tokens (PValue close) st (t # ts) =
     (case t of
        TLBrace \<Rightarrow> parse_tokens (PKey True) (FObj [] # st) ts
      | TLBrack \<Rightarrow> parse_tokens (PValue True) (FArr [] # st) ts
      | TRBrack \<Rightarrow>
          (case st of
             FArr vs # st' \<Rightarrow> (if close then parse_tokens (PAfter (JArr vs)) st' ts else None)
           | _ \<Rightarrow> None)
      | TStr s \<Rightarrow> parse_tokens (PAfter (JStr s)) st ts
      | TNum r \<Rightarrow> parse_tokens (PAfter (JNum r)) st ts
      | TTrue \<Rightarrow> parse_tokens (PAfter (JBool True)) st ts
      | TFalse \<Rightarrow> parse_tokens (PAfter (JBool False)) st ts
      | TNullTok \<Rightarrow> parse_tokens (PAfter JNull) st ts
      | _ \<Rightarrow> None)"

text \<open>\<open>JSON.parse(text)\<close>; \<open>None\<close> is the \<open>SyntaxError\<close> it throws.\<close>

definition json_parse :: "string \<Rightarrow> jval option" where
  "json_parse s = (case json_tokens s of None \<Rightarrow> None | Some ts \<Rightarrow> parse_tokens (PValue False) [] ts)"

subsection \<open>Property access\<close>

text \<open>The value of the last member named \<open>k\<close>.\<close>

fun obj_lookup :: "(string \<times> jval) list \<Rightarrow> string \<Rightarrow> jval option" where
  "obj_lookup [] k = None"
| "obj_lookup ((k', v) # ps) k =
     (case obj_lookup ps k of Some w \<Rightarrow> Some w | None \<Rightarrow> if k' = k then Some v else None)"

text \<open>\<open>obj?.k\<close> on a parsed value: only objects have the property; \<open>None\<close> is
  \<open>undefined\<close>.\<close>

definition get_prop :: "jval \<Rightarrow> string \<Rightarrow> jval option" where
  "get_prop v k = (case v of JObj ps \<Rightarrow> obj_lookup ps k | _ \<Rightarrow> None)"

subsection \<open>\<open>JSON.stringify({ u, exp })\<close>\<close>

definition payload_json :: "string \<Rightarrow> int \<Rightarrow> string" where
  "payload_json u e =
     ''{'' @ json_quote ''u'' @ '':'' @ json_quote u @ '','' @ json_quote ''exp'' @ '':''
       @ int_str e @ ''}''"

subsection \<open>Reading back the payload\<close>

declare json_tokens.simps [simp del] json_str.simps [simp del]

lemma json_str_plain: "c \<noteq> CHR 0x22 \<Longrightarrow> c \<noteq> CHR 0x5C \<Longrightarrow> \<not> (of_char c :: nat) < 32 \<Longrightarrow>
   json_str acc (c # t) = json_str (acc @ [c]) t"
  by (simp add: json_str.simps(2) [of acc c t])

lemma json_str_short_escape:
  assumes "e \<noteq> CHR ''u''" "simple_escape e = Some x"
  shows "json_str acc (CHR 0x5C # e # t) = json_str (acc @ [x]) t"
proof -
  have "json_str acc (CHR 0x5C # e # t) =
     (case e # t of
        e # a # b # c' # d # rest \<Rightarrow>
          (case simple_escape e of None \<Rightarrow> None | Some x \<Rightarrow> json_str (acc @ [x]) (a # b # c' # d # rest))
      | e # rest \<Rightarrow> (case simple_escape e of None \<Rightarrow> None | Some x \<Rightarrow> json_str (acc @ [x]) rest)
      | [] \<Rightarrow> None)"
    using assms(1) by (simp add: json_str.simps(2) [of acc "CHR 0x5C" "e # t"] split: list.split)
  also have "\<dots> = json_str (acc @ [x]) t"
    using assms(2) by (simp split: list.split)
  finally show ?thesis .
qed


lemma hex_val_hex_digit [simp]: "(k::nat) < 16 \<Longrightarrow> hex_val (hex_digit k) = Some k"
  by (auto simp: hex_val_def hex_digit_def Let_def)

lemma hex4_escape: "(n::nat) < 256 \<Longrightarrow>
    hex4 (CHR ''0'') (CHR ''0'') (hex_digit (n div 16)) (hex_digit (n mod 16)) = Some n"
proof -
  assume "n < 256"
  then have "n div 16 < 16" "n mod 16 < (16::nat)" by simp_all
  moreover have "hex_val (CHR ''0'') = Some 0" by (simp add: hex_val_def)
  ultimately show ?thesis by (simp add: hex4_def)
qed

lemma json_str_u_escape:
  assumes "(of_char c :: nat) < 32"
  shows "json_str acc (CHR 0x5C # CHR ''u'' # CHR ''0'' # CHR ''0'' #
      hex_digit (of_char c div 16) # hex_digit (of_char c mod 16) # t) = json_str (acc @ [c]) t"
proof -
  have "hex4 (CHR ''0'') (CHR ''0'') (hex_digit (of_char c div 16)) (hex_digit (of_char c mod 16))
      = Some (of_char c)"
    using assms by (simp add: hex4_escape)
  moreover have "utf8_encode (of_char c) = [c]"
    using assms by (simp add: utf8_encode_def)
  ultimately show ?thesis
    using assms by (simp add: json_str.simps(2) [of acc "CHR 0x5C"])
qed

lemma json_str_escape_char: "json_str acc (json_escape_char c @ t) = json_str (acc @ [c]) t"
proof -
  consider "c = CHR 0x08" | "c = CHR 0x09" | "c = CHR 0x0A" | "c = CHR 0x0C" | "c = CHR 0x0D"
    | "c = CHR 0x22" | "c = CHR 0x5C"
    | "c \<notin> {CHR 0x08, CHR 0x09, CHR 0x0A, CHR 0x0C, CHR 0x0D, CHR 0x22, CHR 0x5C}" "(of_char c :: nat) < 32"
    | "c \<notin> {CHR 0x08, CHR 0x09, CHR 0x0A, CHR 0x0C, CHR 0x0D, CHR 0x22, CHR 0x5C}" "\<not> (of_char c :: nat) < 32"
    by blast
  then show ?thesis
  proof cases
    case 8
    then show ?thesis by (simp add: json_escape_char_def json_str_u_escape)
  next
    case 9
    then show ?thesis by (simp add: json_escape_char_def json_str_plain)
  qed (simp_all add: json_escape_char_def json_str_short_escape simple_escape_def)
qed

lemma json_str_quoted:
  "json_str acc (concat (map json_escape_char s) @ CHR 0x22 # rest)
     = map_option (Cons (TStr (acc @ s))) (json_tokens rest)"
proof (induction s arbitrary: acc)
  case Nil
  then show ?case by (simp add: json_str.simps(2))
next
  case (Cons c s)
  then show ?case by (simp add: json_str_escape_char)
qed

lemma json_tokens_quote:
  "json_tokens (json_quote s @ rest) = map_option (Cons (TStr s)) (json_tokens rest)"
  by (simp add: json_quote_def json_tokens.simps(2) [of "CHR 0x22"] is_json_ws_def json_str_quoted)

lemma json_tokens_punct:
  "json_tokens (CHR ''{'' # cs) = map_option (Cons TLBrace) (json_tokens cs)"
  "json_tokens (CHR ''}'' # cs) = map_option (Cons TRBrace) (json_tokens cs)"
  "json_tokens (CHR '':'' # cs) = map_option (Cons TColon) (json_tokens cs)"
  "json_tokens (CHR '','' # cs) = map_option (Cons TComma) (json_tokens cs)"
  by (simp_all add: json_tokens.simps(2) is_json_ws_def)


lemma int_str_num_chars: "c \<in> set (int_str i) \<Longrightarrow> is_num_char c"
  using nat_str_digits by (auto simp: int_str_def is_num_char_def split: if_splits)

lemma int_str_Cons: "\<exists>d ds. int_str i = d # ds \<and> (d = CHR ''-'' \<or> is_digit d)"
proof (cases "i < 0")
  case True
  then show ?thesis by (simp add: int_str_def)
next
  case False
  obtain d ds where "nat_str (nat i) = d # ds" using nat_str_Cons by blast
  moreover have "is_digit d" using nat_str_digits [of d "nat i"] calculation by simp
  ultimately show ?thesis using False by (simp add: int_str_def)
qed

lemma json_tokens_int_str:
  assumes "\<not> is_num_char c"
  shows "json_tokens (int_str i @ c # r) = map_option (Cons (TNum (of_int i))) (json_tokens (c # r))"
proof -
  obtain d ds where i: "int_str i = d # ds" and d: "d = CHR ''-'' \<or> is_digit d"
    using int_str_Cons by blast
  have ds: "\<forall>x \<in> set ds. is_num_char x" using int_str_num_chars i by (metis list.set_intros(2))
  have tw: "takeWhile is_num_char (ds @ c # r) = ds" using ds assms by (simp add: takeWhile_append2)
  have dw: "dropWhile is_num_char (ds @ c # r) = c # r" using ds assms by (simp add: dropWhile_append2)
  have nv: "num_value (d # ds) = Some (of_int i)" using num_value_int_str [of i] i by simp
  have "\<not> is_json_ws d" "d \<noteq> CHR ''{''" "d \<noteq> CHR ''}''" "d \<noteq> CHR ''[''" "d \<noteq> CHR '']''"
    "d \<noteq> CHR '':''" "d \<noteq> CHR '',''" "d \<noteq> CHR 0x22"
    using d by (auto simp: is_json_ws_def is_digit_def)
  then show ?thesis using d
    by (simp add: i json_tokens.simps(2) [of d] tw dw nv)
qed

lemma json_tokens_payload:
  "json_tokens (payload_json u e) =
     Some [TLBrace, TStr ''u'', TColon, TStr u, TComma, TStr ''exp'', TColon, TNum (of_int e), TRBrace]"
proof -
  have "\<not> is_num_char (CHR ''}'')" by (simp add: is_num_char_def is_digit_def)
  then show ?thesis
    by (simp add: payload_json_def json_tokens_punct json_tokens_quote json_tokens_int_str
        json_tokens.simps(1))
qed

text \<open>C38: \<open>JSON.parse\<close> reads back the payload that \<open>JSON.stringify\<close> writes, for
  every user name and every integral expiry.\<close>

theorem json_parse_payload:
  "json_parse (payload_json u e) = Some (JObj [(''u'', JStr u), (''exp'', JNum (of_int e))])"
  by (simp add: json_parse_def json_tokens_payload)

end
