(* ===== verification/Token.thy ===== *)
theory Token
  imports Base64 Json
begin

text \<open>
  The session-token codec of \<open>src/server.js\<close>: \<open>signToken\<close> (lines 126-131),
  \<open>verifyToken\<close> (lines 133-150) and the middleware \<open>requireAdmin\<close>
  (lines 152-158).

  The keyed hash \<open>crypto.createHmac("sha256", secret).update(msg).digest()\<close> is
  a parameter \<open>hmac\<close> of every operation: a function from the secret and the message
  to the digest bytes, about which nothing is assumed (the theorems hold for every
  such function; unforgeability is the cryptographic assumption on it that the code
  relies on, and is not modelled). \<open>Date.now()\<close> is the parameter \<open>now\<close>
  (milliseconds, an integer). \<open>crypto.timingSafeEqual\<close> is Node's byte comparison:
  the OR of the XORs of the byte pairs, a \<open>RangeError\<close> on buffers of different
  lengths. A thrown exception is a value \<open>Inl e\<close> of the result.
\<close>

datatype js_error = SyntaxError | RangeError | TypeError | Error

type_synonym hmac = "string \<Rightarrow> string \<Rightarrow> byte list"

subsection \<open>Node's \<open>crypto.timingSafeEqual\<close>\<close>

definition timingSafeEqual :: "byte list \<Rightarrow> byte list \<Rightarrow> js_error + bool" where
  "timingSafeEqual a b =
     (if length a \<noteq> length b then Inl RangeError
      else Inr (foldl (\<lambda>acc (x, y). acc OR (x XOR y)) 0 (zip a b) = 0))"

subsection \<open>Signing\<close>

text \<open>\<open>signToken({ u, exp })\<close>: the encoded payload, a dot, the encoded HMAC of the
  encoded payload.\<close>

definition sig_of :: "hmac \<Rightarrow> string \<Rightarrow> string \<Rightarrow> string" where
  "sig_of hmac secret payload = b64url_of_bytes (hmac secret payload)"

definition signToken :: "hmac \<Rightarrow> string \<Rightarrow> string \<Rightarrow> int \<Rightarrow> string" where
  "signToken hmac secret u e =
     (let payload = b64urlEncode (payload_json u e);
          sig = sig_of hmac secret payload
      in payload @ ''.'' @ sig)"

subsection \<open>Verification\<close>

text \<open>\<open>verifyToken(token)\<close>: \<open>Inr None\<close> is the \<open>null\<close> it returns,
  \<open>Inr (Some obj)\<close> the payload object, \<open>Inl e\<close> an exception it throws.\<close>

text \<open>Lines 147-149: the payload object is returned when it has a numeric \<open>exp\<close>
  that \<open>Date.now()\<close> has not passed.\<close>

definition check_exp :: "int \<Rightarrow> jval \<Rightarrow> jval option" where
  "check_exp now obj =
     (case get_prop obj ''exp'' of
        Some (JNum x) \<Rightarrow> (if rat_of_int now > x then None else Some obj)
      | _ \<Rightarrow> None)"

definition verifyToken :: "hmac \<Rightarrow> string \<Rightarrow> int \<Rightarrow> string \<Rightarrow> js_error + jval option" where
  "verifyToken hmac secret now token =
     (let parts = js_split CHR ''.'' token in
      if length parts \<noteq> 2 then Inr None
      else
        (let payload = parts ! 0;
             sig = parts ! 1;
             expected = sig_of hmac secret payload;
             a = bytes_of sig;
             b = bytes_of expected
         in if length a \<noteq> length b then Inr None
            else
              (case timingSafeEqual a b of
                 Inl err \<Rightarrow> Inl err
               | Inr False \<Rightarrow> Inr None
               | Inr True \<Rightarrow>
                   (case json_parse (b64urlDecode payload) of
                      None \<Rightarrow> Inl SyntaxError
                    | Some obj \<Rightarrow> Inr (check_exp now obj)))))"

subsection \<open>The middleware\<close>

text \<open>\<open>requireAdmin\<close> reads the \<open>Authorization\<close> header (\<open>None\<close>: absent):
  it calls the next handler, answers 401, or lets the exception of
  \<open>verifyToken\<close> reach Express, which answers 500.\<close>

datatype auth_outcome = AuthNext | AuthUnauthorized | AuthError js_error

definition bearer_token :: "string option \<Rightarrow> string" where
  "bearer_token hdr =
     (let auth = (case hdr of None \<Rightarrow> [] | Some h \<Rightarrow> h)
      in if take 7 auth = ''Bearer '' then js_trim (drop 7 auth) else [])"

definition requireAdmin :: "hmac \<Rightarrow> string \<Rightarrow> int \<Rightarrow> string option \<Rightarrow> auth_outcome" where
  "requireAdmin hmac secret now hdr =
     (case verifyToken hmac secret now (bearer_token hdr) of
        Inl err \<Rightarrow> AuthError err
      | Inr None \<Rightarrow> AuthUnauthorized
      | Inr (Some _) \<Rightarrow> AuthNext)"

subsection \<open>Properties\<close>

lemma foldl_or_xor_zero:
  "foldl (\<lambda>acc (x, y). acc OR (x XOR y)) z ps = (0 :: byte) \<longleftrightarrow> z = 0 \<and> (\<forall>(x, y) \<in> set ps. x = y)"
  by (induction ps arbitrary: z) (auto simp: or_eq_0_iff xor_eq_0_iff)

lemma zip_all_eq: "length a = length b \<Longrightarrow> (\<forall>(x, y) \<in> set (zip a b). x = y) \<longleftrightarrow> a = b"
  by (induction a b rule: list_induct2) auto

text \<open>Node's constant-time comparison \<open>timingSafeEqual\<close> throws \<open>RangeError\<close>
  on buffers of different lengths and otherwise returns whether the two buffers are equal.\<close>

theorem timingSafeEqual_iff:
  "timingSafeEqual a b = (if length a \<noteq> length b then Inl RangeError else Inr (a = b))"
  by (simp add: timingSafeEqual_def foldl_or_xor_zero zip_all_eq)

lemma sig_of_no_dot [simp]: "CHR ''.'' \<notin> set (sig_of hmac secret p)"
  by (simp add: sig_of_def)

lemma verifyToken_dotted:
  assumes "CHR ''.'' \<notin> set p" "CHR ''.'' \<notin> set s"
  shows "verifyToken hmac secret now (p @ CHR ''.'' # s) =
    (if s \<noteq> sig_of hmac secret p then Inr None
     else (case json_parse (b64urlDecode p) of
             None \<Rightarrow> Inl SyntaxError
           | Some obj \<Rightarrow> Inr (check_exp now obj)))"
proof -
  have split: "js_split CHR ''.'' (p @ CHR ''.'' # s) = [p, s]"
    using assms by (simp add: js_split_two)
  show ?thesis
  proof (cases "length (bytes_of s) = length (bytes_of (sig_of hmac secret p))")
    case True
    then show ?thesis
      by (simp add: verifyToken_def split timingSafeEqual_def foldl_or_xor_zero zip_all_eq Let_def)
  next
    case False
    then have "s \<noteq> sig_of hmac secret p" by auto
    with False show ?thesis by (simp add: verifyToken_def split Let_def)
  qed
qed

lemmas signToken_verify_simps = signToken_def Let_def verifyToken_dotted check_exp_def get_prop_def
  b64urlDecode_def b64urlEncode_def b64url_to_std node_b64_decode_encoded json_parse_def json_tokens_payload

text \<open>C1: verifying a token made by \<open>signToken\<close> with the same secret returns
  the payload \<open>{u, exp}\<close> when \<open>now \<le> exp\<close>, and \<open>null\<close> when \<open>now > exp\<close>.\<close>

theorem verify_signToken:
  "verifyToken hmac secret now (signToken hmac secret u e) =
     (if rat_of_int now > rat_of_int e then Inr None
      else Inr (Some (JObj [(''u'', JStr u), (''exp'', JNum (rat_of_int e))])))"
  by (simp add: signToken_verify_simps)


lemma verifyToken_parts_ne_2:
  "length (js_split CHR ''.'' t) \<noteq> 2 \<Longrightarrow> verifyToken hmac secret now t = Inr None"
  by (simp add: verifyToken_def)

text \<open>C4: a token that does not contain exactly one dot is rejected with \<open>null\<close>,
  never with an exception.\<close>

theorem verify_malformed:
  "count_list t CHR ''.'' \<noteq> 1 \<Longrightarrow> verifyToken hmac secret now t = Inr None"
  by (rule verifyToken_parts_ne_2) (simp add: length_js_split)

lemma signToken_parts:
  "signToken hmac secret u e = b64urlEncode (payload_json u e) @ CHR ''.'' # sig_of hmac secret (b64urlEncode (payload_json u e))"
  by (simp add: signToken_def Let_def)

text \<open>C2: changing any one character of the signature part of a token makes
  \<open>verifyToken\<close> return \<open>null\<close>.\<close>

theorem verify_tampered_sig:
  assumes "i < length (sig_of hmac secret p)" "c \<noteq> sig_of hmac secret p ! i" "CHR ''.'' \<notin> set p"
  shows "verifyToken hmac secret now (p @ CHR ''.'' # (sig_of hmac secret p)[i := c]) = Inr None"
proof (cases "c = CHR ''.''")
  case True
  have "CHR ''.'' \<in> set ((sig_of hmac secret p)[i := c])"
    using assms(1) True by (simp add: set_update_memI)
  then have "count_list ((sig_of hmac secret p)[i := c]) CHR ''.'' \<noteq> 0"
    by (simp add: count_list_0_iff)
  then have "length (js_split CHR ''.'' (p @ CHR ''.'' # (sig_of hmac secret p)[i := c])) \<noteq> 2"
    by (simp add: length_js_split)
  then show ?thesis by (rule verifyToken_parts_ne_2)
next
  case False
  have "(sig_of hmac secret p)[i := c] \<noteq> sig_of hmac secret p"
    using assms(1,2) by (metis nth_list_update_eq)
  moreover have "CHR ''.'' \<notin> set ((sig_of hmac secret p)[i := c])"
    using False set_update_subset_insert [of "sig_of hmac secret p" i c] by auto
  ultimately show ?thesis using assms(3) verifyToken_dotted by simp
qed


text \<open>C3: a token signed with one secret is rejected under another secret whenever
  the two HMACs of its payload differ.\<close>

theorem verify_wrong_secret:
  assumes "hmac secret' (b64urlEncode (payload_json u e)) \<noteq> hmac secret (b64urlEncode (payload_json u e))"
  shows "verifyToken hmac secret' now (signToken hmac secret u e) = Inr None"
proof -
  let ?p = "b64urlEncode (payload_json u e)"
  have "sig_of hmac secret ?p \<noteq> sig_of hmac secret' ?p"
    using assms by (simp add: sig_of_def b64url_of_bytes_inject)
  then show ?thesis by (simp add: signToken_parts verifyToken_dotted)
qed

text \<open>C5: \<open>verifyToken\<close> throws only \<open>SyntaxError\<close>, and only for a token whose
  signature part is the correct HMAC of its payload part.\<close>

theorem verify_throws_only_if_signed:
  assumes "verifyToken hmac secret now t = Inl err"
  shows "err = SyntaxError \<and> (\<exists>p. CHR ''.'' \<notin> set p \<and> t = p @ CHR ''.'' # sig_of hmac secret p)"
proof -
  have "length (js_split CHR ''.'' t) = 2"
    using assms verifyToken_parts_ne_2 by fastforce
  then obtain a b where ab: "js_split CHR ''.'' t = [a, b]"
    by (auto simp: length_Suc_conv numeral_2_eq_2)
  then have dots: "CHR ''.'' \<notin> set a" "CHR ''.'' \<notin> set b" and t: "t = a @ CHR ''.'' # b"
    by (simp_all add: js_split_two)
  have "b = sig_of hmac secret a"
    using assms dots by (auto simp: t verifyToken_dotted split: if_splits)
  moreover have "err = SyntaxError"
    using assms dots
    by (auto simp: t verifyToken_dotted split: if_splits option.splits jval.splits)
  ultimately show ?thesis using dots t by blast
qed


lemma signToken_printable:
  "c \<in> set (signToken hmac secret u e) \<Longrightarrow> 33 \<le> (of_char c :: nat) \<and> (of_char c :: nat) < 128"
proof -
  assume "c \<in> set (signToken hmac secret u e)"
  then have "is_b64url_char c \<or> c = CHR ''.''"
    by (auto simp: signToken_parts b64urlEncode_def sig_of_def dest: b64url_of_bytes_alphabet)
  then show ?thesis by (auto simp: is_b64url_char_def Let_def)
qed

lemma b64url_of_bytes_nonempty: "bs \<noteq> [] \<Longrightarrow> b64url_of_bytes bs \<noteq> []"
  using length_b64url_of_bytes [of bs] by (cases bs) auto

text \<open>C26: Every token \<open>signToken\<close> issues has the shape \<open>verifyToken\<close> expects: two
  parts around exactly one dot, a non-empty payload part, and both parts in the
  URL-safe base64 alphabet, so it travels in a header unchanged.\<close>

theorem signToken_shape:
  "\<exists>p sg. js_split CHR ''.'' (signToken hmac secret u e) = [p, sg] \<and> p \<noteq> []
     \<and> list_all is_b64url_char p \<and> list_all is_b64url_char sg"
proof (intro exI conjI)
  let ?p = "b64urlEncode (payload_json u e)"
  let ?sg = "sig_of hmac secret ?p"
  show "js_split CHR ''.'' (signToken hmac secret u e) = [?p, ?sg]"
    by (simp add: signToken_parts js_split_two sig_of_def)
  show "?p \<noteq> []"
    by (simp add: b64urlEncode_def payload_json_def b64url_of_bytes_nonempty)
  show "list_all is_b64url_char ?p" "list_all is_b64url_char ?sg"
    by (auto simp: list_all_iff b64urlEncode_def sig_of_def dest: b64url_of_bytes_alphabet)
qed

lemma bearer_token_Bearer:
  "(\<forall>c \<in> set t. 33 \<le> (of_char c :: nat) \<and> (of_char c :: nat) < 128) \<Longrightarrow>
   bearer_token (Some (''Bearer '' @ t)) = t"
  by (simp add: bearer_token_def js_trim_printable)

text \<open>A request carrying \<open>Bearer \<close> and a token signed with the server secret passes
  \<open>requireAdmin\<close> to the next handler until the expiry, and is answered 401 after it.\<close>

lemma requireAdmin_signToken:
  "requireAdmin hmac secret now (Some (''Bearer '' @ signToken hmac secret u e)) =
     (if rat_of_int now > rat_of_int e then AuthUnauthorized else AuthNext)"
proof -
  have "bearer_token (Some (''Bearer '' @ signToken hmac secret u e)) = signToken hmac secret u e"
    by (rule bearer_token_Bearer) (use signToken_printable in blast)
  then show ?thesis by (simp add: requireAdmin_def signToken_verify_simps)
qed

text \<open>C11: a request without an \<open>Authorization: Bearer\<close> header is answered 401.\<close>

theorem requireAdmin_no_bearer:
  assumes "\<forall>h. hdr = Some h \<longrightarrow> take 7 h \<noteq> ''Bearer ''"
  shows "requireAdmin hmac secret now hdr = AuthUnauthorized"
proof -
  have "bearer_token hdr = []" using assms by (cases hdr) (auto simp: bearer_token_def)
  then show ?thesis by (simp add: requireAdmin_def verifyToken_def)
qed


subsection \<open>Witnesses\<close>



theorem verify_malformed_witness:
  "count_list ''abc'' CHR ''.'' \<noteq> 1 \<and> verifyToken (\<lambda>k m. []) ''k'' 0 ''abc'' = Inr None"
  using verify_malformed [of "''abc''" "\<lambda>k m. []" "''k''" 0] by simp

theorem verify_tampered_sig_witness:
  "0 < length (sig_of (\<lambda>k m. [1, 2, 3]) ''s'' ''x'') \<and> CHR ''B'' \<noteq> sig_of (\<lambda>k m. [1, 2, 3]) ''s'' ''x'' ! 0
   \<and> CHR ''.'' \<notin> set ''x''
   \<and> verifyToken (\<lambda>k m. [1, 2, 3]) ''s'' 0 (''x'' @ CHR ''.'' # (sig_of (\<lambda>k m. [1, 2, 3]) ''s'' ''x'')[0 := CHR ''B'']) = Inr None"
proof -
  have h: "0 < length (sig_of (\<lambda>k m. [1, 2, 3]) ''s'' ''x'') \<and> CHR ''B'' \<noteq> sig_of (\<lambda>k m. [1, 2, 3]) ''s'' ''x'' ! 0
    \<and> CHR ''.'' \<notin> set ''x''" by code_simp
  then show ?thesis using verify_tampered_sig [of 0 "\<lambda>k m. [1, 2, 3]" "''s''" "''x''" "CHR ''B''" 0] by simp
qed

theorem verify_wrong_secret_witness:
  "(\<lambda>k m. bytes_of k) ''b'' (b64urlEncode (payload_json ''admin'' 5)) \<noteq> (\<lambda>k m. bytes_of k) ''a'' (b64urlEncode (payload_json ''admin'' 5))
   \<and> verifyToken (\<lambda>k m. bytes_of k) ''b'' 0 (signToken (\<lambda>k m. bytes_of k) ''a'' ''admin'' 5) = Inr None"
  using verify_wrong_secret [of "\<lambda>k m. bytes_of k" "''b''" "''admin''" 5 "''a''" 0] by simp

theorem verify_throws_only_if_signed_witness:
  "verifyToken (\<lambda>k m. []) ''k'' 0 ''x.'' = Inl SyntaxError
   \<and> SyntaxError = SyntaxError \<and> (\<exists>p. CHR ''.'' \<notin> set p \<and> ''x.'' = p @ CHR ''.'' # sig_of (\<lambda>k m. []) ''k'' p)"
proof -
  have h: "verifyToken (\<lambda>k m. []) ''k'' 0 ''x.'' = Inl SyntaxError" by code_simp
  show ?thesis using h verify_throws_only_if_signed [OF h] by simp
qed

theorem requireAdmin_no_bearer_witness:
  "requireAdmin (\<lambda>k m. bytes_of k) ''s'' 0 None = AuthUnauthorized
   \<and> requireAdmin (\<lambda>k m. bytes_of k) ''s'' 0 (Some ''Basic YWRtaW4='') = AuthUnauthorized"
  using requireAdmin_no_bearer [of None "\<lambda>k m. bytes_of k" "''s''" 0]
    requireAdmin_no_bearer [of "Some ''Basic YWRtaW4=''" "\<lambda>k m. bytes_of k" "''s''" 0] by simp

end
