(* ===== verification/Nearest.thy ===== *)
theory Nearest
  imports Prelude
begin

text \<open>
  The distance resolver of \<open>src/server.js\<close>: the great-circle distance
  \<open>haversineKm\<close> (lines 87-97), the scan of the \<open>/api/nearest\<close> handler that keeps
  the cell of least distance (lines 187-191), and the rounding
  \<open>Number(d.toFixed(2))\<close> of the reported distance (line 204).

  Coordinates and distances are real numbers: IEEE doubles are not modelled, so
  rounding errors of \<open>Math.sin\<close> and its kin and NaN are outside the model.
  \<open>Math.atan2\<close> is the real two-argument arctangent (the signed zeros of IEEE
  arithmetic aside). The scan is generic in the distance function and its ordered
  codomain, so its lemmas hold for the haversine distance and for any other.

  The results: over the reals the haversine term \<open>a\<close> lies in \<open>[0, 1]\<close> (in doubles
  its rounding can exceed 1 near antipodal points, which this model cannot show); the
  distance is zero from a point to itself and symmetric; and the scan refines the
  specification "the first candidate that is no farther than every candidate"
  (\<open>nearest_spec\<close>), whatever the distance function.
\<close>

subsection \<open>Great-circle distance\<close>

definition toRad :: "real \<Rightarrow> real" where
  "toRad v = v * pi / 180"

text \<open>\<open>Math.atan2(y, x)\<close>, the angle of the point \<open>(x, y)\<close>.\<close>

definition atan2 :: "real \<Rightarrow> real \<Rightarrow> real" where
  "atan2 y x =
     (if 0 < x then arctan (y / x)
      else if x < 0 then (if 0 \<le> y then arctan (y / x) + pi else arctan (y / x) - pi)
      else if 0 < y then pi / 2
      else if y < 0 then - (pi / 2)
      else 0)"

definition haversine_a :: "real \<Rightarrow> real \<Rightarrow> real \<Rightarrow> real \<Rightarrow> real" where
  "haversine_a lat1 lon1 lat2 lon2 =
     (let dLat = toRad (lat2 - lat1);
          dLon = toRad (lon2 - lon1)
      in sin (dLat / 2) ^ 2 + cos (toRad lat1) * cos (toRad lat2) * sin (dLon / 2) ^ 2)"

definition haversineKm :: "real \<Rightarrow> real \<Rightarrow> real \<Rightarrow> real \<Rightarrow> real" where
  "haversineKm lat1 lon1 lat2 lon2 =
     (let R = 6371;
          a = haversine_a lat1 lon1 lat2 lon2;
          c = 2 * atan2 (sqrt a) (sqrt (1 - a))
      in R * c)"

subsection \<open>The scan for the nearest cell\<close>

text \<open>
  \<^verbatim>\<open>let best = null;
for (const cell of cells) {
  const d = haversineKm(geo.lat, geo.lng, cell.lat, cell.lng);
  if (!best || d < best.distanceKm) best = { cell, distanceKm: d };
}\<close>
  A later candidate replaces the best one only when it is strictly nearer.
\<close>

fun nearest_loop :: "('c \<Rightarrow> 'd::linorder) \<Rightarrow> ('c \<times> 'd) option \<Rightarrow> 'c list \<Rightarrow> ('c \<times> 'd) option" where
  "nearest_loop distf best [] = best"
| "nearest_loop distf best (c # cs) =
     (let d = distf c
      in nearest_loop distf
           (case best of
              None \<Rightarrow> Some (c, d)
            | Some (b, bd) \<Rightarrow> (if d < bd then Some (c, d) else best)) cs)"

text \<open>The specification: the first candidate that is no farther than any candidate.\<close>

definition nearest_spec :: "('c \<Rightarrow> 'd::linorder) \<Rightarrow> 'c list \<Rightarrow> ('c \<times> 'd) option" where
  "nearest_spec distf cs =
     (case filter (\<lambda>c. \<forall>x \<in> set cs. distf c \<le> distf x) cs of
        [] \<Rightarrow> None
      | c # _ \<Rightarrow> Some (c, distf c))"

subsection \<open>Rounding of the reported distance\<close>

text \<open>\<open>Number(x.toFixed(2))\<close>: the multiple of \<open>1/100\<close> nearest to \<open>x\<close>, the
  larger one on a tie, mirrored for negative \<open>x\<close>; from \<open>10\<^sup>2\<^sup>1\<close> on,
  \<open>toFixed\<close> prints the number itself.\<close>

definition toFixed2 :: "real \<Rightarrow> real" where
  "toFixed2 x =
     (if \<bar>x\<bar> \<ge> 10 ^ 21 then x
      else if x < 0 then - (of_int \<lfloor>- x * 100 + 1 / 2\<rfloor> / 100)
      else of_int \<lfloor>x * 100 + 1 / 2\<rfloor> / 100)"

subsection \<open>Lemmas on the distance\<close>

lemma sin_half_sq: "sin (x / 2) ^ 2 = (1 - cos x) / (2::real)"
  using cos_double_sin [of "x / 2"] by simp

lemma abs_prod_le_half_sq: "\<bar>u\<bar> * \<bar>v\<bar> \<le> (u\<^sup>2 + v\<^sup>2) / (2::real)"
proof -
  have "0 \<le> (\<bar>u\<bar> - \<bar>v\<bar>)\<^sup>2" by simp
  then show ?thesis by (simp add: power2_eq_square algebra_simps)
qed

lemma haversine_a_cos:
  "1 - 2 * haversine_a lat1 lon1 lat2 lon2 =
     sin (toRad lat1) * sin (toRad lat2) + cos (toRad lat1) * cos (toRad lat2) * cos (toRad (lon2 - lon1))"
proof -
  have d: "toRad (lat2 - lat1) = toRad lat2 - toRad lat1" by (simp add: toRad_def algebra_simps diff_divide_distrib)
  show ?thesis
    by (simp add: haversine_a_def Let_def sin_half_sq d cos_diff field_simps)
qed

lemma haversine_a_bounds: "0 \<le> haversine_a lat1 lon1 lat2 lon2 \<and> haversine_a lat1 lon1 lat2 lon2 \<le> 1"
proof -
  define s1 s2 c1 c2 k where "s1 = sin (toRad lat1)" "s2 = sin (toRad lat2)"
    "c1 = cos (toRad lat1)" "c2 = cos (toRad lat2)" "k = cos (toRad (lon2 - lon1))"
  have e: "1 - 2 * haversine_a lat1 lon1 lat2 lon2 = s1 * s2 + c1 * c2 * k"
    unfolding s1_s2_c1_c2_k_def by (rule haversine_a_cos)
  have k: "\<bar>k\<bar> \<le> 1" unfolding s1_s2_c1_c2_k_def by simp
  have "\<bar>s1 * s2 + c1 * c2 * k\<bar> \<le> \<bar>s1\<bar> * \<bar>s2\<bar> + \<bar>c1\<bar> * \<bar>c2\<bar> * \<bar>k\<bar>"
    by (metis abs_mult abs_triangle_ineq)
  also have "\<dots> \<le> \<bar>s1\<bar> * \<bar>s2\<bar> + \<bar>c1\<bar> * \<bar>c2\<bar>"
    using k by (simp add: mult_left_le)
  also have "\<dots> \<le> (s1\<^sup>2 + s2\<^sup>2) / 2 + (c1\<^sup>2 + c2\<^sup>2) / 2"
    using abs_prod_le_half_sq [of s1 s2] abs_prod_le_half_sq [of c1 c2] by linarith
  also have "\<dots> = 1" unfolding s1_s2_c1_c2_k_def by (simp add: add_divide_distrib [symmetric] algebra_simps)
  finally show ?thesis using e by (simp add: abs_le_iff)
qed

text \<open>The distance from a point to itself is zero.\<close>

theorem haversineKm_self: "haversineKm lat lon lat lon = 0"
  by (simp add: haversineKm_def haversine_a_def toRad_def atan2_def)

lemma toRad_diff_swap: "toRad (a - b) = - toRad (b - a)"
  unfolding toRad_def by (simp add: field_simps)

text \<open>The distance is symmetric in its two points.\<close>

theorem haversineKm_sym: "haversineKm lat1 lon1 lat2 lon2 = haversineKm lat2 lon2 lat1 lon1"
proof -
  have "haversine_a lat1 lon1 lat2 lon2 = haversine_a lat2 lon2 lat1 lon1"
    by (simp add: haversine_a_def Let_def toRad_diff_swap [of lat1] toRad_diff_swap [of lon1] del: minus_diff_eq)
  then show ?thesis by (simp add: haversineKm_def)
qed

subsection \<open>Lemmas on the scan\<close>

text \<open>The loop from a current best \<open>b\<close>: the earliest least element of \<open>b # cs\<close>.\<close>

lemma nearest_loop_from:
  "\<exists>r xs ys. nearest_loop distf (Some (b, distf b)) cs = Some (r, distf r)
     \<and> b # cs = xs @ r # ys \<and> (\<forall>x \<in> set xs. distf r < distf x) \<and> (\<forall>x \<in> set (b # cs). distf r \<le> distf x)"
proof (induction cs arbitrary: b)
  case Nil
  show ?case by (rule exI [of _ b], rule exI [of _ "[]"]) simp
next
  case (Cons c cs)
  define b' where "b' = (if distf c < distf b then c else b)"
  have step: "nearest_loop distf (Some (b, distf b)) (c # cs) = nearest_loop distf (Some (b', distf b')) cs"
    by (simp add: b'_def)
  from Cons.IH [of b'] obtain r xs ys where
    r: "nearest_loop distf (Some (b', distf b')) cs = Some (r, distf r)"
    and split: "b' # cs = xs @ r # ys" and earlier: "\<forall>x \<in> set xs. distf r < distf x"
    and least: "\<forall>x \<in> set (b' # cs). distf r \<le> distf x"
    by blast
  have b'_le: "distf b' \<le> distf b" "distf b' \<le> distf c" by (auto simp: b'_def)
  have least': "\<forall>x \<in> set (b # c # cs). distf r \<le> distf x"
    using least b'_le by auto
  show ?case
  proof (cases xs)
    case Nil
    with split have "r = b'" "ys = cs" by simp_all
    show ?thesis
    proof (cases "distf c < distf b")
      case True
      then have "b # c # cs = [b] @ r # ys" "\<forall>x \<in> set [b]. distf r < distf x"
        using \<open>r = b'\<close> \<open>ys = cs\<close> by (simp_all add: b'_def)
      with step r least' show ?thesis by (intro exI [of _ r] exI [of _ "[b]"] exI [of _ ys]) simp
    next
      case False
      then have "b # c # cs = [] @ r # (c # cs)"
        using \<open>r = b'\<close> by (simp add: b'_def)
      with step r least' show ?thesis by fastforce
    qed
  next
    case (Cons x xs')
    with split have "x = b'" "cs = xs' @ r # ys" by simp_all
    with earlier Cons have "distf r < distf b'" by simp
    then have "distf r < distf b" "distf r < distf c" using b'_le by simp_all
    then have "b # c # cs = (b # c # xs') @ r # ys" "\<forall>x \<in> set (b # c # xs'). distf r < distf x"
      using \<open>cs = xs' @ r # ys\<close> earlier Cons by auto
    with step r least' show ?thesis by (intro exI [of _ r] exI [of _ "b # c # xs'"] exI [of _ ys]) simp
  qed
qed

lemma nearest_spec_split:
  assumes "cs = xs @ r # ys" "\<forall>x \<in> set xs. distf r < distf x" "\<forall>x \<in> set cs. distf r \<le> distf x"
  shows "nearest_spec distf cs = Some (r, distf r)"
proof -
  let ?P = "\<lambda>c. \<forall>x \<in> set cs. distf c \<le> distf x"
  have "r \<in> set cs" using assms(1) by simp
  then have "filter ?P xs = []" using assms(2) by (auto simp: filter_empty_conv not_le)
  moreover have "?P r" using assms(3) by blast
  ultimately have "filter ?P cs = r # filter ?P ys" using assms(1) by simp
  then show ?thesis by (simp add: nearest_spec_def)
qed

text \<open>C10: The scan computes the specification: the first candidate that is no farther
  than every candidate, with its distance, and nothing for no candidates.\<close>

theorem nearest_loop_refines: "nearest_loop distf None cs = nearest_spec distf cs"
proof (cases cs)
  case Nil
  then show ?thesis by (simp add: nearest_spec_def)
next
  case (Cons b cs')
  then have "nearest_loop distf None cs = nearest_loop distf (Some (b, distf b)) cs'" by simp
  with Cons nearest_loop_from [of distf b cs'] show ?thesis
    by (metis nearest_spec_split)
qed

text \<open>On a non-empty list the scan returns a candidate of least distance, every
  candidate before it strictly farther (ties go to the earliest).\<close>

theorem nearest_loop_first_least:
  assumes "cs \<noteq> []"
  shows "\<exists>r xs ys. nearest_loop distf None cs = Some (r, distf r) \<and> cs = xs @ r # ys
           \<and> (\<forall>x \<in> set xs. distf r < distf x) \<and> (\<forall>x \<in> set cs. distf r \<le> distf x)"
proof -
  obtain b cs' where "cs = b # cs'" using assms by (cases cs) auto
  then show ?thesis using nearest_loop_from [of distf b cs'] by simp
qed

theorem nearest_loop_first_least_witness:
  "[3::nat, 1, 2] \<noteq> [] \<and> (\<exists>r xs ys. nearest_loop (\<lambda>x. x) None [3::nat, 1, 2] = Some (r, r) \<and> [3, 1, 2] = xs @ r # ys
     \<and> (\<forall>x \<in> set xs. r < x) \<and> (\<forall>x \<in> set [3::nat, 1, 2]. r \<le> x))"
  using nearest_loop_first_least [where cs = "[3::nat, 1, 2]" and distf = "\<lambda>x. x"] by simp

end
