(* ===== verification/Cells.thy ===== *)
theory Cells
  imports Prelude "HOL-Library.Char_ord" "HOL-Library.List_Lexorder" "HOL-Library.Multiset"
begin

text \<open>
  The table \<open>cells\<close> of \<open>src/server.js\<close> and the statements the server runs on it
  through its helpers \<open>run\<close>, \<open>get\<close> and \<open>all\<close> (lines 31-48): the schema
  (lines 52-62), the seed of \<open>initDb\<close> (lines 64-82), the \<open>INSERT\<close> of the seed and
  of \<open>POST /api/admin/cells\<close>, the \<open>UPDATE\<close> of \<open>PUT\<close>, the \<open>DELETE\<close> of
  \<open>DELETE\<close> and the ordered \<open>SELECT\<close> of \<open>GET /api/admin/cells\<close>.

  The table is the list of its rows in insertion (rowid) order. The storage engine is
  an external collaborator; what the code relies on of it is modelled: the
  \<open>PRIMARY KEY\<close> on \<open>id\<close> rejects an insert of an existing id (the promise of
  \<open>run\<close> rejects), \<open>this.changes\<close> is the number of rows the statement touched, and
  \<open>ORDER BY createdAt DESC\<close> compares the ISO timestamps as byte strings (SQLite's
  \<open>BINARY\<close> collation), rows with equal timestamps staying in rowid order.
  Every statement is one call of \<open>db.run\<close> or \<open>db.all\<close>, which SQLite executes
  atomically, so each is one step on the table.

  The invariant \<open>wf_table\<close>: the ids are distinct, and every row has a non-empty
  name and address. The lemmas show which statements preserve it.
\<close>

record cell =
  cell_id :: string
  name :: string
  address :: string
  lat :: real
  lng :: real
  createdAt :: string
  updatedAt :: "string option"

type_synonym table = "cell list"

datatype db_error = SqliteConstraint

definition wf_table :: "table \<Rightarrow> bool" where
  "wf_table rows \<longleftrightarrow> distinct (map cell_id rows) \<and> list_all (\<lambda>r. name r \<noteq> [] \<and> address r \<noteq> []) rows"

subsection \<open>Statements\<close>

text \<open>\<open>INSERT INTO cells (id, name, address, lat, lng, createdAt) VALUES (?, ?, ?, ?, ?, ?)\<close>
  (lines 77 and 262): the new row, \<open>updatedAt\<close> left \<open>NULL\<close>.\<close>

definition new_cell :: "string \<Rightarrow> string \<Rightarrow> string \<Rightarrow> real \<Rightarrow> real \<Rightarrow> string \<Rightarrow> cell" where
  "new_cell i n a la lo now =
     \<lparr>cell_id = i, name = n, address = a, lat = la, lng = lo, createdAt = now, updatedAt = None\<rparr>"

definition sql_insert :: "cell \<Rightarrow> table \<Rightarrow> db_error + table" where
  "sql_insert r rows =
     (if list_ex (\<lambda>r'. cell_id r' = cell_id r) rows then Inl SqliteConstraint else Inr (rows @ [r]))"

text \<open>\<open>UPDATE cells SET ... WHERE id=?\<close> (line 292) and \<open>DELETE FROM cells WHERE id=?\<close>
  (line 307): the new table and \<open>this.changes\<close>.\<close>

definition sql_update :: "string \<Rightarrow> (cell \<Rightarrow> cell) \<Rightarrow> table \<Rightarrow> table \<times> nat" where
  "sql_update k f rows =
     (map (\<lambda>r. if cell_id r = k then f r else r) rows, count_list (map cell_id rows) k)"

definition sql_delete :: "string \<Rightarrow> table \<Rightarrow> table \<times> nat" where
  "sql_delete k rows = (filter (\<lambda>r. cell_id r \<noteq> k) rows, count_list (map cell_id rows) k)"

text \<open>\<open>SELECT ... FROM cells ORDER BY createdAt DESC\<close> (line 235).\<close>

definition order_by_createdAt_desc :: "table \<Rightarrow> table" where
  "order_by_createdAt_desc rows = rev (sort_key createdAt (rev rows))"

subsection \<open>\<open>initDb\<close>\<close>

text \<open>The seed rows of lines 66-73 (name, address, lat, lng), as UTF-8 bytes.\<close>

definition seed :: "(string \<times> string \<times> real \<times> real) list" where
  "seed =
     [(''ISAS SHARAT'', ''Avenida Doce Angra, 368 - Village, Angra dos Reis - RJ'', - 22.99369, - 44.2405),
      (''YAHWEH SHAMMAH'', ''Rua Geovane, 45 - Morro do Moreno, Angra dos Reis - RJ'', - 22.98509, - 44.23265),
      (''JEOV'' @ [CHR 0xC3, CHR 0x81] @ '' RAFAH'',
       ''Rua Arax'' @ [CHR 0xC3, CHR 0xA1] @ '', 179 - Village, Angra dos Reis - RJ'', - 22.9908, - 44.23538),
      (''ELOHIM'', ''Rua Muria'' @ [CHR 0xC3, CHR 0xA9] @ '', 247 - Village, Angra dos Reis - RJ'',
       - 22.9918498, - 44.2340687),
      (''EMANUEL'', ''Rua Jos'' @ [CHR 0xC3, CHR 0xA9] @ '' Nic'' @ [CHR 0xC3, CHR 0xA1]
         @ ''sio, 2 - Morro do Moreno, Angra dos Reis - RJ'', - 23.0057347, - 44.3157591),
      (''EFAT'' @ [CHR 0xC3, CHR 0x81], ''Rua Pedro Teixeira, 94 - Village, Angra dos Reis - RJ'',
       - 22.9884737, - 44.2347172)]"

text \<open>The loop of lines 75-80: the \<open>k\<close>-th call of \<open>crypto.randomUUID()\<close> is
  \<open>uuid k\<close>; the first rejected insert rejects \<open>initDb\<close>, the rows inserted before it
  staying in the table.\<close>

fun insert_seed :: "(nat \<Rightarrow> string) \<Rightarrow> string \<Rightarrow> nat \<Rightarrow> (string \<times> string \<times> real \<times> real) list \<Rightarrow> table \<Rightarrow> db_error option \<times> table" where
  "insert_seed uuid now k [] rows = (None, rows)"
| "insert_seed uuid now k ((n, a, la, lo) # cs) rows =
     (case sql_insert (new_cell (uuid k) n a la lo now) rows of
        Inl e \<Rightarrow> (Some e, rows)
      | Inr rows' \<Rightarrow> insert_seed uuid now (Suc k) cs rows')"

text \<open>\<open>initDb()\<close>: the table is seeded when \<open>SELECT COUNT(*)\<close> finds it empty. The
  result is the rejection, if any, and the table afterwards.\<close>

definition initDb :: "(nat \<Rightarrow> string) \<Rightarrow> string \<Rightarrow> table \<Rightarrow> db_error option \<times> table" where
  "initDb uuid now rows = (if length rows = 0 then insert_seed uuid now 0 seed rows else (None, rows))"

subsection \<open>Lemmas on the statements\<close>


lemma sql_insert_eq:
  "sql_insert r rows = (if cell_id r \<in> set (map cell_id rows) then Inl SqliteConstraint else Inr (rows @ [r]))"
  by (auto simp: sql_insert_def list_ex_iff intro: rev_image_eqI)

lemma wf_table_Nil [simp]: "wf_table []"
  by (simp add: wf_table_def)

lemma wf_table_snoc:
  "wf_table (rows @ [r]) \<longleftrightarrow> wf_table rows \<and> cell_id r \<notin> set (map cell_id rows) \<and> name r \<noteq> [] \<and> address r \<noteq> []"
  by (auto simp: wf_table_def)

lemma wf_table_insert:
  assumes "wf_table rows" "name r \<noteq> []" "address r \<noteq> []" "sql_insert r rows = Inr rows'"
  shows "wf_table rows'"
  using assms by (auto simp: sql_insert_eq wf_table_snoc split: if_splits)

lemma sql_insert_Inl: "sql_insert r rows = Inl e \<longleftrightarrow> e = SqliteConstraint \<and> cell_id r \<in> set (map cell_id rows)"
  by (auto simp: sql_insert_eq)

lemma map_cell_id_update:
  assumes "\<forall>r \<in> set rows. cell_id r = k \<longrightarrow> cell_id (f r) = k"
  shows "map cell_id (fst (sql_update k f rows)) = map cell_id rows"
  using assms by (induction rows) (auto simp: sql_update_def)

lemma wf_table_update:
  assumes "wf_table rows" "\<forall>r \<in> set rows. cell_id r = k \<longrightarrow> cell_id (f r) = k \<and> name (f r) \<noteq> [] \<and> address (f r) \<noteq> []"
  shows "wf_table (fst (sql_update k f rows))"
proof -
  have "map cell_id (fst (sql_update k f rows)) = map cell_id rows"
    using assms(2) by (intro map_cell_id_update) blast
  moreover have "list_all (\<lambda>r. name r \<noteq> [] \<and> address r \<noteq> []) (fst (sql_update k f rows))"
    using assms by (auto simp: sql_update_def wf_table_def list_all_iff)
  ultimately show ?thesis using assms(1) by (simp add: wf_table_def)
qed

lemma wf_table_delete: "wf_table rows \<Longrightarrow> wf_table (fst (sql_delete k rows))"
  by (auto simp: sql_delete_def wf_table_def list_all_iff distinct_map_filter)

lemma count_list_0_notin: "count_list xs x = 0 \<longleftrightarrow> x \<notin> set xs"
  by (simp add: count_list_0_iff)

lemma sql_update_unchanged: "snd (sql_update k f rows) = 0 \<Longrightarrow> fst (sql_update k f rows) = rows"
  by (induction rows) (auto simp: sql_update_def)

lemma sql_delete_unchanged: "snd (sql_delete k rows) = 0 \<Longrightarrow> fst (sql_delete k rows) = rows"
  by (induction rows) (auto simp: sql_delete_def)

lemma count_list_distinct: "distinct xs \<Longrightarrow> count_list xs x = (if x \<in> set xs then 1 else 0)"
  by (induction xs) auto

lemma order_by_mset: "mset (order_by_createdAt_desc rows) = mset rows"
  by (simp add: order_by_createdAt_desc_def)

lemma order_by_sorted: "sorted (rev (map createdAt (order_by_createdAt_desc rows)))"
  by (simp add: order_by_createdAt_desc_def rev_map [symmetric])

lemma length_delete_count:
  "length (fst (sql_delete k rows)) + snd (sql_delete k rows) = length rows"
  by (induction rows) (auto simp: sql_delete_def)

lemma sql_delete_present:
  assumes "wf_table rows" "k \<in> set (map cell_id rows)"
  shows "snd (sql_delete k rows) = 1 \<and> length (fst (sql_delete k rows)) = length rows - 1
    \<and> k \<notin> set (map cell_id (fst (sql_delete k rows)))"
proof -
  have d: "distinct (map cell_id rows)" using assms(1) by (simp add: wf_table_def)
  have "snd (sql_delete k rows) = 1"
    using count_list_distinct [OF d, of k] assms(2) by (simp add: sql_delete_def)
  moreover then have "length (fst (sql_delete k rows)) = length rows - 1"
    using length_delete_count [of k rows] by simp
  moreover have "k \<notin> set (map cell_id (fst (sql_delete k rows)))"
    by (auto simp: sql_delete_def)
  ultimately show ?thesis by blast
qed

lemma insert_seed_fresh:
  assumes "distinct (map uuid [k..<k + length cs])" "\<forall>j \<in> {k..<k + length cs}. uuid j \<notin> set (map cell_id rows)"
  shows "insert_seed uuid now k cs rows =
    (None, rows @ map (\<lambda>(j, (n, a, la, lo)). new_cell (uuid j) n a la lo now) (zip [k..<k + length cs] cs))"
  using assms
proof (induction uuid now k cs rows rule: insert_seed.induct)
  case (1 uuid now k rows)
  then show ?case by simp
next
  case (2 uuid now k n a la lo cs rows)
  let ?r = "new_cell (uuid k) n a la lo now"
  have fresh: "cell_id ?r \<notin> set (map cell_id rows)"
    using "2.prems"(2) by (simp add: new_cell_def)
  have "insert_seed uuid now (Suc k) cs (rows @ [?r]) =
      (None, (rows @ [?r]) @ map (\<lambda>(j, (n, a, la, lo)). new_cell (uuid j) n a la lo now) (zip [Suc k..<Suc k + length cs] cs))"
  proof (rule "2.IH")
    show "sql_insert ?r rows = Inr (rows @ [?r])" using fresh by (simp add: sql_insert_eq)
    show "distinct (map uuid [Suc k..<Suc k + length cs])"
      using "2.prems"(1) by (simp add: upt_conv_Cons del: upt_Suc)
    show "\<forall>j \<in> {Suc k..<Suc k + length cs}. uuid j \<notin> set (map cell_id (rows @ [?r]))"
      using "2.prems" by (auto simp: new_cell_def upt_conv_Cons simp del: upt_Suc) (metis atLeastLessThan_iff imageI)
  qed
  then show ?case using fresh by (simp add: sql_insert_eq upt_conv_Cons del: upt_Suc)
qed

lemma initDb_nonempty: "rows \<noteq> [] \<Longrightarrow> initDb uuid now rows = (None, rows)"
  by (simp add: initDb_def)

lemma length_seed: "length seed = 6"
  by (simp add: seed_def)

lemma initDb_empty:
  assumes "distinct (map uuid [0..<6])"
  shows "initDb uuid now [] = (None, map (\<lambda>(j, (n, a, la, lo)). new_cell (uuid j) n a la lo now) (zip [0..<6] seed))"
  using insert_seed_fresh [of uuid 0 seed "[]" now] assms by (simp add: initDb_def length_seed)

lemma upt_6: "[0..<6] = [0, 1, 2, 3, 4, 5::nat]"
  by (simp add: upt_rec)

text \<open>\<open>initDb\<close> on an empty table, with six distinct UUIDs, leaves the six seed
  rows in a well-formed table.\<close>

theorem initDb_empty_wf:
  assumes "distinct (map uuid [0..<6])"
  shows "wf_table (snd (initDb uuid now [])) \<and> length (snd (initDb uuid now [])) = 6"
proof -
  have "wf_table (map (\<lambda>(j, (n, a, la, lo)). new_cell (uuid j) n a la lo now) (zip [0..<6] seed))"
    using assms unfolding upt_6 by (simp add: wf_table_def seed_def new_cell_def)
  then show ?thesis using initDb_empty [OF assms] by (simp add: length_seed)
qed

lemma insert_seed_wf:
  "wf_table rows \<Longrightarrow> list_all (\<lambda>(n, a, _). n \<noteq> [] \<and> a \<noteq> []) cs \<Longrightarrow> wf_table (snd (insert_seed uuid now k cs rows))"
proof (induction uuid now k cs rows rule: insert_seed.induct)
  case (2 uuid now k n a la lo cs rows)
  then show ?case
    using wf_table_insert [of rows "new_cell (uuid k) n a la lo now"]
    by (auto simp: new_cell_def split: sum.split)
qed simp

lemma seed_names: "list_all (\<lambda>(n, a, _). n \<noteq> [] \<and> a \<noteq> []) seed"
  by (simp add: seed_def)

lemma initDb_wf: "wf_table rows \<Longrightarrow> wf_table (snd (initDb uuid now rows))"
  using insert_seed_wf [OF _ seed_names] by (simp add: initDb_def)

subsection \<open>Witnesses\<close>

theorem initDb_empty_wf_witness:
  "wf_table (snd (initDb (\<lambda>k. replicate (Suc k) CHR ''x'') ''t'' []))
   \<and> length (snd (initDb (\<lambda>k. replicate (Suc k) CHR ''x'') ''t'' [])) = 6"
proof -
  have "distinct (map (\<lambda>k. replicate (Suc k) CHR ''x'') [0..<6])" by code_simp
  then show ?thesis by (rule initDb_empty_wf)
qed

end
