(* ===== verification/Handlers.thy ===== *)
theory Handlers
  imports Token Nearest Cells
begin

text \<open>
  The HTTP handlers of \<open>src/server.js\<close>: \<open>geocodeQuery\<close> (lines 99-115),
  \<open>GET /api/nearest\<close> (161-212), \<open>POST /api/admin/login\<close> (215-231) and the four
  admin routes on \<open>/api/admin/cells\<close> (233-314), each behind \<open>requireAdmin\<close>.

  A handler is a function from what it reads (the query or the JSON body, the
  \<open>Authorization\<close> header, the clock, the table, the answers of the outside
  world) to its response and, for the admin routes, the table afterwards. Every
  \<open>return res.status(...)\<close> and every \<open>catch\<close> is a branch of the result: \<open>Fail s m\<close>
  is the error object with message \<open>m\<close> and status \<open>s\<close>, \<open>Uncaught e\<close> an
  exception that reaches Express (which answers 500).

  The outside world enters as parameters: \<open>fetch\<close> answers an URL with the
  reply of Nominatim or a network error, \<open>num\<close> is \<open>Number(...)\<close> of a field of
  the reply, \<open>numstr\<close> is \<open>Number.prototype.toString\<close>, and the fresh id of
  \<open>crypto.randomUUID()\<close> and the clock readings are arguments. A query value is what
  Express's query parser yields (a string, an array, a nested object), a body what
  \<open>express.json\<close> yields (a JSON value, absent when the request has no JSON body).
\<close>

subsection \<open>Request values\<close>

datatype qval = QStr string | QArr "qval list" | QObj "(string \<times> qval) list"

fun q_truthy :: "qval \<Rightarrow> bool" where
  "q_truthy (QStr s) = (s \<noteq> [])"
| "q_truthy (QArr _) = True"
| "q_truthy (QObj _) = True"

fun q_String :: "qval \<Rightarrow> string" where
  "q_String (QStr s) = s"
| "q_String (QArr xs) = js_join '','' (map q_String xs)"
| "q_String (QObj _) = ''[object Object]''"

text \<open>\<open>String(req.query.x || "").trim()\<close>.\<close>

definition query_str :: "qval option \<Rightarrow> string" where
  "query_str v = js_trim (case v of None \<Rightarrow> [] | Some x \<Rightarrow> if q_truthy x then q_String x else [])"

fun js_truthy :: "jval \<Rightarrow> bool" where
  "js_truthy JNull = False"
| "js_truthy (JBool b) = b"
| "js_truthy (JNum n) = (n \<noteq> 0)"
| "js_truthy (JStr s) = (s \<noteq> [])"
| "js_truthy (JArr _) = True"
| "js_truthy (JObj _) = True"

fun js_String :: "(rat \<Rightarrow> string) \<Rightarrow> jval \<Rightarrow> string" where
  "js_String numstr JNull = ''null''"
| "js_String numstr (JBool b) = (if b then ''true'' else ''false'')"
| "js_String numstr (JNum n) = numstr n"
| "js_String numstr (JStr s) = s"
| "js_String numstr (JArr xs) = js_join '','' (map (\<lambda>x. if x = JNull then [] else js_String numstr x) xs)"
| "js_String numstr (JObj _) = ''[object Object]''"

text \<open>\<open>req.body?.k\<close> and \<open>String(req.body?.k || "").trim()\<close>.\<close>

definition body_get :: "jval option \<Rightarrow> string \<Rightarrow> jval option" where
  "body_get body k = (case body of None \<Rightarrow> None | Some v \<Rightarrow> get_prop v k)"

definition body_str :: "(rat \<Rightarrow> string) \<Rightarrow> jval option \<Rightarrow> string \<Rightarrow> string" where
  "body_str numstr body k =
     js_trim (case body_get body k of None \<Rightarrow> [] | Some x \<Rightarrow> if js_truthy x then js_String numstr x else [])"

subsection \<open>Responses\<close>

datatype err_msg =
    MsgUnauthorized | MsgStreetNumber | MsgAddressNotFound | MsgNoCells | MsgSearchError
  | MsgBadLogin | MsgLoginError | MsgListError | MsgNameAddress | MsgGeocodeNotFound
  | MsgAddError | MsgBadId | MsgCellNotFound | MsgUpdateError | MsgDeleteError

text \<open>The messages as the code writes them, in UTF-8.\<close>

fun msg_text :: "err_msg \<Rightarrow> string" where
  "msg_text MsgUnauthorized = ''N'' @ [CHR 0xC3, CHR 0xA3] @ ''o autorizado.''"
| "msg_text MsgStreetNumber = ''Informe Rua e N'' @ [CHR 0xC3, CHR 0xBA] @ ''mero.''"
| "msg_text MsgAddressNotFound = ''N'' @ [CHR 0xC3, CHR 0xA3] @ ''o foi poss'' @ [CHR 0xC3, CHR 0xAD]
     @ ''vel localizar este endere'' @ [CHR 0xC3, CHR 0xA7]
     @ ''o. Tente adicionar o bairro ou revisar rua/n'' @ [CHR 0xC3, CHR 0xBA] @ ''mero.''"
| "msg_text MsgNoCells = ''Nenhuma c'' @ [CHR 0xC3, CHR 0xA9] @ ''lula cadastrada.''"
| "msg_text MsgSearchError = ''Erro interno ao processar a busca.''"
| "msg_text MsgBadLogin = ''Usu'' @ [CHR 0xC3, CHR 0xA1] @ ''rio ou senha inv'' @ [CHR 0xC3, CHR 0xA1] @ ''lidos.''"
| "msg_text MsgLoginError = ''Erro interno no login.''"
| "msg_text MsgListError = ''Erro ao listar c'' @ [CHR 0xC3, CHR 0xA9] @ ''lulas.''"
| "msg_text MsgNameAddress = ''Informe nome e endere'' @ [CHR 0xC3, CHR 0xA7] @ ''o.''"
| "msg_text MsgGeocodeNotFound = ''Endere'' @ [CHR 0xC3, CHR 0xA7] @ ''o n'' @ [CHR 0xC3, CHR 0xA3]
     @ ''o encontrado para geocodifica'' @ [CHR 0xC3, CHR 0xA7, CHR 0xC3, CHR 0xA3] @ ''o.''"
| "msg_text MsgAddError = ''Erro ao adicionar c'' @ [CHR 0xC3, CHR 0xA9] @ ''lula.''"
| "msg_text MsgBadId = ''ID inv'' @ [CHR 0xC3, CHR 0xA1] @ ''lido.''"
| "msg_text MsgCellNotFound = ''C'' @ [CHR 0xC3, CHR 0xA9] @ ''lula n'' @ [CHR 0xC3, CHR 0xA3] @ ''o encontrada.''"
| "msg_text MsgUpdateError = ''Erro ao atualizar c'' @ [CHR 0xC3, CHR 0xA9] @ ''lula.''"
| "msg_text MsgDeleteError = ''Erro ao remover c'' @ [CHR 0xC3, CHR 0xA9] @ ''lula.''"

datatype 'a response = Reply 'a | Fail nat err_msg | Uncaught js_error

subsection \<open>URLs\<close>

text \<open>The \<open>application/x-www-form-urlencoded\<close> serializer of \<open>URLSearchParams\<close>:
  alphanumerics and \<open>*-._\<close> stay, a space becomes \<open>+\<close>, every other byte
  \<open>%XX\<close> in upper-case hex.\<close>

definition hex_upper :: "nat \<Rightarrow> char" where
  "hex_upper n = (if n < 10 then char_of (48 + n) else char_of (55 + n))"

definition url_safe :: "char \<Rightarrow> bool" where
  "url_safe c =
     (let n = (of_char c :: nat)
      in n = 0x2A \<or> n = 0x2D \<or> n = 0x2E \<or> (0x30 \<le> n \<and> n \<le> 0x39) \<or> (0x41 \<le> n \<and> n \<le> 0x5A)
         \<or> n = 0x5F \<or> (0x61 \<le> n \<and> n \<le> 0x7A))"

definition form_urlencode :: "string \<Rightarrow> string" where
  "form_urlencode s =
     concat (map (\<lambda>c. if c = CHR '' '' then ''+'' else if url_safe c then [c]
                      else [CHR ''%'', hex_upper (of_char c div 16), hex_upper (of_char c mod 16)]) s)"

definition nominatim_url :: "string \<Rightarrow> string" where
  "nominatim_url q =
     ''https://nominatim.openstreetmap.org/search?q='' @ form_urlencode q
     @ ''&format=json&limit=1&addressdetails=1''"

definition maps_url :: "string \<Rightarrow> string" where
  "maps_url a = ''https://www.google.com/maps/search/?api=1&query='' @ form_urlencode a"

text \<open>The percent-decoding of the receiving side (the WHATWG
  \<open>application/x-www-form-urlencoded\<close> parser), to state that the encoding loses
  nothing.\<close>

fun form_urldecode :: "string \<Rightarrow> string" where
  "form_urldecode [] = []"
| "form_urldecode (c # cs) =
     (if c = CHR ''+'' then CHR '' '' # form_urldecode cs
      else if c = CHR ''%'' then
        (case cs of
           h1 # h2 # rest \<Rightarrow>
             (case (hex_val h1, hex_val h2) of
                (Some x, Some y) \<Rightarrow> char_of (x * 16 + y) # form_urldecode rest
              | _ \<Rightarrow> c # form_urldecode cs)
         | _ \<Rightarrow> c # form_urldecode cs)
      else c # form_urldecode cs)"

subsection \<open>\<open>geocodeQuery\<close>\<close>

record geo =
  geo_lat :: real
  geo_lng :: real
  displayName :: "jval option"

text \<open>The reply of \<open>fetch\<close>: \<open>res.ok\<close> and \<open>res.json()\<close> (absent when the body is
  not JSON, which makes \<open>res.json()\<close> reject).\<close>

datatype http_reply = HttpReply bool "jval option"

definition geocodeQuery ::
  "(string \<Rightarrow> js_error + http_reply) \<Rightarrow> (jval option \<Rightarrow> real) \<Rightarrow> string \<Rightarrow> js_error + geo option" where
  "geocodeQuery fetch num q =
     (case fetch (nominatim_url q) of
        Inl e \<Rightarrow> Inl e
      | Inr (HttpReply ok data) \<Rightarrow>
          if \<not> ok then Inl Error
          else (case data of
                  None \<Rightarrow> Inl SyntaxError
                | Some (JArr (d # _)) \<Rightarrow>
                    (if d = JNull then Inl TypeError
                     else Inr (Some \<lparr>geo_lat = num (get_prop d ''lat''), geo_lng = num (get_prop d ''lon''),
                                     displayName = get_prop d ''display_name''\<rparr>))
                | Some _ \<Rightarrow> Inr None))"

subsection \<open>\<open>GET /api/nearest\<close>\<close>

text \<open>\<open>[...].filter(Boolean).join(", ")\<close> of lines 169-175; \<open>None\<close> is \<open>null\<close>.\<close>

definition filter_Boolean :: "string option list \<Rightarrow> string list" where
  "filter_Boolean xs = [s. Some s \<leftarrow> xs, s \<noteq> []]"

definition nearest_query :: "string \<Rightarrow> string \<Rightarrow> string \<Rightarrow> string" where
  "nearest_query street number neighborhood =
     js_join '', '' (filter_Boolean
       [Some (street @ '', '' @ number), (if neighborhood \<noteq> [] then Some neighborhood else None),
        Some ''Angra dos Reis'', Some ''RJ'', Some ''Brasil''])"

definition cell_distance :: "geo \<Rightarrow> cell \<Rightarrow> real" where
  "cell_distance g c = haversineKm (geo_lat g) (geo_lng g) (lat c) (lng c)"

text \<open>The answer \<open>{ geocoded, nearest: {...} }\<close>; the fields \<open>id\<close>, \<open>name\<close>,
  \<open>address\<close>, \<open>lat\<close>, \<open>lng\<close> of \<open>nearest\<close> are those of the cell.\<close>

record nearest_reply =
  geocoded :: geo
  nearest :: cell
  distanceKm :: real
  mapsUrl :: string

definition api_nearest ::
  "(string \<Rightarrow> js_error + http_reply) \<Rightarrow> (jval option \<Rightarrow> real) \<Rightarrow> table
   \<Rightarrow> qval option \<Rightarrow> qval option \<Rightarrow> qval option \<Rightarrow> nearest_reply response" where
  "api_nearest fetch num rows qstreet qnumber qneighborhood =
     (let street = query_str qstreet;
          number = query_str qnumber;
          neighborhood = query_str qneighborhood
      in if street = [] \<or> number = [] then Fail 400 MsgStreetNumber
         else
           (case geocodeQuery fetch num (nearest_query street number neighborhood) of
              Inl _ \<Rightarrow> Fail 500 MsgSearchError
            | Inr None \<Rightarrow> Fail 404 MsgAddressNotFound
            | Inr (Some g) \<Rightarrow>
                if length rows = 0 then Fail 500 MsgNoCells
                else
                  (case nearest_loop (cell_distance g) None rows of
                     None \<Rightarrow> Fail 500 MsgSearchError
                   | Some (c, d) \<Rightarrow>
                       Reply \<lparr>geocoded = g, nearest = c, distanceKm = toFixed2 d,
                              mapsUrl = maps_url (address c)\<rparr>)))"

subsection \<open>\<open>POST /api/admin/login\<close>\<close>

text \<open>The token lives twelve hours: \<open>exp = Date.now() + 1000 * 60 * 60 * 12\<close>.\<close>

definition api_login ::
  "hmac \<Rightarrow> string \<Rightarrow> string \<Rightarrow> string \<Rightarrow> (rat \<Rightarrow> string) \<Rightarrow> int \<Rightarrow> jval option \<Rightarrow> string response" where
  "api_login hmac secret admin_user admin_pass numstr now body =
     (let username = body_str numstr body ''username'';
          password = body_str numstr body ''password''
      in if username \<noteq> admin_user \<or> password \<noteq> admin_pass then Fail 401 MsgBadLogin
         else Reply (signToken hmac secret username (now + 1000 * 60 * 60 * 12)))"

subsection \<open>The admin routes\<close>

text \<open>A route behind \<open>requireAdmin\<close>: the handler runs only on \<open>next()\<close>.\<close>

definition with_admin :: "auth_outcome \<Rightarrow> table \<Rightarrow> 'a response \<times> table \<Rightarrow> 'a response \<times> table" where
  "with_admin auth rows r =
     (case auth of
        AuthNext \<Rightarrow> r
      | AuthUnauthorized \<Rightarrow> (Fail 401 MsgUnauthorized, rows)
      | AuthError e \<Rightarrow> (Uncaught e, rows))"

text \<open>Lines 253-258 and 283-288: the coordinates of the body when both are numbers,
  else those of the geocoded address.\<close>

definition resolve_coords ::
  "(string \<Rightarrow> js_error + http_reply) \<Rightarrow> (jval option \<Rightarrow> real) \<Rightarrow> string \<Rightarrow> jval option \<Rightarrow> jval option
   \<Rightarrow> js_error + (real \<times> real) option" where
  "resolve_coords fetch num addr blat blng =
     (case (blat, blng) of
        (Some (JNum x), Some (JNum y)) \<Rightarrow> Inr (Some (of_rat x, of_rat y))
      | _ \<Rightarrow>
          (case geocodeQuery fetch num (addr @ '', Angra dos Reis, RJ, Brasil'') of
             Inl e \<Rightarrow> Inl e
           | Inr None \<Rightarrow> Inr None
           | Inr (Some g) \<Rightarrow> Inr (Some (geo_lat g, geo_lng g))))"

definition admin_list :: "table \<Rightarrow> cell list response" where
  "admin_list rows = Reply (order_by_createdAt_desc rows)"

definition admin_create ::
  "(string \<Rightarrow> js_error + http_reply) \<Rightarrow> (jval option \<Rightarrow> real) \<Rightarrow> (rat \<Rightarrow> string) \<Rightarrow> string \<Rightarrow> string
   \<Rightarrow> jval option \<Rightarrow> table \<Rightarrow> string response \<times> table" where
  "admin_create fetch num numstr newid now body rows =
     (let nm = body_str numstr body ''name'';
          addr = body_str numstr body ''address''
      in if nm = [] \<or> addr = [] then (Fail 400 MsgNameAddress, rows)
         else
           (case resolve_coords fetch num addr (body_get body ''lat'') (body_get body ''lng'') of
              Inl _ \<Rightarrow> (Fail 500 MsgAddError, rows)
            | Inr None \<Rightarrow> (Fail 400 MsgGeocodeNotFound, rows)
            | Inr (Some (la, lo)) \<Rightarrow>
                (case sql_insert (new_cell newid nm addr la lo now) rows of
                   Inl _ \<Rightarrow> (Fail 500 MsgAddError, rows)
                 | Inr rows' \<Rightarrow> (Reply newid, rows'))))"

definition admin_update ::
  "(string \<Rightarrow> js_error + http_reply) \<Rightarrow> (jval option \<Rightarrow> real) \<Rightarrow> (rat \<Rightarrow> string) \<Rightarrow> string \<Rightarrow> string
   \<Rightarrow> jval option \<Rightarrow> table \<Rightarrow> unit response \<times> table" where
  "admin_update fetch num numstr now pid body rows =
     (let cid = js_trim pid;
          nm = body_str numstr body ''name'';
          addr = body_str numstr body ''address''
      in if cid = [] then (Fail 400 MsgBadId, rows)
         else if nm = [] \<or> addr = [] then (Fail 400 MsgNameAddress, rows)
         else
           (case resolve_coords fetch num addr (body_get body ''lat'') (body_get body ''lng'') of
              Inl _ \<Rightarrow> (Fail 500 MsgUpdateError, rows)
            | Inr None \<Rightarrow> (Fail 400 MsgGeocodeNotFound, rows)
            | Inr (Some (la, lo)) \<Rightarrow>
                (let (rows', n) =
                       sql_update cid
                         (\<lambda>r. r\<lparr>name := nm, address := addr, lat := la, lng := lo, updatedAt := Some now\<rparr>) rows
                 in if n = 0 then (Fail 404 MsgCellNotFound, rows') else (Reply (), rows'))))"

definition admin_delete :: "string \<Rightarrow> table \<Rightarrow> unit response \<times> table" where
  "admin_delete pid rows =
     (let cid = js_trim pid;
          (rows', n) = sql_delete cid rows
      in if n = 0 then (Fail 404 MsgCellNotFound, rows') else (Reply (), rows'))"

subsection \<open>Lemmas on the URLs\<close>

lemma hex_val_hex_upper: "n < 16 \<Longrightarrow> hex_val (hex_upper n) = Some n"
  by (auto simp: hex_val_def hex_upper_def Let_def)

lemma url_safe_not_special: "url_safe c \<Longrightarrow> c \<noteq> CHR ''+'' \<and> c \<noteq> CHR ''%''"
  by (auto simp: url_safe_def Let_def)

lemma form_urlencode_Cons:
  "form_urlencode (c # s) =
     (if c = CHR '' '' then ''+'' else if url_safe c then [c]
      else [CHR ''%'', hex_upper (of_char c div 16), hex_upper (of_char c mod 16)]) @ form_urlencode s"
  by (simp add: form_urlencode_def)

lemma char_of_hex_pair: "char_of ((of_char c div 16) * 16 + of_char c mod 16 :: nat) = c"
  by simp

text \<open>The query string sent to Nominatim and the address in the maps link arrive
  intact: percent-decoding inverts \<open>form_urlencode\<close>.\<close>

theorem form_urldecode_urlencode: "form_urldecode (form_urlencode s) = s"
proof (induction s)
  case Nil
  then show ?case by (simp add: form_urlencode_def)
next
  case (Cons c s)
  have "(of_char c :: nat) < 256" by (metis of_char_mod_256 mod_less_divisor zero_less_numeral)
  then have lt: "(of_char c :: nat) div 16 < 16" by (simp add: div_less_iff_less_mult)
  show ?case
    using Cons url_safe_not_special [of c]
    by (simp add: form_urlencode_Cons hex_val_hex_upper lt)
qed

subsection \<open>Lemmas on \<open>GET /api/nearest\<close>\<close>

text \<open>C30: \<open>GET /api/nearest\<close> without a street or a number (after trimming)
  answers 400 with \<open>MsgStreetNumber\<close>, whatever the geocoder and the table.\<close>

theorem api_nearest_missing:
  assumes "query_str qstreet = [] \<or> query_str qnumber = []"
  shows "api_nearest fetch num rows qstreet qnumber qneighborhood = Fail 400 MsgStreetNumber"
  using assms by (auto simp: api_nearest_def Let_def)

lemma api_nearest_geo:
  assumes "query_str qstreet \<noteq> []" "query_str qnumber \<noteq> []"
    "geocodeQuery fetch num (nearest_query (query_str qstreet) (query_str qnumber) (query_str qneighborhood)) = Inr (Some g)"
  shows "api_nearest fetch num rows qstreet qnumber qneighborhood =
    (if rows = [] then Fail 500 MsgNoCells
     else case nearest_loop (cell_distance g) None rows of
            None \<Rightarrow> Fail 500 MsgSearchError
          | Some (c, d) \<Rightarrow> Reply \<lparr>geocoded = g, nearest = c, distanceKm = toFixed2 d, mapsUrl = maps_url (address c)\<rparr>)"
  using assms by (simp add: api_nearest_def Let_def)

text \<open>C9: When the address is geocoded and the table is not empty, \<open>GET /api/nearest\<close>
  answers with the first cell of least haversine distance to the geocoded point, every
  earlier cell being strictly farther, its distance rounded to two decimals, and the
  maps link of its address.\<close>

theorem api_nearest_found:
  assumes "query_str qstreet \<noteq> []" "query_str qnumber \<noteq> []"
    "geocodeQuery fetch num (nearest_query (query_str qstreet) (query_str qnumber) (query_str qneighborhood)) = Inr (Some g)"
    "rows \<noteq> []"
  shows "\<exists>xs c ys. rows = xs @ c # ys \<and> (\<forall>x \<in> set xs. cell_distance g c < cell_distance g x)
    \<and> (\<forall>x \<in> set rows. cell_distance g c \<le> cell_distance g x)
    \<and> api_nearest fetch num rows qstreet qnumber qneighborhood =
        Reply \<lparr>geocoded = g, nearest = c, distanceKm = toFixed2 (cell_distance g c), mapsUrl = maps_url (address c)\<rparr>"
proof -
  obtain b bs where rows: "rows = b # bs" using assms(4) by (cases rows) auto
  obtain r xs ys where r: "nearest_loop (cell_distance g) (Some (b, cell_distance g b)) bs = Some (r, cell_distance g r)"
    and split: "b # bs = xs @ r # ys" and earlier: "\<forall>x \<in> set xs. cell_distance g r < cell_distance g x"
    and least: "\<forall>x \<in> set (b # bs). cell_distance g r \<le> cell_distance g x"
    using nearest_loop_from [of "cell_distance g" b bs] by blast
  have "api_nearest fetch num rows qstreet qnumber qneighborhood =
      Reply \<lparr>geocoded = g, nearest = r, distanceKm = toFixed2 (cell_distance g r), mapsUrl = maps_url (address r)\<rparr>"
    using api_nearest_geo [OF assms(1-3)] r by (simp add: rows)
  then show ?thesis using split earlier least rows by blast
qed

text \<open>C31: When the address is geocoded but the table is empty, \<open>GET /api/nearest\<close>
  answers 500 with \<open>MsgNoCells\<close>, distinct from the 404 of an address not found.\<close>

theorem api_nearest_no_cells:
  assumes "query_str qstreet \<noteq> []" "query_str qnumber \<noteq> []"
    "geocodeQuery fetch num (nearest_query (query_str qstreet) (query_str qnumber) (query_str qneighborhood)) = Inr (Some g)"
  shows "api_nearest fetch num [] qstreet qnumber qneighborhood = Fail 500 MsgNoCells"
  using api_nearest_geo [OF assms] by simp

lemma nearest_query_no_neighborhood:
  "nearest_query s n [] = s @ '', '' @ n @ '', Angra dos Reis, RJ, Brasil''"
  by (simp add: nearest_query_def filter_Boolean_def)

lemma nearest_query_neighborhood:
  "b \<noteq> [] \<Longrightarrow> nearest_query s n b = s @ '', '' @ n @ '', '' @ b @ '', Angra dos Reis, RJ, Brasil''"
  by (simp add: nearest_query_def filter_Boolean_def)

subsection \<open>Lemmas on \<open>POST /api/admin/login\<close>\<close>

lemma api_login_ok:
  assumes "body_str numstr body ''username'' = user" "body_str numstr body ''password'' = pass"
  shows "api_login hmac secret user pass numstr now body = Reply (signToken hmac secret user (now + 43200000))"
  using assms by (simp add: api_login_def)

text \<open>A login whose trimmed user name or password differs from the configured
  ones answers 401 with \<open>MsgBadLogin\<close> and issues no token.\<close>

theorem api_login_rejects:
  assumes "body_str numstr body ''username'' \<noteq> user \<or> body_str numstr body ''password'' \<noteq> pass"
  shows "api_login hmac secret user pass numstr now body = Fail 401 MsgBadLogin"
  using assms by (auto simp: api_login_def)

subsection \<open>Lemmas on the admin routes\<close>

lemma with_admin_other: "auth \<noteq> AuthNext \<Longrightarrow> snd (with_admin auth rows r) = rows"
  by (cases auth) (auto simp: with_admin_def)

lemma resolve_coords_numbers:
  "resolve_coords fetch num addr (Some (JNum x)) (Some (JNum y)) = Inr (Some (of_rat x, of_rat y))"
  by (simp add: resolve_coords_def)

lemma admin_create_cases:
  "admin_create fetch num numstr newid now body rows =
     (let nm = body_str numstr body ''name''; addr = body_str numstr body ''address''
      in if nm = [] \<or> addr = [] then (Fail 400 MsgNameAddress, rows)
         else (case resolve_coords fetch num addr (body_get body ''lat'') (body_get body ''lng'') of
                 Inl _ \<Rightarrow> (Fail 500 MsgAddError, rows)
               | Inr None \<Rightarrow> (Fail 400 MsgGeocodeNotFound, rows)
               | Inr (Some (la, lo)) \<Rightarrow>
                   if newid \<in> set (map cell_id rows) then (Fail 500 MsgAddError, rows)
                   else (Reply newid, rows @ [new_cell newid nm addr la lo now])))"
  by (simp add: admin_create_def sql_insert_eq new_cell_def Let_def split: sum.split option.split prod.split)

lemma admin_create_wf: "wf_table rows \<Longrightarrow> wf_table (snd (admin_create fetch num numstr newid now body rows))"
  by (auto simp: admin_create_cases Let_def wf_table_snoc new_cell_def split: sum.split option.split prod.split)

lemma admin_update_cases:
  "admin_update fetch num numstr now pid body rows =
     (let cid = js_trim pid; nm = body_str numstr body ''name''; addr = body_str numstr body ''address''
      in if cid = [] then (Fail 400 MsgBadId, rows)
         else if nm = [] \<or> addr = [] then (Fail 400 MsgNameAddress, rows)
         else (case resolve_coords fetch num addr (body_get body ''lat'') (body_get body ''lng'') of
                 Inl _ \<Rightarrow> (Fail 500 MsgUpdateError, rows)
               | Inr None \<Rightarrow> (Fail 400 MsgGeocodeNotFound, rows)
               | Inr (Some (la, lo)) \<Rightarrow>
                   if cid \<notin> set (map cell_id rows) then (Fail 404 MsgCellNotFound, rows)
                   else (Reply (), map (\<lambda>r. if cell_id r = cid
                          then r\<lparr>name := nm, address := addr, lat := la, lng := lo, updatedAt := Some now\<rparr> else r) rows)))"
proof -
  have "sql_update k f rows = (if k \<notin> set (map cell_id rows) then rows
      else map (\<lambda>r. if cell_id r = k then f r else r) rows, count_list (map cell_id rows) k)" for k f
    using sql_update_unchanged [of k f rows] by (auto simp: sql_update_def count_list_0_iff)
  then show ?thesis
    by (simp add: admin_update_def Let_def count_list_0_iff split: sum.split option.split prod.split)
qed

lemma admin_update_wf: "wf_table rows \<Longrightarrow> wf_table (snd (admin_update fetch num numstr now pid body rows))"
proof -
  assume wf: "wf_table rows"
  have "wf_table (map (\<lambda>r. if cell_id r = k then r\<lparr>name := nm, address := addr, lat := la, lng := lo, updatedAt := Some now\<rparr> else r) rows)"
    if "nm \<noteq> []" "addr \<noteq> []" for k nm addr la lo
    using wf_table_update [OF wf, of k "\<lambda>r. r\<lparr>name := nm, address := addr, lat := la, lng := lo, updatedAt := Some now\<rparr>"] that
    by (simp add: sql_update_def)
  then show ?thesis
    by (auto simp: admin_update_cases Let_def wf split: sum.split option.split prod.split)
qed

lemma admin_delete_cases:
  "admin_delete pid rows =
     (if js_trim pid \<notin> set (map cell_id rows) then (Fail 404 MsgCellNotFound, rows)
      else (Reply (), filter (\<lambda>r. cell_id r \<noteq> js_trim pid) rows))"
  using sql_delete_unchanged [of "js_trim pid" rows]
  by (auto simp: admin_delete_def sql_delete_def count_list_0_iff Let_def)

lemma admin_delete_wf: "wf_table rows \<Longrightarrow> wf_table (snd (admin_delete pid rows))"
  using wf_table_delete [of rows "js_trim pid"]
  by (auto simp: admin_delete_def Let_def split: prod.split)

text \<open>C33: \<open>POST /api/admin/cells\<close> with a name, an address, resolved coordinates and a
  fresh UUID appends exactly the new row and answers with its id.\<close>

theorem admin_create_fresh:
  assumes "body_str numstr body ''name'' \<noteq> []" "body_str numstr body ''address'' \<noteq> []"
    "resolve_coords fetch num (body_str numstr body ''address'') (body_get body ''lat'') (body_get body ''lng'') = Inr (Some (la, lo))"
    "newid \<notin> set (map cell_id rows)"
  shows "admin_create fetch num numstr newid now body rows =
    (Reply newid, rows @ [new_cell newid (body_str numstr body ''name'') (body_str numstr body ''address'') la lo now])"
  using assms by (simp add: admin_create_cases Let_def)

text \<open>C34: \<open>POST /api/admin/cells\<close> whose UUID is already an id is rejected by the
  primary key: 500 with \<open>MsgAddError\<close>, the table unchanged.\<close>

theorem admin_create_duplicate:
  assumes "body_str numstr body ''name'' \<noteq> []" "body_str numstr body ''address'' \<noteq> []"
    "resolve_coords fetch num (body_str numstr body ''address'') (body_get body ''lat'') (body_get body ''lng'') = Inr (Some (la, lo))"
    "newid \<in> set (map cell_id rows)"
  shows "admin_create fetch num numstr newid now body rows = (Fail 500 MsgAddError, rows)"
  using assms by (simp add: admin_create_cases Let_def)

text \<open>C32: \<open>PUT /api/admin/cells/:id\<close> is not a partial update: a body without a name or
  an address answers 400 and changes nothing.\<close>

theorem admin_update_not_partial:
  assumes "js_trim pid \<noteq> []" "body_str numstr body ''name'' = [] \<or> body_str numstr body ''address'' = []"
  shows "admin_update fetch num numstr now pid body rows = (Fail 400 MsgNameAddress, rows)"
  using assms by (auto simp: admin_update_cases Let_def)

text \<open>C35: \<open>PUT /api/admin/cells/:id\<close> on an existing id replaces name, address and
  coordinates of that row, stamps \<open>updatedAt\<close>, keeps id and \<open>createdAt\<close>, and
  touches no other row.\<close>

theorem admin_update_existing:
  assumes "js_trim pid \<noteq> []" "js_trim pid \<in> set (map cell_id rows)"
    "body_str numstr body ''name'' \<noteq> []" "body_str numstr body ''address'' \<noteq> []"
    "resolve_coords fetch num (body_str numstr body ''address'') (body_get body ''lat'') (body_get body ''lng'') = Inr (Some (la, lo))"
  shows "admin_update fetch num numstr now pid body rows =
    (Reply (), map (\<lambda>r. if cell_id r = js_trim pid
       then r\<lparr>name := body_str numstr body ''name'', address := body_str numstr body ''address'',
              lat := la, lng := lo, updatedAt := Some now\<rparr> else r) rows)"
  using assms by (simp add: admin_update_cases Let_def)

text \<open>\<open>PUT /api/admin/cells/:id\<close> on an id not in the table changes nothing, and
  answers 404 once the body is valid.\<close>

theorem admin_update_unknown_id:
  assumes "js_trim pid \<notin> set (map cell_id rows)"
  shows "snd (admin_update fetch num numstr now pid body rows) = rows
    \<and> (js_trim pid \<noteq> [] \<and> body_str numstr body ''name'' \<noteq> [] \<and> body_str numstr body ''address'' \<noteq> []
       \<and> (\<exists>p. resolve_coords fetch num (body_str numstr body ''address'') (body_get body ''lat'') (body_get body ''lng'') = Inr (Some p))
       \<longrightarrow> fst (admin_update fetch num numstr now pid body rows) = Fail 404 MsgCellNotFound)"
  using assms by (auto simp: admin_update_cases Let_def split: sum.split option.split)

text \<open>C36: \<open>DELETE /api/admin/cells/:id\<close> on an id of a well-formed table removes that
  row and no other.\<close>

theorem admin_delete_present:
  assumes "wf_table rows" "js_trim pid \<in> set (map cell_id rows)"
  shows "admin_delete pid rows = (Reply (), filter (\<lambda>r. cell_id r \<noteq> js_trim pid) rows)
    \<and> length (snd (admin_delete pid rows)) = length rows - 1"
  using assms sql_delete_present [OF assms] by (simp add: admin_delete_cases sql_delete_def)

text \<open>\<open>DELETE /api/admin/cells/:id\<close> on an id not in the table answers 404 and
  changes nothing.\<close>

theorem admin_delete_unknown:
  assumes "js_trim pid \<notin> set (map cell_id rows)"
  shows "admin_delete pid rows = (Fail 404 MsgCellNotFound, rows)"
  using assms by (simp add: admin_delete_cases)

subsection \<open>Witnesses\<close>

lemma geocodeQuery_example:
  "geocodeQuery (\<lambda>_. Inr (HttpReply True (Some (JArr [JObj [(''lat'', JStr ''-22.99''), (''lon'', JStr ''-44.23'')]]))))
     (\<lambda>_. 0) q = Inr (Some \<lparr>geo_lat = 0, geo_lng = 0, displayName = None\<rparr>)"
  by (simp add: geocodeQuery_def get_prop_def)

lemma example_body:
  "body_str (\<lambda>_. []) (Some (JObj [(''name'', JStr ''Cell''), (''address'', JStr ''Rua A''), (''lat'', JNum 1), (''lng'', JNum 2)])) ''name'' = ''Cell''"
  "body_str (\<lambda>_. []) (Some (JObj [(''name'', JStr ''Cell''), (''address'', JStr ''Rua A''), (''lat'', JNum 1), (''lng'', JNum 2)])) ''address'' = ''Rua A''"
  "body_get (Some (JObj [(''name'', JStr ''Cell''), (''address'', JStr ''Rua A''), (''lat'', JNum 1), (''lng'', JNum 2)])) ''lat'' = Some (JNum 1)"
  "body_get (Some (JObj [(''name'', JStr ''Cell''), (''address'', JStr ''Rua A''), (''lat'', JNum 1), (''lng'', JNum 2)])) ''lng'' = Some (JNum 2)"
  "body_str (\<lambda>_. []) (Some (JObj [(''address'', JStr ''Rua B'')])) ''name'' = []"
  "js_trim ''id1'' = ''id1''" "js_trim ''zz'' = ''zz''"
  by code_simp+

theorem admin_create_fresh_witness:
  "admin_create (\<lambda>_. Inl Error) (\<lambda>_. 0) (\<lambda>_. []) ''id1'' ''t''
     (Some (JObj [(''name'', JStr ''Cell''), (''address'', JStr ''Rua A''), (''lat'', JNum 1), (''lng'', JNum 2)])) []
   = (Reply ''id1'', [new_cell ''id1'' ''Cell'' ''Rua A'' 1 2 ''t''])"
  using admin_create_fresh [where numstr = "\<lambda>_. []" and fetch = "\<lambda>_. Inl Error" and num = "\<lambda>_. 0"
      and body = "Some (JObj [(''name'', JStr ''Cell''), (''address'', JStr ''Rua A''), (''lat'', JNum 1), (''lng'', JNum 2)])"
      and la = 1 and lo = 2 and newid = "''id1''" and rows = "[]" and now = "''t''"]
  by (simp add: example_body resolve_coords_numbers)

theorem admin_create_duplicate_witness:
  "admin_create (\<lambda>_. Inl Error) (\<lambda>_. 0) (\<lambda>_. []) ''id1'' ''t''
     (Some (JObj [(''name'', JStr ''Cell''), (''address'', JStr ''Rua A''), (''lat'', JNum 1), (''lng'', JNum 2)]))
     [new_cell ''id1'' ''Old'' ''Rua Z'' 0 0 ''s'']
   = (Fail 500 MsgAddError, [new_cell ''id1'' ''Old'' ''Rua Z'' 0 0 ''s''])"
  using admin_create_duplicate [where numstr = "\<lambda>_. []" and fetch = "\<lambda>_. Inl Error" and num = "\<lambda>_. 0"
      and body = "Some (JObj [(''name'', JStr ''Cell''), (''address'', JStr ''Rua A''), (''lat'', JNum 1), (''lng'', JNum 2)])"
      and la = 1 and lo = 2 and newid = "''id1''" and rows = "[new_cell ''id1'' ''Old'' ''Rua Z'' 0 0 ''s'']" and now = "''t''"]
  by (simp add: example_body resolve_coords_numbers new_cell_def)

theorem admin_update_not_partial_witness:
  "admin_update (\<lambda>_. Inl Error) (\<lambda>_. 0) (\<lambda>_. []) ''t'' ''id1'' (Some (JObj [(''address'', JStr ''Rua B'')]))
     [new_cell ''id1'' ''Old'' ''Rua Z'' 0 0 ''s''] = (Fail 400 MsgNameAddress, [new_cell ''id1'' ''Old'' ''Rua Z'' 0 0 ''s''])"
  using admin_update_not_partial [where numstr = "\<lambda>_. []" and fetch = "\<lambda>_. Inl Error" and num = "\<lambda>_. 0"
      and body = "Some (JObj [(''address'', JStr ''Rua B'')])" and pid = "''id1''" and now = "''t''"
      and rows = "[new_cell ''id1'' ''Old'' ''Rua Z'' 0 0 ''s'']"]
  by (simp add: example_body)

theorem admin_update_existing_witness:
  "admin_update (\<lambda>_. Inl Error) (\<lambda>_. 0) (\<lambda>_. []) ''t'' ''id1''
     (Some (JObj [(''name'', JStr ''Cell''), (''address'', JStr ''Rua A''), (''lat'', JNum 1), (''lng'', JNum 2)]))
     [new_cell ''id1'' ''Old'' ''Rua Z'' 0 0 ''s'']
   = (Reply (), [\<lparr>cell_id = ''id1'', name = ''Cell'', address = ''Rua A'', lat = 1, lng = 2, createdAt = ''s'', updatedAt = Some ''t''\<rparr>])"
  using admin_update_existing [where numstr = "\<lambda>_. []" and fetch = "\<lambda>_. Inl Error" and num = "\<lambda>_. 0"
      and body = "Some (JObj [(''name'', JStr ''Cell''), (''address'', JStr ''Rua A''), (''lat'', JNum 1), (''lng'', JNum 2)])"
      and la = 1 and lo = 2 and pid = "''id1''" and rows = "[new_cell ''id1'' ''Old'' ''Rua Z'' 0 0 ''s'']" and now = "''t''"]
  by (simp add: example_body resolve_coords_numbers new_cell_def)

theorem admin_update_unknown_id_witness:
  "snd (admin_update (\<lambda>_. Inl Error) (\<lambda>_. 0) (\<lambda>_. []) ''t'' ''zz''
     (Some (JObj [(''name'', JStr ''Cell''), (''address'', JStr ''Rua A''), (''lat'', JNum 1), (''lng'', JNum 2)]))
     [new_cell ''id1'' ''Old'' ''Rua Z'' 0 0 ''s'']) = [new_cell ''id1'' ''Old'' ''Rua Z'' 0 0 ''s'']
   \<and> fst (admin_update (\<lambda>_. Inl Error) (\<lambda>_. 0) (\<lambda>_. []) ''t'' ''zz''
     (Some (JObj [(''name'', JStr ''Cell''), (''address'', JStr ''Rua A''), (''lat'', JNum 1), (''lng'', JNum 2)]))
     [new_cell ''id1'' ''Old'' ''Rua Z'' 0 0 ''s'']) = Fail 404 MsgCellNotFound"
  using admin_update_unknown_id [where numstr = "\<lambda>_. []" and fetch = "\<lambda>_. Inl Error" and num = "\<lambda>_. 0"
      and body = "Some (JObj [(''name'', JStr ''Cell''), (''address'', JStr ''Rua A''), (''lat'', JNum 1), (''lng'', JNum 2)])"
      and pid = "''zz''" and rows = "[new_cell ''id1'' ''Old'' ''Rua Z'' 0 0 ''s'']" and now = "''t''"]
  by (simp add: example_body resolve_coords_numbers new_cell_def)

theorem admin_delete_present_witness:
  "admin_delete ''id1'' [new_cell ''id1'' ''Old'' ''Rua Z'' 0 0 ''s'', new_cell ''id2'' ''B'' ''Rua Y'' 0 0 ''s'']
     = (Reply (), [new_cell ''id2'' ''B'' ''Rua Y'' 0 0 ''s''])
   \<and> length (snd (admin_delete ''id1'' [new_cell ''id1'' ''Old'' ''Rua Z'' 0 0 ''s'', new_cell ''id2'' ''B'' ''Rua Y'' 0 0 ''s''])) = 1"
  using admin_delete_present [where pid = "''id1''"
      and rows = "[new_cell ''id1'' ''Old'' ''Rua Z'' 0 0 ''s'', new_cell ''id2'' ''B'' ''Rua Y'' 0 0 ''s'']"]
  by (simp add: example_body new_cell_def wf_table_def)

theorem admin_delete_unknown_witness:
  "admin_delete ''zz'' [new_cell ''id1'' ''Old'' ''Rua Z'' 0 0 ''s''] = (Fail 404 MsgCellNotFound, [new_cell ''id1'' ''Old'' ''Rua Z'' 0 0 ''s''])"
  using admin_delete_unknown [where pid = "''zz''" and rows = "[new_cell ''id1'' ''Old'' ''Rua Z'' 0 0 ''s'']"]
  by (simp add: example_body new_cell_def)

theorem api_nearest_missing_witness:
  "api_nearest (\<lambda>_. Inl Error) (\<lambda>_. 0) [] None (Some (QStr ''12'')) None = Fail 400 MsgStreetNumber"
proof -
  have "query_str None = [] \<or> query_str (Some (QStr ''12'')) = []" by code_simp
  then show ?thesis by (rule api_nearest_missing)
qed

theorem api_nearest_no_cells_witness:
  "api_nearest (\<lambda>_. Inr (HttpReply True (Some (JArr [JObj [(''lat'', JStr ''-22.99''), (''lon'', JStr ''-44.23'')]]))))
     (\<lambda>_. 0) [] (Some (QStr ''Rua A'')) (Some (QStr ''12'')) None = Fail 500 MsgNoCells"
proof -
  have "query_str (Some (QStr ''Rua A'')) \<noteq> []" "query_str (Some (QStr ''12'')) \<noteq> []" by code_simp+
  then show ?thesis using api_nearest_no_cells geocodeQuery_example by blast
qed

theorem api_nearest_found_witness:
  "\<exists>xs c ys. [new_cell ''a'' ''A'' ''Rua A'' 0 0 ''t''] = xs @ c # ys
    \<and> (\<forall>x \<in> set xs. cell_distance \<lparr>geo_lat = 0, geo_lng = 0, displayName = None\<rparr> c
                     < cell_distance \<lparr>geo_lat = 0, geo_lng = 0, displayName = None\<rparr> x)
    \<and> (\<forall>x \<in> set [new_cell ''a'' ''A'' ''Rua A'' 0 0 ''t'']. cell_distance \<lparr>geo_lat = 0, geo_lng = 0, displayName = None\<rparr> c
                     \<le> cell_distance \<lparr>geo_lat = 0, geo_lng = 0, displayName = None\<rparr> x)
    \<and> api_nearest (\<lambda>_. Inr (HttpReply True (Some (JArr [JObj [(''lat'', JStr ''-22.99''), (''lon'', JStr ''-44.23'')]]))))
          (\<lambda>_. 0) [new_cell ''a'' ''A'' ''Rua A'' 0 0 ''t''] (Some (QStr ''Rua A'')) (Some (QStr ''12'')) None =
        Reply \<lparr>geocoded = \<lparr>geo_lat = 0, geo_lng = 0, displayName = None\<rparr>, nearest = c,
               distanceKm = toFixed2 (cell_distance \<lparr>geo_lat = 0, geo_lng = 0, displayName = None\<rparr> c),
               mapsUrl = maps_url (address c)\<rparr>"
proof -
  have "query_str (Some (QStr ''Rua A'')) \<noteq> []" "query_str (Some (QStr ''12'')) \<noteq> []" by code_simp+
  then show ?thesis using api_nearest_found geocodeQuery_example by blast
qed

lemma example_login_body:
  "body_str (\<lambda>_. []) (Some (JObj [(''username'', JStr '' admin ''), (''password'', JStr ''pw'')])) ''username'' = ''admin''"
  "body_str (\<lambda>_. []) (Some (JObj [(''username'', JStr '' admin ''), (''password'', JStr ''pw'')])) ''password'' = ''pw''"
  "js_trim ''id1'' = ''id1''"
  by code_simp+

theorem api_login_rejects_witness:
  "api_login (\<lambda>k m. []) ''s'' ''admin'' ''secret'' (\<lambda>_. []) 0
     (Some (JObj [(''username'', JStr '' admin ''), (''password'', JStr ''pw'')])) = Fail 401 MsgBadLogin"
  by (rule api_login_rejects) (simp add: example_login_body)

end
