(* ===== verification/Server.thy ===== *)
theory Server
  imports Handlers
begin

text \<open>
  The server of \<open>src/server.js\<close> as a state machine on the table \<open>cells\<close>: the
  configuration read from the environment (lines 12-14) and the outside world, the
  requests the routes accept, one step per request (the route and, for the admin
  routes, \<open>requireAdmin\<close> before it), and the tables reachable from the first
  \<open>initDb\<close> through requests and restarts.

  A request is handled in one step because each handler touches the table in at most
  one statement, which SQLite runs atomically: its awaits on Nominatim happen before
  that statement and read nothing of the table, so the interleaving of concurrent
  requests is the interleaving of their steps.
\<close>

record config =
  createHmac :: hmac
  ADMIN_SECRET :: string
  ADMIN_USER :: string
  ADMIN_PASS :: string
  cfg_numstr :: "rat \<Rightarrow> string"
  cfg_num :: "jval option \<Rightarrow> real"
  cfg_fetch :: "string \<Rightarrow> js_error + http_reply"

text \<open>The requests, with what each handler reads besides the table: the clock
  (\<open>Date.now()\<close> for \<open>requireAdmin\<close> and the login, \<open>new Date().toISOString()\<close>
  for the timestamps), the \<open>Authorization\<close> header, the query or the body, the route
  parameter \<open>:id\<close>, and the UUID that \<open>POST\<close> draws.\<close>

datatype request =
    GetNearest "qval option" "qval option" "qval option"
  | PostLogin int "jval option"
  | GetCells int "string option"
  | PostCell int string "string option" "jval option" string
  | PutCell int string "string option" string "jval option"
  | DeleteCell int "string option" string

datatype reply = RNearest nearest_reply | RToken string | RCells "cell list" | RId string | ROk

definition auth_of :: "config \<Rightarrow> int \<Rightarrow> string option \<Rightarrow> auth_outcome" where
  "auth_of cfg now hdr = requireAdmin (createHmac cfg) (ADMIN_SECRET cfg) now hdr"

definition server_step :: "config \<Rightarrow> request \<Rightarrow> table \<Rightarrow> reply response \<times> table" where
  "server_step cfg req rows =
     (case req of
        GetNearest s n b \<Rightarrow>
          (map_response RNearest (api_nearest (cfg_fetch cfg) (cfg_num cfg) rows s n b), rows)
      | PostLogin now body \<Rightarrow>
          (map_response RToken (api_login (createHmac cfg) (ADMIN_SECRET cfg) (ADMIN_USER cfg) (ADMIN_PASS cfg)
             (cfg_numstr cfg) now body), rows)
      | GetCells now hdr \<Rightarrow>
          with_admin (auth_of cfg now hdr) rows (map_response RCells (admin_list rows), rows)
      | PostCell now stamp hdr body uid \<Rightarrow>
          with_admin (auth_of cfg now hdr) rows
            (apfst (map_response RId) (admin_create (cfg_fetch cfg) (cfg_num cfg) (cfg_numstr cfg) uid stamp body rows))
      | PutCell now stamp hdr pid body \<Rightarrow>
          with_admin (auth_of cfg now hdr) rows
            (apfst (map_response (\<lambda>_. ROk)) (admin_update (cfg_fetch cfg) (cfg_num cfg) (cfg_numstr cfg) stamp pid body rows))
      | DeleteCell now hdr pid \<Rightarrow>
          with_admin (auth_of cfg now hdr) rows (apfst (map_response (\<lambda>_. ROk)) (admin_delete pid rows)))"

text \<open>The clock reading and header of a request that \<open>requireAdmin\<close> guards.\<close>

fun guarded_by :: "request \<Rightarrow> (int \<times> string option) option" where
  "guarded_by (GetNearest _ _ _) = None"
| "guarded_by (PostLogin _ _) = None"
| "guarded_by (GetCells now hdr) = Some (now, hdr)"
| "guarded_by (PostCell now _ hdr _ _) = Some (now, hdr)"
| "guarded_by (PutCell now _ hdr _ _) = Some (now, hdr)"
| "guarded_by (DeleteCell now hdr _) = Some (now, hdr)"

text \<open>The tables the server can hold: after the first \<open>initDb\<close> (line 84) on a new
  database (even one whose seeding was rejected half-way, the rows inserted before
  staying), after a restart, which runs \<open>initDb\<close> on the stored table, and after
  any request.\<close>

inductive reachable :: "config \<Rightarrow> table \<Rightarrow> bool" for cfg where
  boot: "initDb uuid stamp [] = (e, rows) \<Longrightarrow> reachable cfg rows"
| restart: "reachable cfg rows \<Longrightarrow> initDb uuid stamp rows = (e, rows') \<Longrightarrow> reachable cfg rows'"
| step: "reachable cfg rows \<Longrightarrow> server_step cfg req rows = (resp, rows') \<Longrightarrow> reachable cfg rows'"

subsection \<open>Invariant and guard\<close>

lemma with_admin_wf:
  "wf_table rows \<Longrightarrow> wf_table (snd r) \<Longrightarrow> wf_table (snd (with_admin auth rows r))"
  by (cases auth) (auto simp: with_admin_def)

lemma server_step_wf: "wf_table rows \<Longrightarrow> wf_table (snd (server_step cfg req rows))"
  by (cases req)
     (auto simp: server_step_def apfst_def map_prod_def split_beta
        intro!: with_admin_wf admin_create_wf admin_update_wf admin_delete_wf)

text \<open>C8: Every table the server can hold is well-formed: the ids are distinct and
  every row has a non-empty name and address.\<close>

theorem reachable_wf: "reachable cfg rows \<Longrightarrow> wf_table rows"
proof (induction rule: reachable.induct)
  case (boot uuid stamp e rows)
  then show ?case using initDb_wf [of "[]" uuid stamp] by simp
next
  case (restart rows uuid stamp e rows')
  then show ?case using initDb_wf [of rows uuid stamp] by simp
next
  case (step rows req resp rows')
  then show ?case using server_step_wf [of rows cfg req] by simp
qed

lemma with_admin_changed:
  "snd (with_admin auth rows r) \<noteq> rows \<Longrightarrow> auth = AuthNext"
  using with_admin_other by blast

text \<open>C7: A request changes the table only if it is an admin request whose
  \<open>Authorization\<close> header passes \<open>requireAdmin\<close>.\<close>

theorem server_step_guarded:
  assumes "snd (server_step cfg req rows) \<noteq> rows"
  shows "\<exists>now hdr. guarded_by req = Some (now, hdr) \<and> auth_of cfg now hdr = AuthNext"
  using assms by (cases req) (auto simp: server_step_def dest: with_admin_changed)

subsection \<open>Witnesses\<close>

theorem reachable_wf_witness:
  "reachable \<lparr>createHmac = \<lambda>k m. [], ADMIN_SECRET = ''s'', ADMIN_USER = ''admin'', ADMIN_PASS = ''pw'',
     cfg_numstr = \<lambda>_. [], cfg_num = \<lambda>_. 0, cfg_fetch = \<lambda>_. Inl Error\<rparr>
     (snd (initDb (\<lambda>k. replicate (Suc k) CHR ''x'') ''t'' []))
   \<and> wf_table (snd (initDb (\<lambda>k. replicate (Suc k) CHR ''x'') ''t'' []))"
proof -
  let ?cfg = "\<lparr>createHmac = \<lambda>k m. [], ADMIN_SECRET = ''s'', ADMIN_USER = ''admin'', ADMIN_PASS = ''pw'',
     cfg_numstr = \<lambda>_. [], cfg_num = \<lambda>_. 0, cfg_fetch = \<lambda>_. Inl Error\<rparr>"
  have h: "reachable ?cfg (snd (initDb (\<lambda>k. replicate (Suc k) CHR ''x'') ''t'' []))"
    by (rule reachable.boot [where e = "fst (initDb (\<lambda>k. replicate (Suc k) CHR ''x'') ''t'' [])"]) simp
  show ?thesis using h reachable_wf [OF h] by blast
qed

theorem server_step_guarded_witness:
  "\<exists>now hdr. guarded_by (DeleteCell 0 (Some (''Bearer '' @ signToken (\<lambda>k m. []) ''s'' ''admin'' 10)) ''a'') = Some (now, hdr)
     \<and> auth_of \<lparr>createHmac = \<lambda>k m. [], ADMIN_SECRET = ''s'', ADMIN_USER = ''admin'', ADMIN_PASS = ''pw'',
         cfg_numstr = \<lambda>_. [], cfg_num = \<lambda>_. 0, cfg_fetch = \<lambda>_. Inl Error\<rparr> now hdr = AuthNext"
proof -
  let ?cfg = "\<lparr>createHmac = \<lambda>k m. [], ADMIN_SECRET = ''s'', ADMIN_USER = ''admin'', ADMIN_PASS = ''pw'',
     cfg_numstr = \<lambda>_. [], cfg_num = \<lambda>_. 0, cfg_fetch = \<lambda>_. Inl Error\<rparr>"
  let ?hdr = "Some (''Bearer '' @ signToken (\<lambda>k m. []) ''s'' ''admin'' 10)"
  have a: "auth_of ?cfg 0 ?hdr = AuthNext" by code_simp
  have d: "admin_delete ''a'' [new_cell ''a'' ''n'' ''x'' 0 0 ''t''] = (Reply (), [])" by code_simp
  have "snd (server_step ?cfg (DeleteCell 0 ?hdr ''a'') [new_cell ''a'' ''n'' ''x'' 0 0 ''t''])
      \<noteq> [new_cell ''a'' ''n'' ''x'' 0 0 ''t'']"
    unfolding server_step_def request.case a with_admin_def auth_outcome.case d by simp
  then show ?thesis by (rule server_step_guarded)
qed

end
