(* ===== verification/JsNumber.thy ===== *)
theory JsNumber
  imports JsonLex
begin

text \<open>
  \<open>Number(s)\<close> on a string (ECMAScript \<open>StringToNumber\<close>), as \<open>parseMaybeNumber\<close>
  of \<open>src/admin.js\<close> (lines 32-37) applies it to the text of an input field: white
  space trimmed, the empty string is 0, a decimal literal with optional sign, point and
  exponent, \<open>Infinity\<close> with optional sign, or an unsigned \<open>0x\<close>/\<open>0o\<close>/\<open>0b\<close>
  integer; everything else is \<open>NaN\<close>.

  The value is kept exact, as a rational: the rounding to the nearest double is not
  modelled, except where it decides \<open>Number.isFinite\<close>: a literal rounds to
  \<open>Infinity\<close> exactly when its magnitude reaches \<open>2\<^sup>1\<^sup>0\<^sup>2\<^sup>4 - 2\<^sup>9\<^sup>7\<^sup>0\<close>, the midpoint
  between the largest double and \<open>2\<^sup>1\<^sup>0\<^sup>2\<^sup>4\<close> (round-half-even rounds it up, the
  largest double having an odd significand).
\<close>

datatype js_number = JSFinite rat | JSInf bool | JSNaN

text \<open>\<open>StrUnsignedDecimalLiteral\<close> other than \<open>Infinity\<close>: digits, an optional point
  with optional digits (at least one digit in all), an optional exponent.\<close>

definition str_unsigned_decimal :: "string \<Rightarrow> rat option" where
  "str_unsigned_decimal s =
     (let ip = takeWhile is_digit s;
          r1 = dropWhile is_digit s;
          (fp, r2) = (case r1 of
                        c # cs \<Rightarrow> (if c = CHR ''.'' then (takeWhile is_digit cs, dropWhile is_digit cs) else ([], r1))
                      | [] \<Rightarrow> ([], []))
      in if ip = [] \<and> fp = [] then None
         else (case lex_exp r2 of
                 Some (e, []) \<Rightarrow> Some (scale10 (of_nat (digits_val (ip @ fp)) / 10 ^ length fp) e)
               | _ \<Rightarrow> None))"

text \<open>\<open>StrDecimalLiteral\<close>: an optional sign, then \<open>Infinity\<close> or an unsigned literal.\<close>

definition str_decimal :: "string \<Rightarrow> js_number" where
  "str_decimal t =
     (let (neg, u) = (case t of
                        c # cs \<Rightarrow> (if c = CHR ''+'' then (False, cs) else if c = CHR ''-'' then (True, cs) else (False, t))
                      | [] \<Rightarrow> (False, t))
      in if u = ''Infinity'' then JSInf (\<not> neg)
         else (case str_unsigned_decimal u of
                 Some v \<Rightarrow> JSFinite (if neg then - v else v)
               | None \<Rightarrow> JSNaN))"

definition radix_of :: "char \<Rightarrow> nat option" where
  "radix_of c =
     (if c = CHR ''x'' \<or> c = CHR ''X'' then Some 16
      else if c = CHR ''o'' \<or> c = CHR ''O'' then Some 8
      else if c = CHR ''b'' \<or> c = CHR ''B'' then Some 2
      else None)"

text \<open>The digits of a \<open>NonDecimalIntegerLiteral\<close> in base \<open>b\<close> (hex digits in either case).\<close>

definition radix_digits :: "nat \<Rightarrow> string \<Rightarrow> nat option" where
  "radix_digits b ds =
     foldl (\<lambda>acc c. case (acc, hex_val c) of
                      (Some n, Some d) \<Rightarrow> (if d < b then Some (b * n + d) else None)
                    | _ \<Rightarrow> None) (Some 0) ds"

definition js_Number_str :: "string \<Rightarrow> js_number" where
  "js_Number_str s =
     (let t = js_trim s in
      case t of
        [] \<Rightarrow> JSFinite 0
      | c0 # c1 # ds \<Rightarrow>
          (case radix_of c1 of
             Some b \<Rightarrow>
               (if c0 = CHR ''0'' then
                  (if ds = [] then JSNaN
                   else (case radix_digits b ds of Some n \<Rightarrow> JSFinite (of_nat n) | None \<Rightarrow> JSNaN))
                else str_decimal t)
           | None \<Rightarrow> str_decimal t)
      | _ \<Rightarrow> str_decimal t)"

definition double_overflow :: rat where
  "double_overflow = 2 ^ 1024 - 2 ^ 970"

text \<open>\<open>Number.isFinite(Number(s))\<close>, and the number when it holds.\<close>

definition finite_number :: "js_number \<Rightarrow> rat option" where
  "finite_number n = (case n of JSFinite x \<Rightarrow> (if \<bar>x\<bar> < double_overflow then Some x else None) | _ \<Rightarrow> None)"

definition parseMaybeNumber :: "string \<Rightarrow> rat option" where
  "parseMaybeNumber v =
     (let t = js_trim v in if t = [] then None else finite_number (js_Number_str t))"

subsection \<open>Decimal integers\<close>

lemma digit_facts:
  "is_digit c \<Longrightarrow> c \<noteq> CHR ''+'' \<and> c \<noteq> CHR ''-'' \<and> c \<noteq> CHR ''I'' \<and> radix_of c = None
     \<and> 33 \<le> (of_char c :: nat) \<and> (of_char c :: nat) < 128"
proof -
  assume "is_digit c"
  then have n: "48 \<le> (of_char c :: nat)" "(of_char c :: nat) \<le> 57" by (simp_all add: is_digit_def)
  have ne: "c \<noteq> d" if "(of_char d :: nat) < 48 \<or> 57 < (of_char d :: nat)" for d
    using n that by auto
  have "radix_of c = None"
    using ne [of "CHR ''x''"] ne [of "CHR ''X''"] ne [of "CHR ''o''"] ne [of "CHR ''O''"]
      ne [of "CHR ''b''"] ne [of "CHR ''B''"] by (simp add: radix_of_def)
  then show ?thesis using n ne [of "CHR ''+''"] ne [of "CHR ''-''"] ne [of "CHR ''I''"] by simp
qed

lemma str_unsigned_decimal_digits:
  assumes "ds \<noteq> []" "\<forall>c \<in> set ds. is_digit c"
  shows "str_unsigned_decimal ds = Some (of_nat (digits_val ds))"
proof -
  have tw: "takeWhile is_digit ds = ds" and dw: "dropWhile is_digit ds = []"
    using assms(2) by (simp_all add: dropWhile_eq_Nil_conv)
  show ?thesis
    unfolding str_unsigned_decimal_def tw dw using assms(1)
    by (simp add: lex_exp_def scale10_def)
qed

lemma str_decimal_digits:
  assumes "ds \<noteq> []" "\<forall>c \<in> set ds. is_digit c"
  shows "str_decimal ds = JSFinite (of_nat (digits_val ds))"
    and "str_decimal (CHR ''-'' # ds) = JSFinite (- of_nat (digits_val ds))"
proof -
  obtain d ds' where ds: "ds = d # ds'" using assms(1) by (cases ds) auto
  have "is_digit d" using assms(2) ds by simp
  then have nd: "d \<noteq> CHR ''+'' \<and> d \<noteq> CHR ''-'' \<and> d \<noteq> CHR ''I''" using digit_facts by blast
  have ni: "ds \<noteq> ''Infinity''" using nd ds by auto
  show "str_decimal ds = JSFinite (of_nat (digits_val ds))"
    using nd ni str_unsigned_decimal_digits [OF assms] unfolding ds by (simp add: str_decimal_def)
  show "str_decimal (CHR ''-'' # ds) = JSFinite (- of_nat (digits_val ds))"
    using ni str_unsigned_decimal_digits [OF assms] by (simp add: str_decimal_def)
qed

lemma js_Number_str_digits:
  assumes "ds \<noteq> []" "\<forall>c \<in> set ds. is_digit c"
  shows "js_Number_str ds = JSFinite (of_nat (digits_val ds))"
    and "js_Number_str (CHR ''-'' # ds) = JSFinite (- of_nat (digits_val ds))"
proof -
  obtain d ds' where ds: "ds = d # ds'" using assms(1) by (cases ds) auto
  have pr: "\<forall>c \<in> set ds. 33 \<le> (of_char c :: nat) \<and> (of_char c :: nat) < 128"
    using assms(2) digit_facts by blast
  then have t1: "js_trim ds = ds" and t2: "js_trim (CHR ''-'' # ds) = CHR ''-'' # ds"
    by (simp_all add: js_trim_printable)
  have rd: "radix_of d = None" using assms(2) ds digit_facts by simp
  have "js_Number_str ds = str_decimal ds"
  proof (cases ds')
    case Nil
    then show ?thesis unfolding js_Number_str_def t1 by (simp add: ds)
  next
    case (Cons c cs)
    have "radix_of c = None" using assms(2) ds Cons digit_facts by simp
    then show ?thesis unfolding js_Number_str_def t1 by (simp add: ds Cons)
  qed
  then show "js_Number_str ds = JSFinite (of_nat (digits_val ds))"
    using str_decimal_digits(1) [OF assms] by simp
  have "js_Number_str (CHR ''-'' # ds) = str_decimal (CHR ''-'' # ds)"
    unfolding js_Number_str_def t2 by (simp add: ds rd)
  then show "js_Number_str (CHR ''-'' # ds) = JSFinite (- of_nat (digits_val ds))"
    using str_decimal_digits(2) [OF assms] by simp
qed

lemma nat_str_ne: "nat_str n \<noteq> []"
  using nat_str_Cons [of n] by auto

text \<open>C39: \<open>parseMaybeNumber\<close> reads back every integer written in decimal, negative
  ones included, of magnitude at most \<open>2\<^sup>5\<^sup>3\<close>: there doubles hold every integer
  exactly, so the exact value of the model is the program's. The admin form sends the
  coordinates the user typed.\<close>

theorem parseMaybeNumber_int_str:
  assumes "\<bar>i\<bar> \<le> 2 ^ 53"
  shows "parseMaybeNumber (int_str i) = Some (of_int i)"
proof -
  let ?m = "nat \<bar>i\<bar>"
  have "(of_int \<bar>i\<bar> :: rat) \<le> of_int (2 ^ 53)" using assms by (simp only: of_int_le_iff)
  moreover have "(2 :: rat) ^ 53 < double_overflow" by (simp add: double_overflow_def)
  ultimately have bound: "\<bar>of_int i :: rat\<bar> < double_overflow" by simp
  have dig: "\<forall>c \<in> set (nat_str ?m). is_digit c" using nat_str_digits by blast
  have pr: "\<forall>c \<in> set (int_str i). 33 \<le> (of_char c :: nat) \<and> (of_char c :: nat) < 128"
    using dig digit_facts by (auto simp: int_str_def)
  have n: "js_Number_str (int_str i) = JSFinite (of_int i)"
    using js_Number_str_digits [OF nat_str_ne dig] by (auto simp: int_str_def)
  have "int_str i \<noteq> []" using nat_str_ne by (simp add: int_str_def)
  then show ?thesis
    using bound by (simp add: parseMaybeNumber_def js_trim_printable pr n finite_number_def)
qed
text \<open>\<open>Number\<close> also reads hexadecimal, octal and binary integers and exponents, so
  the coordinate fields accept them.\<close>

lemma parseMaybeNumber_radix_examples:
  "parseMaybeNumber ''0x1A'' = Some 26" "parseMaybeNumber '' 1e2 '' = Some 100"
  "parseMaybeNumber ''Infinity'' = None" "parseMaybeNumber ''-2.5'' = Some (-5/2)"
  by code_simp+

subsection \<open>Witnesses\<close>

theorem parseMaybeNumber_int_str_witness:
  "\<bar>-22 :: int\<bar> \<le> 2 ^ 53 \<and> parseMaybeNumber (int_str (-22)) = Some (-22)"
proof -
  have h: "\<bar>-22 :: int\<bar> \<le> 2 ^ 53" by simp
  show ?thesis using h parseMaybeNumber_int_str [OF h] by simp
qed

end
