(* ===== verification/AdminClient.thy ===== *)
theory AdminClient
  imports Html JsNumber Handlers
begin

text \<open>
  The admin page \<open>src/admin.js\<close>: its session state (the global \<open>TOKEN\<close> and the
  \<open>localStorage\<close> entry \<open>admin_token\<close>, line 15), the helper \<open>api\<close> (22-30), the
  handlers of the login form (139-157), of the logout button (159-164), of the create
  form (166-195), of the save and delete buttons of a listed cell (99-128), and the
  restoring of a stored session at load (197-211).

  A handler runs to its end before the next event is taken (the browser's event loop),
  so each is one step on the page state. What a handler receives from the server is
  an argument: the server's response (\<^typ>\<open>'a response\<close> of \<open>Handlers\<close>), or the
  browser's network error. The DOM is modelled by the status lines a handler writes
  (their final text and error flag), by what the list shows (its markup is the theory
  \<open>AdminRender\<close>), and by the requests the handlers send. The invariant: the token
  and its stored copy agree.
\<close>

subsection \<open>\<open>api(path, opts)\<close>\<close>

datatype 'a fetch_result = NetworkError string | Answer "'a response"

text \<open>\<open>api\<close> returns the parsed body of a 2xx answer and throws an \<open>Error\<close> with the
  server's \<open>error\<close> message otherwise; an exception that reached Express is answered
  with an HTML page, whose \<open>res.json()\<close> fails, so the message is \<open>Erro HTTP 500\<close>.\<close>

definition api_result :: "'a fetch_result \<Rightarrow> string + 'a" where
  "api_result r =
     (case r of
        NetworkError m \<Rightarrow> Inl m
      | Answer (Reply x) \<Rightarrow> Inr x
      | Answer (Fail s m) \<Rightarrow> Inl (msg_text m)
      | Answer (Uncaught e) \<Rightarrow> Inl ''Erro HTTP 500'')"

text \<open>The \<open>Authorization\<close> header \<open>api\<close> adds (line 25).\<close>

definition api_auth :: "string \<Rightarrow> string option" where
  "api_auth tok = (if tok = [] then None else Some (''Bearer '' @ tok))"

subsection \<open>The page state\<close>

text \<open>What \<open>listEl\<close> holds: the page's initial content, a message written as markup,
  or the list \<open>renderList\<close> drew from the cells of the last \<open>refresh()\<close>.\<close>

datatype list_view = ListInitial | ListMsg string | ListCells "cell list"

text \<open>The global \<open>TOKEN\<close>, the \<open>localStorage\<close> entry, the text and error flag of the
  status lines \<open>authStatus\<close> and \<open>createStatus\<close> (written by \<open>setStatus\<close>, lines
  17-20), the list, and the status line of each drawn item, by its position.\<close>

record admin_ui =
  TOKEN :: string
  stored_token :: "string option"
  authStatus :: "string \<times> bool"
  createStatus :: "string \<times> bool"
  listing :: list_view
  itemStatus :: "nat \<Rightarrow> (string \<times> bool) option"

definition msg_connected :: string where "msg_connected = ''Conectado '' @ [CHR 0xE2, CHR 0x9C, CHR 0x85]"
definition msg_logged_out :: string where "msg_logged_out = ''Saiu '' @ [CHR 0xE2, CHR 0x9C, CHR 0x85]"
definition msg_expired :: string where
  "msg_expired = ''Sess'' @ [CHR 0xC3, CHR 0xA3] @ ''o expirada. Fa'' @ [CHR 0xC3, CHR 0xA7] @ ''a login.''"
definition msg_login_first :: string where "msg_login_first = ''Fa'' @ [CHR 0xC3, CHR 0xA7] @ ''a login primeiro.''"
definition msg_fill_in :: string where "msg_fill_in = ''Preencha nome e endere'' @ [CHR 0xC3, CHR 0xA7] @ ''o.''"
definition msg_added :: string where "msg_added = ''Adicionada '' @ [CHR 0xE2, CHR 0x9C, CHR 0x85]"
definition msg_saved :: string where "msg_saved = ''Salvo '' @ [CHR 0xE2, CHR 0x9C, CHR 0x85]"
definition msg_removed :: string where "msg_removed = ''Removida '' @ [CHR 0xE2, CHR 0x9C, CHR 0x85]"
definition list_login_again :: string where
  \<open>list_login_again = ''<div class="tiny">Fa'' @ [CHR 0xC3, CHR 0xA7] @ ''a login novamente.</div>''\<close>
definition list_login_to_see :: string where
  \<open>list_login_to_see = ''<div class="tiny">Fa'' @ [CHR 0xC3, CHR 0xA7] @ ''a login para ver e editar as c''
     @ [CHR 0xC3, CHR 0xA9] @ ''lulas.</div>''\<close>

text \<open>Line 15: \<open>localStorage.getItem("admin_token") || ""\<close>.\<close>

definition admin_load :: "string option \<Rightarrow> admin_ui" where
  "admin_load st =
     \<lparr>TOKEN = (case st of None \<Rightarrow> [] | Some t \<Rightarrow> t), stored_token = st,
      authStatus = ([], False), createStatus = ([], False), listing = ListInitial, itemStatus = Map.empty\<rparr>"

text \<open>Lines 134-137: \<open>refresh()\<close> fetches the cells and redraws the list, which
  replaces every item and so every item's status line; a failure is the message it
  throws to its caller.\<close>

definition admin_refresh :: "cell list fetch_result \<Rightarrow> admin_ui \<Rightarrow> string + admin_ui" where
  "admin_refresh rr s =
     (case api_result rr of
        Inl m \<Rightarrow> Inl m
      | Inr cs \<Rightarrow> Inr (s\<lparr>listing := ListCells cs, itemStatus := Map.empty\<rparr>))"

text \<open>Lines 197-211: with a token, the list is fetched; when that fails the token is
  dropped.\<close>

definition admin_restore :: "cell list fetch_result \<Rightarrow> admin_ui \<Rightarrow> admin_ui" where
  "admin_restore r s =
     (if TOKEN s = [] then s\<lparr>listing := ListMsg list_login_to_see\<rparr>
      else (case admin_refresh r s of
              Inr s' \<Rightarrow> s'\<lparr>authStatus := (msg_connected, False)\<rparr>
            | Inl _ \<Rightarrow> s\<lparr>TOKEN := [], stored_token := None, authStatus := (msg_expired, True)\<rparr>))"

text \<open>Lines 139-157: the body sent, and the state after the login answer \<open>r\<close> and the
  answer \<open>rr\<close> of the \<open>refresh()\<close> that follows a success.\<close>

definition login_body :: "string \<Rightarrow> string \<Rightarrow> jval option" where
  "login_body username password =
     Some (JObj [(''username'', JStr (js_trim username)), (''password'', JStr (js_trim password))])"

definition admin_login ::
  "string fetch_result \<Rightarrow> cell list fetch_result \<Rightarrow> admin_ui \<Rightarrow> admin_ui" where
  "admin_login r rr s =
     (case api_result r of
        Inl m \<Rightarrow> s\<lparr>authStatus := (m, True)\<rparr>
      | Inr t \<Rightarrow>
          (let s' = s\<lparr>TOKEN := t, stored_token := Some t, authStatus := (msg_connected, False)\<rparr>
           in case admin_refresh rr s' of
                Inr s'' \<Rightarrow> s''
              | Inl m \<Rightarrow> s'\<lparr>authStatus := (m, True)\<rparr>))"

definition admin_logout :: "admin_ui \<Rightarrow> admin_ui" where
  "admin_logout s =
     s\<lparr>TOKEN := [], stored_token := None, authStatus := (msg_logged_out, False),
       listing := ListMsg list_login_again, itemStatus := Map.empty\<rparr>"

subsection \<open>Creating and editing cells\<close>

text \<open>\<open>JSON.stringify({ name, address, lat: lat ?? undefined, lng: lng ?? undefined })\<close>:
  a key whose value is \<open>undefined\<close> is left out.\<close>

definition cell_body :: "string \<Rightarrow> string \<Rightarrow> rat option \<Rightarrow> rat option \<Rightarrow> jval option" where
  "cell_body nm addr la lo =
     Some (JObj ([(''name'', JStr nm), (''address'', JStr addr)]
                 @ (case la of None \<Rightarrow> [] | Some x \<Rightarrow> [(''lat'', JNum x)])
                 @ (case lo of None \<Rightarrow> [] | Some y \<Rightarrow> [(''lng'', JNum y)])))"

text \<open>Lines 166-188: the request the create form sends (its \<open>Authorization\<close> header and
  body), if it sends one.\<close>

definition create_request ::
  "admin_ui \<Rightarrow> string \<Rightarrow> string \<Rightarrow> string \<Rightarrow> string \<Rightarrow> (string option \<times> jval option) option" where
  "create_request s name_in addr_in lat_in lng_in =
     (let nm = js_trim name_in; addr = js_trim addr_in
      in if TOKEN s = [] \<or> nm = [] \<or> addr = [] then None
         else Some (api_auth (TOKEN s), cell_body nm addr (parseMaybeNumber lat_in) (parseMaybeNumber lng_in)))"

definition admin_create_submit ::
  "string \<Rightarrow> string \<Rightarrow> string fetch_result \<Rightarrow> cell list fetch_result \<Rightarrow> admin_ui \<Rightarrow> admin_ui" where
  "admin_create_submit name_in addr_in r rr s =
     (if TOKEN s = [] then s\<lparr>createStatus := (msg_login_first, True)\<rparr>
      else if js_trim name_in = [] \<or> js_trim addr_in = [] then s\<lparr>createStatus := (msg_fill_in, True)\<rparr>
      else (case api_result r of
              Inl m \<Rightarrow> s\<lparr>createStatus := (m, True)\<rparr>
            | Inr _ \<Rightarrow>
                (let s' = s\<lparr>createStatus := (msg_added, False)\<rparr>
                 in case admin_refresh rr s' of
                      Inr s'' \<Rightarrow> s''
                    | Inl m \<Rightarrow> s'\<lparr>createStatus := (m, True)\<rparr>)))"

text \<open>\<open>encodeURIComponent\<close>: the unreserved characters \<open>A-Z a-z 0-9 - _ . ! ~ * ' ( )\<close>
  stay, every other byte is \<open>%XX\<close>; and \<open>decodeURIComponent\<close>, which Express applies to
  the route parameter \<open>:id\<close>.\<close>

definition uri_unreserved :: "char \<Rightarrow> bool" where
  "uri_unreserved c =
     (let n = (of_char c :: nat)
      in (0x30 \<le> n \<and> n \<le> 0x39) \<or> (0x41 \<le> n \<and> n \<le> 0x5A) \<or> (0x61 \<le> n \<and> n \<le> 0x7A)
         \<or> n = 0x2D \<or> n = 0x5F \<or> n = 0x2E \<or> n = 0x21 \<or> n = 0x7E \<or> n = 0x2A \<or> n = 0x27
         \<or> n = 0x28 \<or> n = 0x29)"

definition encodeURIComponent :: "string \<Rightarrow> string" where
  "encodeURIComponent s =
     concat (map (\<lambda>c. if uri_unreserved c then [c]
                      else [CHR ''%'', hex_upper (of_char c div 16), hex_upper (of_char c mod 16)]) s)"

fun decodeURIComponent :: "string \<Rightarrow> string" where
  "decodeURIComponent [] = []"
| "decodeURIComponent (c # cs) =
     (if c = CHR ''%'' then
        (case cs of
           h1 # h2 # rest \<Rightarrow>
             (case (hex_val h1, hex_val h2) of
                (Some x, Some y) \<Rightarrow> char_of (x * 16 + y) # decodeURIComponent rest
              | _ \<Rightarrow> c # decodeURIComponent cs)
         | _ \<Rightarrow> c # decodeURIComponent cs)
      else c # decodeURIComponent cs)"

definition cell_path :: "cell \<Rightarrow> string" where
  "cell_path c = ''/api/admin/cells/'' @ encodeURIComponent (cell_id c)"

text \<open>Lines 99-110: the \<open>PUT\<close> that the save button of the listed cell \<open>c\<close> sends: its
  path, \<open>Authorization\<close> header and body. The delete button (118-122) sends a
  \<open>DELETE\<close> to the same path.\<close>

definition save_request ::
  "admin_ui \<Rightarrow> cell \<Rightarrow> string \<Rightarrow> string \<Rightarrow> string \<Rightarrow> string \<Rightarrow> string \<times> string option \<times> jval option" where
  "save_request s c name_in addr_in lat_in lng_in =
     (cell_path c, api_auth (TOKEN s),
      cell_body (js_trim name_in) (js_trim addr_in) (parseMaybeNumber lat_in) (parseMaybeNumber lng_in))"

definition delete_request :: "admin_ui \<Rightarrow> cell \<Rightarrow> string \<times> string option" where
  "delete_request s c = (cell_path c, api_auth (TOKEN s))"

text \<open>The handlers of the two buttons of the \<open>i\<close>-th drawn item (lines 99-116 and
  118-128): there are such buttons only while the list is drawn with at least
  \<open>i + 1\<close> cells. After the answer \<open>r\<close> to the request, the item's status line shows
  the outcome, and a success is followed by a \<open>refresh()\<close>, whose failure is shown on
  the same line.\<close>

definition item_outcome ::
  "nat \<Rightarrow> string \<Rightarrow> unit fetch_result \<Rightarrow> cell list fetch_result \<Rightarrow> admin_ui \<Rightarrow> admin_ui" where
  "item_outcome i ok r rr s =
     (case api_result r of
        Inl m \<Rightarrow> s\<lparr>itemStatus := (itemStatus s)(i \<mapsto> (m, True))\<rparr>
      | Inr _ \<Rightarrow>
          (let s' = s\<lparr>itemStatus := (itemStatus s)(i \<mapsto> (ok, False))\<rparr>
           in case admin_refresh rr s' of
                Inr s'' \<Rightarrow> s''
              | Inl m \<Rightarrow> s'\<lparr>itemStatus := (itemStatus s')(i \<mapsto> (m, True))\<rparr>))"

definition item_drawn :: "admin_ui \<Rightarrow> nat \<Rightarrow> bool" where
  "item_drawn s i = (case listing s of ListCells cs \<Rightarrow> i < length cs | _ \<Rightarrow> False)"

definition admin_save_click ::
  "nat \<Rightarrow> unit fetch_result \<Rightarrow> cell list fetch_result \<Rightarrow> admin_ui \<Rightarrow> admin_ui" where
  "admin_save_click i r rr s = (if item_drawn s i then item_outcome i msg_saved r rr s else s)"

definition admin_delete_click ::
  "nat \<Rightarrow> bool \<Rightarrow> unit fetch_result \<Rightarrow> cell list fetch_result \<Rightarrow> admin_ui \<Rightarrow> admin_ui" where
  "admin_delete_click i confirmed r rr s =
     (if item_drawn s i \<and> confirmed then item_outcome i msg_removed r rr s else s)"

subsection \<open>The session as a state machine\<close>

datatype admin_event =
    EvLogin "string fetch_result" "cell list fetch_result"
  | EvLogout
  | EvCreate string string "string fetch_result" "cell list fetch_result"
  | EvSave nat "unit fetch_result" "cell list fetch_result"
  | EvDelete nat bool "unit fetch_result" "cell list fetch_result"

fun admin_step :: "admin_event \<Rightarrow> admin_ui \<Rightarrow> admin_ui" where
  "admin_step (EvLogin r rr) s = admin_login r rr s"
| "admin_step EvLogout s = admin_logout s"
| "admin_step (EvCreate n a r rr) s = admin_create_submit n a r rr s"
| "admin_step (EvSave i r rr) s = admin_save_click i r rr s"
| "admin_step (EvDelete i ok r rr) s = admin_delete_click i ok r rr s"

text \<open>The page states: after the load with any stored entry and the restoring it
  starts, and after any handler.\<close>

inductive admin_reachable :: "admin_ui \<Rightarrow> bool" where
  load: "admin_reachable (admin_restore r (admin_load st))"
| step: "admin_reachable s \<Longrightarrow> admin_reachable (admin_step e s)"

definition token_synced :: "admin_ui \<Rightarrow> bool" where
  "token_synced s \<longleftrightarrow> TOKEN s = (case stored_token s of None \<Rightarrow> [] | Some t \<Rightarrow> t)"

subsection \<open>The session invariant\<close>

lemma token_synced_step: "token_synced s \<Longrightarrow> token_synced (admin_step e s)"
  by (cases e)
     (auto simp: token_synced_def admin_login_def admin_logout_def admin_create_submit_def Let_def
        admin_refresh_def admin_save_click_def admin_delete_click_def item_outcome_def
        split: sum.split)

lemma token_synced_load: "token_synced (admin_restore r (admin_load st))"
  by (auto simp: token_synced_def admin_restore_def admin_load_def admin_refresh_def
      split: sum.split option.split)

text \<open>C14: On every page state the global \<open>TOKEN\<close> and the \<open>localStorage\<close> entry
  \<open>admin_token\<close> agree (an absent entry being the empty token): login stores the token
  it keeps, logout and an expired session clear both.\<close>

theorem admin_reachable_synced: "admin_reachable s \<Longrightarrow> token_synced s"
proof (induction rule: admin_reachable.induct)
  case (load r st)
  show ?case by (rule token_synced_load)
next
  case (step s e)
  then show ?case by (simp add: token_synced_step)
qed

text \<open>C15: The create form sends a request only while logged in, and then with the header
  \<open>Authorization: Bearer TOKEN\<close>.\<close>

theorem create_request_authorized:
  assumes "create_request s name_in addr_in lat_in lng_in = Some (hdr, body)"
  shows "TOKEN s \<noteq> [] \<and> hdr = Some (''Bearer '' @ TOKEN s)"
  using assms by (auto simp: create_request_def api_auth_def Let_def split: if_splits)

text \<open>The server's decoding of the route parameter inverts \<open>encodeURIComponent\<close> of
  the cell id in the path the save and delete buttons request.\<close>

theorem decodeURIComponent_encode: "decodeURIComponent (encodeURIComponent s) = s"
proof (induction s)
  case Nil
  then show ?case by (simp add: encodeURIComponent_def)
next
  case (Cons c s)
  have "(of_char c :: nat) < 256" by (metis of_char_mod_256 mod_less_divisor zero_less_numeral)
  then have lt: "(of_char c :: nat) div 16 < 16" by (simp add: div_less_iff_less_mult)
  have pct: "uri_unreserved c \<Longrightarrow> c \<noteq> CHR ''%''" by (auto simp: uri_unreserved_def Let_def)
  show ?case
    using Cons pct by (simp add: encodeURIComponent_def hex_val_hex_upper lt)
qed

text \<open>A stored session is dropped on any failure of the first \<open>refresh()\<close>, a network
  error included, and reported as expired.\<close>

lemma admin_restore_network_error:
  "t \<noteq> [] \<Longrightarrow> admin_restore (NetworkError m) (admin_load (Some t))
     = \<lparr>TOKEN = [], stored_token = None, authStatus = (msg_expired, True), createStatus = ([], False),
        listing = ListInitial, itemStatus = Map.empty\<rparr>"
  by (simp add: admin_restore_def admin_load_def admin_refresh_def api_result_def)

subsection \<open>The item status lines\<close>

text \<open>C25: A successful save followed by a successful \<open>refresh()\<close> redraws the list
  from the server's answer and leaves no item status line: the line that showed
  \<open>Salvo\<close> belonged to the item the redraw removed.\<close>

theorem save_click_redraws:
  assumes "item_drawn s i"
  shows "admin_save_click i (Answer (Reply ())) (Answer (Reply cs)) s
    = s\<lparr>listing := ListCells cs, itemStatus := Map.empty\<rparr>"
  using assms
  by (simp add: admin_save_click_def item_outcome_def admin_refresh_def api_result_def)

subsection \<open>The bodies the forms send\<close>

lemma obj_lookup_cell_body:
  "body_get (cell_body nm addr la lo) ''name'' = Some (JStr nm)"
  "body_get (cell_body nm addr la lo) ''address'' = Some (JStr addr)"
  "body_get (cell_body nm addr la lo) ''lat'' = map_option JNum la"
  "body_get (cell_body nm addr la lo) ''lng'' = map_option JNum lo"
  by (cases la; cases lo; simp add: body_get_def get_prop_def cell_body_def)+

lemma body_str_JStr: "body_get b k = Some (JStr v) \<Longrightarrow> body_str numstr b k = js_trim v"
  by (simp add: body_str_def)

lemma body_str_cell_body:
  "body_str numstr (cell_body (js_trim n) (js_trim a) la lo) ''name'' = js_trim n"
  "body_str numstr (cell_body (js_trim n) (js_trim a) la lo) ''address'' = js_trim a"
  by (simp_all add: body_str_JStr obj_lookup_cell_body js_trim_idem)

subsection \<open>Witnesses\<close>

theorem admin_reachable_synced_witness:
  "admin_reachable (admin_step EvLogout (admin_restore (NetworkError ''x'') (admin_load (Some ''tok''))))
   \<and> token_synced (admin_step EvLogout (admin_restore (NetworkError ''x'') (admin_load (Some ''tok''))))"
proof -
  have h: "admin_reachable (admin_step EvLogout (admin_restore (NetworkError ''x'') (admin_load (Some ''tok''))))"
    by (rule admin_reachable.step [OF admin_reachable.load])
  show ?thesis using h admin_reachable_synced [OF h] by blast
qed

theorem save_click_redraws_witness:
  "item_drawn (admin_restore (Answer (Reply [new_cell ''id1'' ''A'' ''Rua A'' 0 0 ''t''])) (admin_load (Some ''tok''))) 0
   \<and> admin_save_click 0 (Answer (Reply ())) (Answer (Reply []))
       (admin_restore (Answer (Reply [new_cell ''id1'' ''A'' ''Rua A'' 0 0 ''t''])) (admin_load (Some ''tok'')))
     = (admin_restore (Answer (Reply [new_cell ''id1'' ''A'' ''Rua A'' 0 0 ''t''])) (admin_load (Some ''tok'')))
         \<lparr>listing := ListCells [], itemStatus := Map.empty\<rparr>"
proof -
  have h: "item_drawn (admin_restore (Answer (Reply [new_cell ''id1'' ''A'' ''Rua A'' 0 0 ''t''])) (admin_load (Some ''tok''))) 0"
    by (simp add: item_drawn_def admin_restore_def admin_load_def admin_refresh_def api_result_def)
  show ?thesis using h save_click_redraws [OF h] by blast
qed

theorem create_request_authorized_witness:
  "create_request (admin_load (Some ''tok'')) ''Cell'' ''Rua A'' '' 1'' ''2''
     = Some (Some ''Bearer tok'', cell_body ''Cell'' ''Rua A'' (Some 1) (Some 2))
   \<and> TOKEN (admin_load (Some ''tok'')) \<noteq> [] \<and> Some ''Bearer tok'' = Some (''Bearer '' @ TOKEN (admin_load (Some ''tok'')))"
proof -
  have h: "create_request (admin_load (Some ''tok'')) ''Cell'' ''Rua A'' '' 1'' ''2''
     = Some (Some ''Bearer tok'', cell_body ''Cell'' ''Rua A'' (Some 1) (Some 2))" by code_simp
  show ?thesis using h create_request_authorized [OF h] by blast
qed

end
