(* ===== verification/PublicClient.thy ===== *)
theory PublicClient
  imports AdminClient
begin

text \<open>
  The public page \<open>src/app.js\<close>: the map link \<open>osmEmbedUrl\<close> (lines 23-31), the page
  state its handlers write, the submit handler of the search form (53-90) with the
  request it sends and what it shows for each answer of the server, \<open>showResult\<close>,
  \<open>resetUI\<close> and the new-search button. The handlers keep the panel, the map frame
  and the button consistent.

  The query string the page builds is read back by Express's query parser, which splits
  it at \<open>&\<close> and at the first \<open>=\<close> of each pair and percent-decodes both sides; that
  parser is not code of the repository and is modelled from its documented behaviour
  (\<open>parse_query\<close>), to state what the server receives.
\<close>

subsection \<open>\<open>osmEmbedUrl(lat, lng)\<close>\<close>

text \<open>The bounding box \<open>left, bottom, right, top\<close> and the marker; \<open>numstr\<close> is
  \<open>Number.prototype.toString\<close> of the template literals.\<close>

definition osm_bbox :: "real \<Rightarrow> real \<Rightarrow> real \<times> real \<times> real \<times> real" where
  "osm_bbox la lo = (let d = 0.01 in (lo - d, la - d, lo + d, la + d))"

definition osmEmbedUrl :: "(real \<Rightarrow> string) \<Rightarrow> real \<Rightarrow> real \<Rightarrow> string" where
  "osmEmbedUrl numstr la lo =
     (let (left, bottom, right, top) = osm_bbox la lo
      in ''https://www.openstreetmap.org/export/embed.html?bbox=''
         @ form_urlencode (numstr left @ '','' @ numstr bottom @ '','' @ numstr right @ '','' @ numstr top)
         @ ''&layer=mapnik&marker='' @ form_urlencode (numstr la @ '','' @ numstr lo))"

subsection \<open>The search form\<close>

text \<open>Lines 57-73: the fields, trimmed; no request without street and number; the
  neighbourhood only when it is not empty.\<close>

definition app_query :: "string \<Rightarrow> string \<Rightarrow> string \<Rightarrow> (string \<times> string) list option" where
  "app_query street_in number_in neighborhood_in =
     (let street = js_trim street_in;
          number = js_trim number_in;
          neighborhood = js_trim neighborhood_in
      in if street = [] \<or> number = [] then None
         else Some ([(''street'', street), (''number'', number)]
                    @ (if neighborhood \<noteq> [] then [(''neighborhood'', neighborhood)] else [])))"

text \<open>The serialization of \<open>url.searchParams\<close>.\<close>

definition url_search :: "(string \<times> string) list \<Rightarrow> string" where
  "url_search ps = js_join ''&'' (map (\<lambda>(k, v). form_urlencode k @ ''='' @ form_urlencode v) ps)"

definition app_request_url :: "string \<Rightarrow> string \<Rightarrow> string \<Rightarrow> string \<Rightarrow> string option" where
  "app_request_url origin street_in number_in neighborhood_in =
     map_option (\<lambda>ps. origin @ ''/api/nearest?'' @ url_search ps) (app_query street_in number_in neighborhood_in)"

text \<open>Express's query parser on a query string without brackets.\<close>

definition parse_query :: "string \<Rightarrow> (string \<times> qval) list" where
  "parse_query q =
     map (\<lambda>piece. case js_split CHR ''='' piece of
                    k # vs \<Rightarrow> (form_urldecode k, QStr (form_urldecode (js_join ''='' vs)))
                  | [] \<Rightarrow> ([], QStr []))
         (js_split CHR ''&'' q)"

definition query_get :: "(string \<times> qval) list \<Rightarrow> string \<Rightarrow> qval option" where
  "query_get ps k = map_option snd (find (\<lambda>(k', _). k' = k) ps)"

subsection \<open>The page state\<close>

text \<open>What the handlers of the page write: the status line (\<open>setStatus\<close>, lines
  18-21), whether the result panel is hidden, the reply \<open>showResult\<close> last wrote
  into it (name, address, distance and maps link of the nearest cell, lines 33-40),
  the address of the map frame, and whether the search button is disabled.\<close>

record app_ui =
  status :: "string \<times> bool"
  result_hidden :: bool
  shown :: "nearest_reply option"
  map_src :: string
  btn_disabled :: bool

definition msg_fill_street :: string where
  "msg_fill_street = ''Preencha Rua e N'' @ [CHR 0xC3, CHR 0xBA] @ ''mero.''"

definition msg_searching :: string where
  "msg_searching = ''Buscando sua localiza'' @ [CHR 0xC3, CHR 0xA7, CHR 0xC3, CHR 0xA3] @ ''o...''"

definition msg_found :: string where
  "msg_found = ''Encontrado! '' @ [CHR 0xE2, CHR 0x9C, CHR 0x85]"

definition msg_network :: string where
  "msg_network = ''Falha de rede ou servidor indispon'' @ [CHR 0xC3, CHR 0xAD] @ ''vel.''"

text \<open>Lines 42-46.\<close>

definition resetUI :: "app_ui \<Rightarrow> app_ui" where
  "resetUI s = s\<lparr>result_hidden := True, status := ([], False), map_src := []\<rparr>"

text \<open>Lines 33-40.\<close>

definition showResult :: "(real \<Rightarrow> string) \<Rightarrow> nearest_reply \<Rightarrow> app_ui \<Rightarrow> app_ui" where
  "showResult numstr x s =
     s\<lparr>shown := Some x, map_src := osmEmbedUrl numstr (lat (nearest x)) (lng (nearest x)),
       result_hidden := False\<rparr>"

text \<open>Lines 75-86: an error answer shows the server's message; a network failure, or
  an answer that is not JSON (an exception that reached Express), the network message.\<close>

definition app_answer :: "(real \<Rightarrow> string) \<Rightarrow> nearest_reply fetch_result \<Rightarrow> app_ui \<Rightarrow> app_ui" where
  "app_answer numstr r s =
     (case r of
        NetworkError _ \<Rightarrow> s\<lparr>status := (msg_network, True)\<rparr>
      | Answer (Reply x) \<Rightarrow> showResult numstr x (s\<lparr>status := (msg_found, False)\<rparr>)
      | Answer (Fail _ m) \<Rightarrow> s\<lparr>status := (msg_text m, True)\<rparr>
      | Answer (Uncaught _) \<Rightarrow> s\<lparr>status := (msg_network, True)\<rparr>)"

text \<open>Lines 53-90: the submit handler, with the answer \<open>r\<close> to the request it sends;
  the \<open>finally\<close> enables the button again.\<close>

definition app_submit ::
  "(real \<Rightarrow> string) \<Rightarrow> string \<Rightarrow> string \<Rightarrow> string \<Rightarrow> nearest_reply fetch_result \<Rightarrow> app_ui \<Rightarrow> app_ui" where
  "app_submit numstr street_in number_in neighborhood_in r s =
     (let s0 = resetUI s
      in case app_query street_in number_in neighborhood_in of
           None \<Rightarrow> s0\<lparr>status := (msg_fill_street, True)\<rparr>
         | Some _ \<Rightarrow>
             (app_answer numstr r (s0\<lparr>btn_disabled := True, status := (msg_searching, False)\<rparr>))
               \<lparr>btn_disabled := False\<rparr>)"

datatype app_event = AppSearch string string string "nearest_reply fetch_result" | AppNewSearch

text \<open>Lines 48-51: the new-search button resets the page.\<close>

fun app_step :: "(real \<Rightarrow> string) \<Rightarrow> app_event \<Rightarrow> app_ui \<Rightarrow> app_ui" where
  "app_step numstr (AppSearch st nu nb r) s = app_submit numstr st nu nb r s"
| "app_step numstr AppNewSearch s = resetUI s"

text \<open>The panel and the map agree: the result is visible exactly when the map frame has
  an address, and then it is the map of the cell shown; and the button is enabled.\<close>

definition app_consistent :: "(real \<Rightarrow> string) \<Rightarrow> app_ui \<Rightarrow> bool" where
  "app_consistent numstr s \<longleftrightarrow>
     \<not> btn_disabled s \<and> (result_hidden s \<longleftrightarrow> map_src s = [])
     \<and> (\<not> result_hidden s \<longrightarrow>
          (case shown s of
             Some x \<Rightarrow> map_src s = osmEmbedUrl numstr (lat (nearest x)) (lng (nearest x))
           | None \<Rightarrow> False))"

subsection \<open>The query string is read back\<close>

lemma of_char_hex_upper: "n < 16 \<Longrightarrow> (of_char (hex_upper n) :: nat) = (if n < 10 then 48 + n else 55 + n)"
  by (simp add: hex_upper_def)

lemma hex_upper_not_special: "n < 16 \<Longrightarrow> hex_upper n \<noteq> CHR ''&'' \<and> hex_upper n \<noteq> CHR ''=''"
proof -
  assume n: "n < 16"
  then have h: "(of_char (hex_upper n) :: nat) = (if n < 10 then 48 + n else 55 + n)"
    by (rule of_char_hex_upper)
  show ?thesis
  proof (intro conjI notI)
    assume "hex_upper n = CHR ''&''"
    then have "(of_char (hex_upper n) :: nat) = 38" by simp
    with h show False by (simp split: if_splits)
  next
    assume "hex_upper n = CHR ''=''"
    then have "(of_char (hex_upper n) :: nat) = 61" by simp
    with h n show False by (simp split: if_splits)
  qed
qed

lemma of_char_div16: "(of_char c :: nat) div 16 < 16"
proof -
  have "(of_char c :: nat) < 256" by (metis of_char_mod_256 mod_less_divisor zero_less_numeral)
  then show ?thesis by (simp add: div_less_iff_less_mult)
qed

lemma form_urlencode_no_sep: "CHR ''&'' \<notin> set (form_urlencode s) \<and> CHR ''='' \<notin> set (form_urlencode s)"
proof (induction s)
  case Nil
  then show ?case by (simp add: form_urlencode_def)
next
  case (Cons c s)
  have "url_safe c \<Longrightarrow> c \<noteq> CHR ''&'' \<and> c \<noteq> CHR ''=''" by (auto simp: url_safe_def Let_def)
  moreover have "hex_upper (of_char c div 16) \<noteq> CHR ''&'' \<and> hex_upper (of_char c div 16) \<noteq> CHR ''=''"
    "hex_upper (of_char c mod 16) \<noteq> CHR ''&'' \<and> hex_upper (of_char c mod 16) \<noteq> CHR ''=''"
    by (simp_all add: hex_upper_not_special of_char_div16)
  ultimately show ?case using Cons by (auto simp: form_urlencode_Cons)
qed

lemma js_split_join:
  "xs \<noteq> [] \<Longrightarrow> \<forall>x \<in> set xs. c \<notin> set x \<Longrightarrow> js_split c (js_join [c] xs) = xs"
proof (induction "[c]" xs rule: js_join.induct)
  case (2 x)
  then show ?case by (simp add: js_split_absent)
next
  case (3 x y xs)
  then show ?case by (simp add: js_split_sep)
qed simp

text \<open>The query parser of the server reads back exactly the fields the page put in
  \<open>url.searchParams\<close>, in order, whatever characters they hold.\<close>

theorem parse_query_url_search:
  "ps \<noteq> [] \<Longrightarrow> parse_query (url_search ps) = map (\<lambda>(k, v). (k, QStr v)) ps"
proof -
  assume ne: "ps \<noteq> []"
  have pieces: "js_split CHR ''&'' (url_search ps) = map (\<lambda>(k, v). form_urlencode k @ ''='' @ form_urlencode v) ps"
    unfolding url_search_def using ne form_urlencode_no_sep
    by (intro js_split_join) auto
  have "js_split CHR ''='' (form_urlencode k @ ''='' @ form_urlencode v) = [form_urlencode k, form_urlencode v]" for k v
    using form_urlencode_no_sep by (simp add: js_split_two)
  then show ?thesis
    by (simp add: parse_query_def pieces form_urldecode_urlencode case_prod_beta)
qed

subsection \<open>The map link\<close>

lemma osm_bbox_marker_inside:
  "let (left, bottom, right, top) = osm_bbox la lo
   in left < lo \<and> lo < right \<and> bottom < la \<and> la < top \<and> right - left = 0.02 \<and> top - bottom = 0.02"
  by (simp add: osm_bbox_def Let_def)

subsection \<open>What the server reads\<close>

lemma query_str_QStr: "query_str (Some (QStr (js_trim s))) = js_trim s"
  by (simp add: query_str_def js_trim_idem)

lemma query_str_None: "query_str None = []"
  by (simp add: query_str_def)

lemma api_nearest_not_400:
  "query_str x \<noteq> [] \<Longrightarrow> query_str y \<noteq> [] \<Longrightarrow> api_nearest fetch num rows x y z \<noteq> Fail 400 MsgStreetNumber"
  by (auto simp: api_nearest_def Let_def split: sum.split option.split)

subsection \<open>The handlers keep the page consistent\<close>

lemma osmEmbedUrl_nonempty: "osmEmbedUrl numstr la lo \<noteq> []"
  by (simp add: osmEmbedUrl_def split_beta)

lemma app_consistent_reset: "\<not> btn_disabled s \<Longrightarrow> app_consistent numstr (resetUI s)"
  by (simp add: app_consistent_def resetUI_def)

lemma app_consistent_answer:
  "app_consistent numstr ((app_answer numstr r (resetUI s\<lparr>btn_disabled := True, status := v\<rparr>))\<lparr>btn_disabled := False\<rparr>)"
  by (simp add: app_answer_def app_consistent_def resetUI_def showResult_def osmEmbedUrl_nonempty
      split: fetch_result.split response.split)

text \<open>C24: Every handler of the public page, run while the search button is enabled,
  leaves it enabled, and leaves the result panel visible exactly when the map frame has
  an address, which is then the map of the cell shown.\<close>

theorem app_step_consistent:
  assumes "\<not> btn_disabled s"
  shows "app_consistent numstr (app_step numstr e s)"
proof (cases e)
  case (AppSearch st nu nb r)
  then show ?thesis
    using assms app_consistent_reset app_consistent_answer
    by (simp add: app_submit_def Let_def split: option.split) (simp add: app_consistent_def resetUI_def)
next
  case AppNewSearch
  then show ?thesis using assms by (simp add: app_consistent_reset)
qed

subsection \<open>Witnesses\<close>

theorem parse_query_url_search_witness:
  "[(''street'', ''Rua & = 1'')] \<noteq> []
   \<and> parse_query (url_search [(''street'', ''Rua & = 1'')]) = [(''street'', QStr ''Rua & = 1'')]"
  using parse_query_url_search [of "[(''street'', ''Rua & = 1'')]"] by simp

theorem app_step_consistent_witness:
  "\<not> btn_disabled \<lparr>status = ([], False), result_hidden = True, shown = None, map_src = [], btn_disabled = False\<rparr>
   \<and> app_consistent (\<lambda>_. ''0'') (app_step (\<lambda>_. ''0'') (AppSearch ''Rua A'' ''12'' [] (NetworkError ''x''))
         \<lparr>status = ([], False), result_hidden = True, shown = None, map_src = [], btn_disabled = False\<rparr>)"
  using app_step_consistent [of "\<lparr>status = ([], False), result_hidden = True, shown = None, map_src = [], btn_disabled = False\<rparr>"
      "\<lambda>_. ''0''" "AppSearch ''Rua A'' ''12'' [] (NetworkError ''x'')"]
  by simp

end
