(* ===== verification/AdminRender.thy ===== *)
theory AdminRender
  imports AdminClient
begin

text \<open>
  The markup \<open>renderList\<close> of \<open>src/admin.js\<close> (lines 48-98) writes for the cells of
  a \<open>refresh()\<close>: a message when there are none (line 50), and otherwise, for each cell,
  the template literal of lines 59-93 assigned to the \<open>innerHTML\<close> of its item. The
  template is kept line by line (\<open>js_join\<close> with the newline); its interpolations
  are \<open>Number(c.lat).toFixed(6)\<close> and \<open>Number(c.lng).toFixed(6)\<close> (the parameter
  \<open>fixed6\<close>), the escaped name and address, and \<open>c.lat\<close> and \<open>c.lng\<close> as
  \<open>Number.prototype.toString\<close> writes them (the parameter \<open>numstr\<close>). The name and
  address are also set as text (lines 95-96), which is not markup.

  The theorem of this theory: the markup characters of an item, the ones that open or
  close a tag or an attribute value, are those of the template whatever the cell's name
  and address, so a stored name cannot inject markup into the admin page.
\<close>

subsection \<open>The template of an item\<close>

definition item_head :: string where
  \<open>item_head = js_join [CHR 0x0A]
      ['''',
       ''      <div class="item__name"></div>'',
       ''      <div class="item__addr"></div>'',
       ''      <div class="item__meta">lat '']\<close>

definition item_meta_sep :: string where
  \<open>item_meta_sep = '' '' @ [CHR 0xE2, CHR 0x80, CHR 0xA2] @ '' lng ''\<close>

definition item_name_pre :: string where
  \<open>item_name_pre = js_join [CHR 0x0A]
      [''</div>'',
       '''',
       ''      <details class="details" style="margin-top:10px;">'',
       ''        <summary>Editar</summary>'',
       ''        <div class="form" style="margin-top:10px;">'',
       ''          <label class="field">'',
       ''            <span>Nome</span>'',
       ''            <input data-k="name" type="text" value="'']\<close>

definition item_address_pre :: string where
  \<open>item_address_pre = js_join [CHR 0x0A]
      [''">'',
       ''          </label>'',
       ''          <label class="field">'',
       ''            <span>Endere'' @ [CHR 0xC3, CHR 0xA7] @ ''o</span>'',
       ''            <input data-k="address" type="text" value="'']\<close>

definition item_lat_pre :: string where
  \<open>item_lat_pre = js_join [CHR 0x0A]
      [''">'',
       ''          </label>'',
       ''          <div class="row">'',
       ''            <label class="field">'',
       ''              <span>Latitude</span>'',
       ''              <input data-k="lat" type="number" step="any" value="'']\<close>

definition item_lng_pre :: string where
  \<open>item_lng_pre = js_join [CHR 0x0A]
      [''">'',
       ''            </label>'',
       ''            <label class="field">'',
       ''              <span>Longitude</span>'',
       ''              <input data-k="lng" type="number" step="any" value="'']\<close>

definition item_tail :: string where
  \<open>item_tail = js_join [CHR 0x0A]
      [''">'',
       ''            </label>'',
       ''          </div>'',
       '''',
       ''          <div class="item__buttons">'',
       ''            <button class="smallbtn smallbtn--ok" data-action="save">Salvar</button>'',
       ''            <button class="smallbtn smallbtn--danger" data-action="delete">Remover</button>'',
       ''            <span class="tiny" data-role="msg" style="text-align:left;"></span>'',
       ''          </div>'',
       ''        </div>'',
       ''      </details>'',
       ''    '']\<close>

definition render_item :: "(real \<Rightarrow> string) \<Rightarrow> (real \<Rightarrow> string) \<Rightarrow> cell \<Rightarrow> string" where
  "render_item fixed6 numstr c =
     item_head @ fixed6 (lat c) @ item_meta_sep @ fixed6 (lng c)
     @ item_name_pre @ escapeHtml (name c) @ item_address_pre @ escapeHtml (address c)
     @ item_lat_pre @ numstr (lat c) @ item_lng_pre @ numstr (lng c) @ item_tail"

definition list_no_cells :: string where
  \<open>list_no_cells = ''<div class="tiny">Nenhuma c'' @ [CHR 0xC3, CHR 0xA9] @ ''lula cadastrada ainda.</div>''\<close>

text \<open>What \<open>renderList\<close> writes: the markup of \<open>listEl\<close> itself when there are no
  cells, otherwise the markup of each appended item, in the order of the cells.\<close>

definition renderList :: "(real \<Rightarrow> string) \<Rightarrow> (real \<Rightarrow> string) \<Rightarrow> cell list \<Rightarrow> string + string list" where
  "renderList fixed6 numstr cells =
     (if cells = [] then Inl list_no_cells else Inr (map (render_item fixed6 numstr) cells))"

text \<open>The characters that delimit markup: tags and attribute values.\<close>

definition markup_char :: "char \<Rightarrow> bool" where
  "markup_char ch \<longleftrightarrow> ch = CHR ''<'' \<or> ch = CHR ''>'' \<or> ch = CHR 0x22 \<or> ch = CHR 0x27"

subsection \<open>Names cannot inject markup\<close>

lemma markup_escapeHtml: "filter markup_char (escapeHtml s) = []"
  by (induction s) (auto simp: markup_char_def html_escape_char_def)

text \<open>C23: The markup characters of a drawn item do not depend on the cell's name and
  address: they are those of the item of the same cell with both empty.\<close>

theorem render_item_markup:
  "filter markup_char (render_item fixed6 numstr c)
     = filter markup_char (render_item fixed6 numstr (c\<lparr>name := [], address := []\<rparr>))"
  by (simp add: render_item_def markup_escapeHtml)

end
