(* ===== verification/Spec2Isabelle.thy ===== *)
theory Spec2Isabelle
  imports Server PublicClient AdminRender
begin

text \<open>
  \<^bold>\<open>A verification development of Celulasiepae2026.\<close>
  The program locates the nearest "cell" (a meeting place with a name, an address and
  coordinates) to an address typed by a visitor, and lets an administrator manage the
  cells. Its server, \<open>src/server.js\<close>, is an Express application over a SQLite
  table; \<open>src/app.js\<close> and \<open>src/admin.js\<close> are the browser pages that call it.

  \<^bold>\<open>Parts and how they interact.\<close> \<open>GET /api/nearest\<close> trims the query, builds a
  free-text address, asks Nominatim for its coordinates (\<open>geocodeQuery\<close>), scans all
  cells for the least haversine distance and answers with that cell. \<open>POST
  /api/admin/login\<close> compares the credentials with the configured ones and answers with
  a token: the base64url encoding of \<open>JSON.stringify({u, exp})\<close>, a dot, and the
  base64url HMAC-SHA256 of the encoded part (\<open>signToken\<close>). The four routes on
  \<open>/api/admin/cells\<close> run behind \<open>requireAdmin\<close>, which takes the bearer token of the
  \<open>Authorization\<close> header to \<open>verifyToken\<close>; they list, insert, update and
  delete rows.

  \<^bold>\<open>Theories.\<close>
  \<^item> \<open>Prelude\<close>: JavaScript strings as their UTF-8 bytes, \<open>Buffer.from\<close> and
    \<open>toString\<close>, \<open>replaceAll\<close> and \<open>split\<close> with one-character patterns,
    \<open>Array.prototype.join\<close>, \<open>String.prototype.trim\<close> (ECMAScript white space as
    UTF-8 sequences).
  \<^item> \<open>Base64\<close>: Node's base64 encoder and its lenient decoder on \<^typ>\<open>8 word\<close>
    bytes, and \<open>b64urlEncode\<close>/\<open>b64urlDecode\<close> (server.js 117-124), whose padding
    loop is a function with a termination measure.
  \<^item> \<open>JsonLex\<close>, \<open>Json\<close>: JSON values (numbers as exact rationals, objects as
    association lists where the last duplicate key wins), \<open>JSON.parse\<close> as a
    tokenizer and an explicit-stack parser, \<open>JSON.stringify\<close> of the payload.
  \<^item> \<open>Token\<close>: \<open>timingSafeEqual\<close>, \<open>signToken\<close>, \<open>verifyToken\<close> (126-150) and
    \<open>requireAdmin\<close> (152-158); exceptions are values \<open>Inl e\<close>.
  \<^item> \<open>Nearest\<close>: \<open>haversineKm\<close> (87-97) over the reals, the scan of lines 187-191
    generic in the distance, and \<open>Number(d.toFixed(2))\<close> (204).
  \<^item> \<open>Cells\<close>: the table as a list of rows in rowid order, the statements the
    handlers run (the primary key rejects a duplicate id), and \<open>initDb\<close> with its
    seed (51-83).
  \<^item> \<open>Handlers\<close>: \<open>geocodeQuery\<close> (99-115), the URL encoding of
    \<open>URLSearchParams\<close>, \<open>GET /api/nearest\<close>, the login and the four admin routes,
    each a function to a response (\<open>Reply\<close>, \<open>Fail status message\<close>, or
    \<open>Uncaught e\<close> for an exception that reaches Express) and the new table.
  \<^item> \<open>Server\<close>: the configuration, the requests, one step per request, and the
    inductive set of reachable tables (first \<open>initDb\<close>, restarts, requests).
  \<^item> \<open>Html\<close>: \<open>escapeHtml\<close> of admin.js (39-46) as its chain of \<open>replaceAll\<close>,
    and, as a reference, the per-character escape; and, from the HTML standard, what a
    browser reads from a text input's \<open>value\<close> attribute (newline normalisation, NUL
    replacement, the five character references, line breaks stripped).
  \<^item> \<open>JsNumber\<close>: \<open>Number()\<close> on a string (ECMAScript \<open>StringToNumber\<close>) and
    \<open>parseMaybeNumber\<close> of admin.js (32-37).
  \<^item> \<open>AdminClient\<close>: the admin page. Its state is a record of the global \<open>TOKEN\<close>,
    the \<open>localStorage\<close> entry, the two status lines, what \<open>listEl\<close> shows (the
    cells of the last \<open>refresh()\<close> or a message) and the status line of each drawn
    item; the helper \<open>api\<close> (22-30) maps an answer of the server or a network error
    to the parsed body or the message it throws; \<open>refresh()\<close> (134-137) redraws the
    list; each handler (login 139-157, logout 159-164, create 166-195, the save and
    delete buttons of an item 99-128, the restore at load 197-211) is a function from
    the answers it receives to the new state, and the requests the forms and buttons
    send are functions to their path, header and body. The handlers are the events of a
    step function, and an inductive set holds the page states reachable from the load.
  \<^item> \<open>AdminRender\<close>: the markup \<open>renderList\<close> (48-98) writes, its item template
    kept line by line.
  \<^item> \<open>PublicClient\<close>: the public page of app.js as a record (status line, result
    panel, the reply shown, the map frame's address, the button) and its handlers: the
    search (53-90) with the trimmed fields, the query string of \<open>url.searchParams\<close>
    and the answer handling, \<open>showResult\<close>, \<open>resetUI\<close> and the new-search button;
    and \<open>osmEmbedUrl\<close> (23-31). Express's query parser is modelled from its
    documented behaviour, to state what the server receives.
  \<^item> this theory: the properties that span the pages, the login and the server:
    what the requests the pages send do at the server.

  \<^bold>\<open>What the lemmas show.\<close> Tokens: a signed token verifies, with its payload,
  until its expiry inclusive; a tampered signature, a different secret, or a token
  without exactly one dot gives \<open>null\<close>; the only exception is the \<open>SyntaxError\<close>
  of a correctly signed token whose payload is not JSON. The codecs: base64url and
  JSON round-trip, and URL encoding is inverted by percent-decoding. Distance: the scan
  refines "the first candidate no farther than any other", and the distance is zero on
  equal points and symmetric (bounds on the distance and on the reported rounding are
  not claimed: they depend on the rounding of doubles, which the model does not have).
  Server: every reachable table
  has distinct ids and non-empty names and addresses; only an admin request that
  passes \<open>requireAdmin\<close> changes the table; each handler's branches, errors
  included, are characterised; a login token authorises admin requests for exactly
  twelve hours.
  Pages: the admin page's \<open>TOKEN\<close> and its stored entry agree on every reachable
  state; logging in with the configured credentials yields a stored token the server
  accepts for twelve hours; the create form sends only while logged in, with the
  bearer header, and never a body the server refuses for a missing name or address;
  with typed coordinates the server inserts exactly the described cell, and the save
  button updates exactly its cell (\<open>encodeURIComponent\<close> of the id is inverted by
  the route decoding); a search of the public page reaches \<open>/api/nearest\<close> with the
  trimmed fields (the query string is read back exactly); \<open>escapeHtml\<close> leaves no
  character that ends an attribute or opens a tag and equals the per-character escape,
  so no stored name changes the markup of the admin list, and the edit field, read back
  as a browser does, shows the stored text without its line breaks;
  \<open>parseMaybeNumber\<close> reads back decimal integers up to \<open>2\<^sup>5\<^sup>3\<close>, where doubles
  are exact. From every reachable admin page state a login with the configured
  credentials reaches a logged-in state listing the server's table, and a successful
  save's confirmation disappears with the redraw. On the public page,
  every handler leaves the panel, the map frame and the button consistent, and a
  search whose address is found shows a nearest cell with the map on it. Every token
  has the shape \<open>payload.signature\<close> in the URL-safe alphabet.

  \<^bold>\<open>Bounds and termination.\<close> No fuel is used: every loop of the code is a
  structural recursion over a list (the scan, the seed loop, the codecs) or a function
  with a measure (\<open>trim\<close>, the JSON tokenizer, the entity decoding), so every
  operation is total. The padding loop of \<open>b64urlDecode\<close> is also written as the
  \<open>while\<close> it is (\<open>while_option\<close>, whose \<open>None\<close> is non-termination), and is
  proved to return, after at most three iterations. Clock values are unbounded integers: \<open>Date.now()\<close> and
  the expiry stay far below \<open>2\<^sup>5\<^sup>3\<close>, where doubles are exact.

  \<^bold>\<open>Not modelled.\<close> IEEE doubles (coordinates and distances are reals, JSON numbers
  rationals; the admin page's \<open>Number()\<close> keeps its value exact and rounds only to
  decide \<open>Number.isFinite\<close>); HMAC-SHA256 (a parameter about which nothing is
  assumed); the server's \<open>Number()\<close> of Nominatim's fields and
  \<open>Number.prototype.toString\<close> (parameters); the Express framework, static files and
  body parsing beyond the parsed value; the SQLite engine beyond the statements above;
  the Nominatim service (the reply is a parameter); logging. Of the pages: the DOM
  beyond the fields of the two page records (the element lookups of the first lines,
  \<open>appendChild\<close>, the text written with \<open>textContent\<close>, \<open>focus()\<close>,
  \<open>createForm.reset()\<close>); status texts a handler overwrites before it ends
  (\<open>Entrando...\<close>, \<open>Salvando...\<close>); the text of the \<open>confirm\<close> dialog, whose answer
  is an argument of the delete event; \<open>toFixed(6)\<close> and \<open>toString\<close> of numbers in the
  markup (parameters). Each handler runs to its end before the next event (the event
  loop), which the search page's disabled button and the handlers' short await chains
  make the interleaving of whole handlers.
\<close>

subsection \<open>The session of an administrator\<close>

text \<open>C6: A login with the configured credentials answers with a token that
  \<open>requireAdmin\<close> accepts for twelve hours from the login, the last millisecond
  included, and rejects with 401 afterwards.\<close>

theorem login_token_lifetime:
  assumes "body_str numstr body ''username'' = user" "body_str numstr body ''password'' = pass"
  shows "\<exists>t. api_login hmac secret user pass numstr now body = Reply t
    \<and> (\<forall>now'. requireAdmin hmac secret now' (Some (''Bearer '' @ t)) =
         (if now' > now + 43200000 then AuthUnauthorized else AuthNext))"
  using api_login_ok [OF assms] requireAdmin_signToken by simp

text \<open>C12: After a successful login, a \<open>DELETE\<close> of an existing cell with the token
  removes exactly that row while the token is fresh, and is answered 401, the table
  unchanged, once it has expired.\<close>

theorem session_delete:
  assumes "body_str (cfg_numstr cfg) body ''username'' = ADMIN_USER cfg"
    "body_str (cfg_numstr cfg) body ''password'' = ADMIN_PASS cfg"
    "js_trim pid \<in> set (map cell_id rows)"
  shows "\<exists>t. server_step cfg (PostLogin now body) rows = (Reply (RToken t), rows)
    \<and> (\<forall>now'. server_step cfg (DeleteCell now' (Some (''Bearer '' @ t)) pid) rows =
         (if now' > now + 43200000 then (Fail 401 MsgUnauthorized, rows)
          else (Reply ROk, filter (\<lambda>r. cell_id r \<noteq> js_trim pid) rows)))"
proof -
  let ?t = "signToken (createHmac cfg) (ADMIN_SECRET cfg) (ADMIN_USER cfg) (now + 43200000)"
  have login: "server_step cfg (PostLogin now body) rows = (Reply (RToken ?t), rows)"
    using api_login_ok [OF assms(1,2)] by (simp add: server_step_def)
  have del: "admin_delete pid rows = (Reply (), filter (\<lambda>r. cell_id r \<noteq> js_trim pid) rows)"
    using assms(3) by (simp add: admin_delete_cases)
  have "server_step cfg (DeleteCell now' (Some (''Bearer '' @ ?t)) pid) rows =
      (if now' > now + 43200000 then (Fail 401 MsgUnauthorized, rows)
       else (Reply ROk, filter (\<lambda>r. cell_id r \<noteq> js_trim pid) rows))" for now'
    unfolding server_step_def request.case auth_of_def requireAdmin_signToken del
    by (simp add: with_admin_def)
  with login show ?thesis by blast
qed

subsection \<open>The admin page against the server\<close>

lemma body_str_login_body:
  "body_str numstr (login_body u p) ''username'' = js_trim u"
  "body_str numstr (login_body u p) ''password'' = js_trim p"
  by (simp_all add: body_str_JStr login_body_def body_get_def get_prop_def js_trim_idem)

lemma login_body_accepted:
  "api_login hmac secret user pass numstr now (login_body u p) =
     (if js_trim u = user \<and> js_trim p = pass then Reply (signToken hmac secret user (now + 43200000))
      else Fail 401 MsgBadLogin)"
  by (auto simp: api_login_def body_str_login_body)

lemma create_request_Some:
  "create_request s n a la lo = Some (hdr, body) \<Longrightarrow>
     js_trim n \<noteq> [] \<and> js_trim a \<noteq> [] \<and> body = cell_body (js_trim n) (js_trim a) (parseMaybeNumber la) (parseMaybeNumber lo)"
  by (auto simp: create_request_def Let_def split: if_splits)

text \<open>C21: A cell the admin page sends from its create form is never refused by the
  server for a missing name or address: the page checks the same trimmed fields.\<close>

theorem client_create_never_incomplete:
  assumes "create_request s n a la lo = Some (hdr, body)"
  shows "fst (admin_create fetch num numstr newid now body rows) \<noteq> Fail 400 MsgNameAddress"
  using create_request_Some [OF assms]
  by (auto simp: admin_create_cases Let_def body_str_cell_body split: sum.split option.split)

text \<open>C19: When both coordinate fields of the create form parse as finite numbers, the
  server appends exactly the cell the page describes (trimmed name and address, the
  typed coordinates) under a fresh id and answers with that id.\<close>

theorem client_create_with_coordinates:
  assumes "create_request s n a la lo = Some (hdr, body)"
    "parseMaybeNumber la = Some x" "parseMaybeNumber lo = Some y" "newid \<notin> set (map cell_id rows)"
  shows "admin_create fetch num numstr newid now body rows =
    (Reply newid, rows @ [new_cell newid (js_trim n) (js_trim a) (of_rat x) (of_rat y) now])"
  using create_request_Some [OF assms(1)] assms(2-4)
  by (simp add: admin_create_cases Let_def body_str_cell_body obj_lookup_cell_body resolve_coords_numbers)

text \<open>C20: The save button of a listed cell requests the path of that cell, and the
  \<open>PUT\<close> handler, on the decoded route parameter and the body the page sends, updates
  exactly that row with the edited fields and stamps it.\<close>

theorem client_save_updates:
  assumes "save_request s c n a la lo = (path, hdr, body)"
    "js_trim (cell_id c) = cell_id c" "cell_id c \<noteq> []" "cell_id c \<in> set (map cell_id rows)"
    "js_trim n \<noteq> []" "js_trim a \<noteq> []" "parseMaybeNumber la = Some x" "parseMaybeNumber lo = Some y"
  shows "admin_update fetch num numstr now (decodeURIComponent (drop 17 path)) body rows =
    (Reply (), map (\<lambda>r. if cell_id r = cell_id c
       then r\<lparr>name := js_trim n, address := js_trim a, lat := of_rat x, lng := of_rat y, updatedAt := Some now\<rparr>
       else r) rows)"
proof -
  have path: "decodeURIComponent (drop 17 path) = cell_id c"
    using assms(1) by (auto simp: save_request_def cell_path_def decodeURIComponent_encode)
  have body: "body = cell_body (js_trim n) (js_trim a) (Some x) (Some y)"
    using assms(1,7,8) by (simp add: save_request_def)
  show ?thesis
    using assms(2-6)
    by (simp add: path body admin_update_cases Let_def body_str_cell_body obj_lookup_cell_body resolve_coords_numbers)
qed

lemma signToken_nonempty: "signToken hmac secret u e \<noteq> []"
  by (simp add: signToken_def Let_def)

text \<open>C13: Logging in on the admin page with the configured credentials leaves a page
  state whose token is stored in \<open>localStorage\<close> and whose \<open>Authorization\<close> header
  the server accepts for twelve hours from the login and rejects afterwards.\<close>

theorem client_session:
  assumes "js_trim u = ADMIN_USER cfg" "js_trim p = ADMIN_PASS cfg"
  shows "let s' = admin_login (Answer (api_login (createHmac cfg) (ADMIN_SECRET cfg) (ADMIN_USER cfg)
                    (ADMIN_PASS cfg) (cfg_numstr cfg) now (login_body u p))) rr s
         in stored_token s' = Some (TOKEN s')
            \<and> (\<forall>now'. auth_of cfg now' (api_auth (TOKEN s')) =
                 (if now' > now + 43200000 then AuthUnauthorized else AuthNext))"
proof -
  let ?t = "signToken (createHmac cfg) (ADMIN_SECRET cfg) (ADMIN_USER cfg) (now + 43200000)"
  have tok: "TOKEN (admin_login (Answer (Reply ?t)) rr s) = ?t"
    "stored_token (admin_login (Answer (Reply ?t)) rr s) = Some ?t"
    by (auto simp: admin_login_def admin_refresh_def api_result_def Let_def split: sum.split)
  have bearer: "api_auth ?t = Some (''Bearer '' @ ?t)" by (simp add: api_auth_def signToken_nonempty)
  have auth: "auth_of cfg now' (api_auth ?t) = (if now' > now + 43200000 then AuthUnauthorized else AuthNext)" for now'
    unfolding auth_of_def bearer requireAdmin_signToken by simp
  show ?thesis
    using assms by (simp add: login_body_accepted tok auth Let_def)
qed

text \<open>A coordinate typed alone is dropped: when only one of the two fields parses, the
  server geocodes the address as if neither had been typed.\<close>

lemma create_single_coordinate_geocoded:
  assumes "create_request s n a la lo = Some (hdr, body)" "parseMaybeNumber lo = None"
  shows "resolve_coords fetch num addr (body_get body ''lat'') (body_get body ''lng'')
    = resolve_coords fetch num addr None None"
  using create_request_Some [OF assms(1)] assms(2)
  by (cases "parseMaybeNumber la") (simp_all add: obj_lookup_cell_body resolve_coords_def)

subsection \<open>The public page against the server\<close>

lemma app_query_received:
  assumes "app_query s n b = Some ps" "q = parse_query (url_search ps)"
  shows "js_trim s \<noteq> [] \<and> js_trim n \<noteq> [] \<and> query_str (query_get q ''street'') = js_trim s
    \<and> query_str (query_get q ''number'') = js_trim n \<and> query_str (query_get q ''neighborhood'') = js_trim b"
proof -
  have ne: "js_trim s \<noteq> []" "js_trim n \<noteq> []" and
    ps: "ps = [(''street'', js_trim s), (''number'', js_trim n)]
           @ (if js_trim b \<noteq> [] then [(''neighborhood'', js_trim b)] else [])"
    using assms(1) by (auto simp: app_query_def Let_def split: if_splits)
  have q: "q = [(''street'', QStr (js_trim s)), (''number'', QStr (js_trim n))]
           @ (if js_trim b \<noteq> [] then [(''neighborhood'', QStr (js_trim b))] else [])"
    using assms(2) by (simp add: ps parse_query_url_search)
  have g: "query_get q ''street'' = Some (QStr (js_trim s))" "query_get q ''number'' = Some (QStr (js_trim n))"
    "query_get q ''neighborhood'' = (if js_trim b \<noteq> [] then Some (QStr (js_trim b)) else None)"
    by (simp_all add: q query_get_def)
  show ?thesis
    using ne by (simp add: g query_str_QStr query_str_None)
qed

text \<open>C18: A search the public page sends reaches the \<open>/api/nearest\<close> handler with the
  trimmed street, number and neighbourhood the user typed, and is never refused there
  for a missing street or number.\<close>

theorem app_request_reaches_server:
  assumes "app_query s n b = Some ps" "q = parse_query (url_search ps)"
  shows "query_str (query_get q ''street'') = js_trim s \<and> query_str (query_get q ''number'') = js_trim n
    \<and> query_str (query_get q ''neighborhood'') = js_trim b
    \<and> api_nearest fetch num rows (query_get q ''street'') (query_get q ''number'') (query_get q ''neighborhood'')
       \<noteq> Fail 400 MsgStreetNumber"
  using app_query_received [OF assms] by (simp add: api_nearest_not_400)

text \<open>C17: A search of the public page whose address the geocoder finds, against a table
  that is not empty, leaves the page showing a cell of least distance to the geocoded
  point, with its rounded distance and maps link, the result panel visible, the map
  frame on that cell and the button enabled again.\<close>

theorem app_search_shows_nearest:
  assumes "app_query st nu nb = Some ps" "q = parse_query (url_search ps)"
    "geocodeQuery fetch num (nearest_query (js_trim st) (js_trim nu) (js_trim nb)) = Inr (Some g)"
    "rows \<noteq> []"
  shows "\<exists>c \<in> set rows. (\<forall>x \<in> set rows. cell_distance g c \<le> cell_distance g x)
    \<and> app_submit numstr st nu nb
        (Answer (api_nearest fetch num rows (query_get q ''street'') (query_get q ''number'') (query_get q ''neighborhood''))) s
      = s\<lparr>status := (msg_found, False), result_hidden := False,
          shown := Some \<lparr>geocoded = g, nearest = c, distanceKm = toFixed2 (cell_distance g c), mapsUrl = maps_url (address c)\<rparr>,
          map_src := osmEmbedUrl numstr (lat c) (lng c), btn_disabled := False\<rparr>"
proof -
  have rec: "query_str (query_get q ''street'') = js_trim st" "query_str (query_get q ''number'') = js_trim nu"
    "query_str (query_get q ''neighborhood'') = js_trim nb" "js_trim st \<noteq> []" "js_trim nu \<noteq> []"
    using app_query_received [OF assms(1,2)] by simp_all
  obtain b bs where rows: "rows = b # bs" using assms(4) by (cases rows) auto
  obtain c xs ys where loop: "nearest_loop (cell_distance g) (Some (b, cell_distance g b)) bs = Some (c, cell_distance g c)"
    and split: "b # bs = xs @ c # ys" and least: "\<forall>x \<in> set (b # bs). cell_distance g c \<le> cell_distance g x"
    using nearest_loop_from [of "cell_distance g" b bs] by blast
  have api: "api_nearest fetch num rows (query_get q ''street'') (query_get q ''number'') (query_get q ''neighborhood'')
      = Reply \<lparr>geocoded = g, nearest = c, distanceKm = toFixed2 (cell_distance g c), mapsUrl = maps_url (address c)\<rparr>"
    using api_nearest_geo [of "query_get q ''street''" "query_get q ''number''" fetch num "query_get q ''neighborhood''" g rows]
      rec assms(3) loop by (simp add: rows)
  have c: "c \<in> set rows" unfolding rows split by simp
  show ?thesis
    using c least unfolding rows [symmetric]
    by (intro bexI [of _ c]) (simp_all add: app_submit_def Let_def assms(1) api app_answer_def showResult_def resetUI_def)
qed

subsection \<open>The admin page can always log in\<close>

text \<open>C16: From every state the admin page can reach, submitting the login form with the
  configured credentials, the server answering the login and the \<open>refresh()\<close> that
  follows (sent with the new token at any time within its twelve hours), leads to a
  reachable state that holds a token, says it is connected and lists the server's
  table, newest first.\<close>

theorem admin_login_live:
  assumes "admin_reachable s" "js_trim u = ADMIN_USER cfg" "js_trim p = ADMIN_PASS cfg"
    "now' \<le> now + 43200000"
  shows "let r = api_login (createHmac cfg) (ADMIN_SECRET cfg) (ADMIN_USER cfg) (ADMIN_PASS cfg) (cfg_numstr cfg) now
                   (login_body u p);
             t = (case r of Reply t \<Rightarrow> t | _ \<Rightarrow> []);
             rr = fst (with_admin (auth_of cfg now' (api_auth t)) rows (admin_list rows, rows));
             s' = admin_step (EvLogin (Answer r) (Answer rr)) s
         in admin_reachable s' \<and> TOKEN s' \<noteq> [] \<and> authStatus s' = (msg_connected, False)
            \<and> listing s' = ListCells (order_by_createdAt_desc rows)"
proof -
  let ?t = "signToken (createHmac cfg) (ADMIN_SECRET cfg) (ADMIN_USER cfg) (now + 43200000)"
  have r: "api_login (createHmac cfg) (ADMIN_SECRET cfg) (ADMIN_USER cfg) (ADMIN_PASS cfg) (cfg_numstr cfg) now
      (login_body u p) = Reply ?t"
    using assms(2,3) by (simp add: login_body_accepted)
  have bearer: "api_auth ?t = Some (''Bearer '' @ ?t)" by (simp add: api_auth_def signToken_nonempty)
  have auth: "auth_of cfg now' (api_auth ?t) = AuthNext"
    using assms(4) unfolding auth_of_def bearer requireAdmin_signToken by simp
  let ?s' = "admin_step (EvLogin (Answer (Reply ?t)) (Answer (admin_list rows))) s"
  have reach: "admin_reachable ?s'" using assms(1) by (rule admin_reachable.step)
  have st: "TOKEN ?s' = ?t" "authStatus ?s' = (msg_connected, False)"
    "listing ?s' = ListCells (order_by_createdAt_desc rows)"
    by (simp_all add: admin_login_def admin_refresh_def api_result_def admin_list_def)
  show ?thesis
    using reach st signToken_nonempty by (simp add: r auth with_admin_def Let_def)
qed

subsection \<open>Witnesses\<close>

theorem login_token_lifetime_witness:
  "\<exists>t. api_login (\<lambda>k m. []) ''s'' ''admin'' ''pw'' (\<lambda>_. []) 0
       (Some (JObj [(''username'', JStr '' admin ''), (''password'', JStr ''pw'')])) = Reply t
    \<and> (\<forall>now'. requireAdmin (\<lambda>k m. []) ''s'' now' (Some (''Bearer '' @ t)) =
         (if now' > 0 + 43200000 then AuthUnauthorized else AuthNext))"
  by (rule login_token_lifetime) (simp_all add: example_login_body)

theorem session_delete_witness:
  "\<exists>t. server_step \<lparr>createHmac = \<lambda>k m. [], ADMIN_SECRET = ''s'', ADMIN_USER = ''admin'', ADMIN_PASS = ''pw'',
          cfg_numstr = \<lambda>_. [], cfg_num = \<lambda>_. 0, cfg_fetch = \<lambda>_. Inl Error\<rparr>
        (PostLogin 0 (Some (JObj [(''username'', JStr '' admin ''), (''password'', JStr ''pw'')])))
        [new_cell ''id1'' ''A'' ''Rua A'' 0 0 ''t''] = (Reply (RToken t), [new_cell ''id1'' ''A'' ''Rua A'' 0 0 ''t''])
    \<and> (\<forall>now'. server_step \<lparr>createHmac = \<lambda>k m. [], ADMIN_SECRET = ''s'', ADMIN_USER = ''admin'', ADMIN_PASS = ''pw'',
          cfg_numstr = \<lambda>_. [], cfg_num = \<lambda>_. 0, cfg_fetch = \<lambda>_. Inl Error\<rparr>
        (DeleteCell now' (Some (''Bearer '' @ t)) ''id1'') [new_cell ''id1'' ''A'' ''Rua A'' 0 0 ''t''] =
        (if now' > 0 + 43200000 then (Fail 401 MsgUnauthorized, [new_cell ''id1'' ''A'' ''Rua A'' 0 0 ''t''])
         else (Reply ROk, filter (\<lambda>r. cell_id r \<noteq> js_trim ''id1'') [new_cell ''id1'' ''A'' ''Rua A'' 0 0 ''t''])))"
  by (rule session_delete) (simp_all add: example_login_body new_cell_def)

lemma example_create_request:
  "create_request (admin_load (Some ''tok'')) ''Cell'' ''Rua A'' '' 1'' ''2''
     = Some (Some ''Bearer tok'', cell_body ''Cell'' ''Rua A'' (Some 1) (Some 2))"
  by code_simp

lemma example_parse_numbers: "parseMaybeNumber '' 1'' = Some 1" "parseMaybeNumber ''2'' = Some 2"
  by code_simp+

theorem client_create_never_incomplete_witness:
  "create_request (admin_load (Some ''tok'')) ''Cell'' ''Rua A'' '' 1'' ''2''
     = Some (Some ''Bearer tok'', cell_body ''Cell'' ''Rua A'' (Some 1) (Some 2))
   \<and> fst (admin_create (\<lambda>_. Inl Error) (\<lambda>_. 0) (\<lambda>_. []) ''id'' ''t'' (cell_body ''Cell'' ''Rua A'' (Some 1) (Some 2)) [])
       \<noteq> Fail 400 MsgNameAddress"
  using example_create_request client_create_never_incomplete [OF example_create_request] by blast

theorem client_create_with_coordinates_witness:
  "create_request (admin_load (Some ''tok'')) ''Cell'' ''Rua A'' '' 1'' ''2''
     = Some (Some ''Bearer tok'', cell_body ''Cell'' ''Rua A'' (Some 1) (Some 2))
   \<and> parseMaybeNumber '' 1'' = Some 1 \<and> parseMaybeNumber ''2'' = Some 2 \<and> ''id'' \<notin> set (map cell_id [])
   \<and> admin_create (\<lambda>_. Inl Error) (\<lambda>_. 0) (\<lambda>_. []) ''id'' ''t'' (cell_body ''Cell'' ''Rua A'' (Some 1) (Some 2)) []
       = (Reply ''id'', [] @ [new_cell ''id'' (js_trim ''Cell'') (js_trim ''Rua A'') (of_rat 1) (of_rat 2) ''t''])"
  using example_create_request example_parse_numbers
    client_create_with_coordinates [OF example_create_request example_parse_numbers, of "''id''" "[]"]
  by simp

theorem client_save_updates_witness:
  "save_request (admin_load (Some ''tok'')) (new_cell ''id1'' ''A'' ''Rua A'' 0 0 ''t'') ''B'' ''Rua B'' '' 1'' ''2''
     = (fst (save_request (admin_load (Some ''tok'')) (new_cell ''id1'' ''A'' ''Rua A'' 0 0 ''t'') ''B'' ''Rua B'' '' 1'' ''2''),
        snd (save_request (admin_load (Some ''tok'')) (new_cell ''id1'' ''A'' ''Rua A'' 0 0 ''t'') ''B'' ''Rua B'' '' 1'' ''2''))
   \<and> js_trim ''id1'' = ''id1'' \<and> js_trim ''B'' \<noteq> [] \<and> js_trim ''Rua B'' \<noteq> []
   \<and> admin_update (\<lambda>_. Inl Error) (\<lambda>_. 0) (\<lambda>_. []) ''t2''
       (decodeURIComponent (drop 17 (fst (save_request (admin_load (Some ''tok'')) (new_cell ''id1'' ''A'' ''Rua A'' 0 0 ''t'') ''B'' ''Rua B'' '' 1'' ''2''))))
       (snd (snd (save_request (admin_load (Some ''tok'')) (new_cell ''id1'' ''A'' ''Rua A'' 0 0 ''t'') ''B'' ''Rua B'' '' 1'' ''2'')))
       [new_cell ''id1'' ''A'' ''Rua A'' 0 0 ''t'']
     = (Reply (), map (\<lambda>r. if cell_id r = cell_id (new_cell ''id1'' ''A'' ''Rua A'' 0 0 ''t'')
          then r\<lparr>name := js_trim ''B'', address := js_trim ''Rua B'', lat := of_rat 1, lng := of_rat 2, updatedAt := Some ''t2''\<rparr>
          else r) [new_cell ''id1'' ''A'' ''Rua A'' 0 0 ''t''])"
proof -
  let ?c = "new_cell ''id1'' ''A'' ''Rua A'' 0 0 ''t''"
  let ?r = "save_request (admin_load (Some ''tok'')) ?c ''B'' ''Rua B'' '' 1'' ''2''"
  have h1: "?r = (fst ?r, fst (snd ?r), snd (snd ?r))" by simp
  have t: "js_trim ''id1'' = ''id1''" "js_trim ''B'' = ''B''" "js_trim ''Rua B'' = ''Rua B''" by code_simp+
  have h2: "js_trim (cell_id ?c) = cell_id ?c" "cell_id ?c \<noteq> []" "cell_id ?c \<in> set (map cell_id [?c])"
    "js_trim ''B'' \<noteq> []" "js_trim ''Rua B'' \<noteq> []"
    by (simp_all add: new_cell_def t)
  show ?thesis
    using client_save_updates [OF h1 h2 example_parse_numbers, of "\<lambda>_. Inl Error" "\<lambda>_. 0" "\<lambda>_. []" "''t2''"] t
    by simp
qed

theorem client_session_witness:
  "js_trim '' admin '' = ADMIN_USER \<lparr>createHmac = \<lambda>k m. [], ADMIN_SECRET = ''s'', ADMIN_USER = ''admin'', ADMIN_PASS = ''pw'',
       cfg_numstr = \<lambda>_. [], cfg_num = \<lambda>_. 0, cfg_fetch = \<lambda>_. Inl Error\<rparr>
   \<and> (let s' = admin_login (Answer (api_login (\<lambda>k m. []) ''s'' ''admin'' ''pw'' (\<lambda>_. []) 0 (login_body '' admin '' ''pw'')))
                 (NetworkError ''x'') (admin_load None)
       in stored_token s' = Some (TOKEN s')
          \<and> (\<forall>now'. auth_of \<lparr>createHmac = \<lambda>k m. [], ADMIN_SECRET = ''s'', ADMIN_USER = ''admin'', ADMIN_PASS = ''pw'',
                 cfg_numstr = \<lambda>_. [], cfg_num = \<lambda>_. 0, cfg_fetch = \<lambda>_. Inl Error\<rparr> now' (api_auth (TOKEN s')) =
               (if now' > 0 + 43200000 then AuthUnauthorized else AuthNext)))"
proof -
  let ?cfg = "\<lparr>createHmac = \<lambda>k m. [], ADMIN_SECRET = ''s'', ADMIN_USER = ''admin'', ADMIN_PASS = ''pw'',
       cfg_numstr = \<lambda>_. [], cfg_num = \<lambda>_. 0, cfg_fetch = \<lambda>_. Inl Error\<rparr>"
  have h1: "js_trim '' admin '' = ADMIN_USER ?cfg" by code_simp
  have h2: "js_trim ''pw'' = ADMIN_PASS ?cfg" by code_simp
  show ?thesis
    using h1 client_session [OF h1 h2, of 0 "NetworkError ''x''" "admin_load None"] by simp
qed

theorem app_request_reaches_server_witness:
  "app_query ''Rua A'' '' 12'' [] = Some [(''street'', ''Rua A''), (''number'', ''12'')]
   \<and> query_str (query_get (parse_query (url_search [(''street'', ''Rua A''), (''number'', ''12'')])) ''number'') = js_trim '' 12''
   \<and> api_nearest (\<lambda>_. Inl Error) (\<lambda>_. 0) []
       (query_get (parse_query (url_search [(''street'', ''Rua A''), (''number'', ''12'')])) ''street'')
       (query_get (parse_query (url_search [(''street'', ''Rua A''), (''number'', ''12'')])) ''number'')
       (query_get (parse_query (url_search [(''street'', ''Rua A''), (''number'', ''12'')])) ''neighborhood'')
     \<noteq> Fail 400 MsgStreetNumber"
proof -
  have h: "app_query ''Rua A'' '' 12'' [] = Some [(''street'', ''Rua A''), (''number'', ''12'')]" by code_simp
  show ?thesis
    using h app_request_reaches_server [OF h refl, of "\<lambda>_. Inl Error" "\<lambda>_. 0" "[]"] by blast
qed

theorem app_search_shows_nearest_witness:
  "app_query ''Rua A'' ''12'' [] = Some [(''street'', ''Rua A''), (''number'', ''12'')]
   \<and> app_submit (\<lambda>_. ''0'') ''Rua A'' ''12'' []
       (Answer (api_nearest (\<lambda>_. Inr (HttpReply True (Some (JArr [JObj [(''lat'', JStr ''-22.99''), (''lon'', JStr ''-44.23'')]]))))
          (\<lambda>_. 0) [new_cell ''a'' ''A'' ''Rua A'' 0 0 ''t'']
          (query_get (parse_query (url_search [(''street'', ''Rua A''), (''number'', ''12'')])) ''street'')
          (query_get (parse_query (url_search [(''street'', ''Rua A''), (''number'', ''12'')])) ''number'')
          (query_get (parse_query (url_search [(''street'', ''Rua A''), (''number'', ''12'')])) ''neighborhood'')))
       \<lparr>status = ([], False), result_hidden = True, shown = None, map_src = [], btn_disabled = False\<rparr>
     = \<lparr>status = (msg_found, False), result_hidden = False,
        shown = Some \<lparr>geocoded = \<lparr>geo_lat = 0, geo_lng = 0, displayName = None\<rparr>, nearest = new_cell ''a'' ''A'' ''Rua A'' 0 0 ''t'',
          distanceKm = toFixed2 (cell_distance \<lparr>geo_lat = 0, geo_lng = 0, displayName = None\<rparr> (new_cell ''a'' ''A'' ''Rua A'' 0 0 ''t'')),
          mapsUrl = maps_url (address (new_cell ''a'' ''A'' ''Rua A'' 0 0 ''t''))\<rparr>,
        map_src = osmEmbedUrl (\<lambda>_. ''0'') (lat (new_cell ''a'' ''A'' ''Rua A'' 0 0 ''t'')) (lng (new_cell ''a'' ''A'' ''Rua A'' 0 0 ''t'')),
        btn_disabled = False\<rparr>"
proof -
  have h: "app_query ''Rua A'' ''12'' [] = Some [(''street'', ''Rua A''), (''number'', ''12'')]" by code_simp
  have g: "geocodeQuery (\<lambda>_. Inr (HttpReply True (Some (JArr [JObj [(''lat'', JStr ''-22.99''), (''lon'', JStr ''-44.23'')]]))))
      (\<lambda>_. 0) (nearest_query (js_trim ''Rua A'') (js_trim ''12'') (js_trim [])) = Inr (Some \<lparr>geo_lat = 0, geo_lng = 0, displayName = None\<rparr>)"
    by (rule geocodeQuery_example)
  show ?thesis
    using h app_search_shows_nearest [OF h refl g, of "[new_cell ''a'' ''A'' ''Rua A'' 0 0 ''t'']" "\<lambda>_. ''0''"
        "\<lparr>status = ([], False), result_hidden = True, shown = None, map_src = [], btn_disabled = False\<rparr>"]
    by simp
qed

theorem admin_login_live_witness:
  "admin_reachable (admin_restore (NetworkError ''x'') (admin_load None))
   \<and> js_trim '' admin '' = ADMIN_USER \<lparr>createHmac = \<lambda>k m. [], ADMIN_SECRET = ''s'', ADMIN_USER = ''admin'', ADMIN_PASS = ''pw'',
       cfg_numstr = \<lambda>_. [], cfg_num = \<lambda>_. 0, cfg_fetch = \<lambda>_. Inl Error\<rparr>
   \<and> (let r = api_login (\<lambda>k m. []) ''s'' ''admin'' ''pw'' (\<lambda>_. []) 0 (login_body '' admin '' ''pw'');
            t = (case r of Reply t \<Rightarrow> t | _ \<Rightarrow> []);
            rr = fst (with_admin (auth_of \<lparr>createHmac = \<lambda>k m. [], ADMIN_SECRET = ''s'', ADMIN_USER = ''admin'', ADMIN_PASS = ''pw'',
                   cfg_numstr = \<lambda>_. [], cfg_num = \<lambda>_. 0, cfg_fetch = \<lambda>_. Inl Error\<rparr> 1000 (api_auth t))
                   [new_cell ''a'' ''A'' ''Rua A'' 0 0 ''t''] (admin_list [new_cell ''a'' ''A'' ''Rua A'' 0 0 ''t''], [new_cell ''a'' ''A'' ''Rua A'' 0 0 ''t'']));
            s' = admin_step (EvLogin (Answer r) (Answer rr)) (admin_restore (NetworkError ''x'') (admin_load None))
        in admin_reachable s' \<and> TOKEN s' \<noteq> [] \<and> authStatus s' = (msg_connected, False)
           \<and> listing s' = ListCells (order_by_createdAt_desc [new_cell ''a'' ''A'' ''Rua A'' 0 0 ''t'']))"
proof -
  let ?cfg = "\<lparr>createHmac = \<lambda>k m. [], ADMIN_SECRET = ''s'', ADMIN_USER = ''admin'', ADMIN_PASS = ''pw'',
       cfg_numstr = \<lambda>_. [], cfg_num = \<lambda>_. 0, cfg_fetch = \<lambda>_. Inl Error\<rparr>"
  have h0: "admin_reachable (admin_restore (NetworkError ''x'') (admin_load None))" by (rule admin_reachable.load)
  have h1: "js_trim '' admin '' = ADMIN_USER ?cfg" by code_simp
  have h2: "js_trim ''pw'' = ADMIN_PASS ?cfg" by code_simp
  have h3: "(1000::int) \<le> 0 + 43200000" by simp
  show ?thesis
    using h0 h1 admin_login_live [OF h0 h1 h2 h3, of "[new_cell ''a'' ''A'' ''Rua A'' 0 0 ''t'']"] by simp
qed

end
